theory Spec2Isabelle
  imports Complex_Main
begin

section \<open>Flight simulator core: a shallow embedding of js/main.js\<close>

text \<open>
  The program is a single JavaScript module. Its numbers are IEEE doubles; the embedding
  reads a double as a real, so the rounding of double arithmetic, NaN and infinities are
  outside the model. The particle attribute arrays hold 32-bit floats: a store into them
  rounds the number to single precision, and that rounding is part of the model (see
  \<open>fround\<close> below). Vectors and quaternions are the
  three.js classes \<open>Vector3\<close> and \<open>Quaternion\<close>; the few methods the module calls are
  written out below as three.js defines them.
\<close>

subsection \<open>three.js: Vector3, Quaternion, MathUtils\<close>

record vec3 =
  vx :: real
  vy :: real
  vz :: real

record quat =
  qx :: real
  qy :: real
  qz :: real
  qw :: real

definition Vector3 :: "real \<Rightarrow> real \<Rightarrow> real \<Rightarrow> vec3" where
  "Vector3 a b c = \<lparr>vx = a, vy = b, vz = c\<rparr>"

definition Quaternion :: "real \<Rightarrow> real \<Rightarrow> real \<Rightarrow> real \<Rightarrow> quat" where
  "Quaternion a b c d = \<lparr>qx = a, qy = b, qz = c, qw = d\<rparr>"

definition lengthSq :: "vec3 \<Rightarrow> real" where
  "lengthSq v = vx v * vx v + vy v * vy v + vz v * vz v"

definition length_v :: "vec3 \<Rightarrow> real" where
  "length_v v = sqrt (vx v * vx v + vy v * vy v + vz v * vz v)"

definition multiplyScalar :: "vec3 \<Rightarrow> real \<Rightarrow> vec3" where
  "multiplyScalar v s = \<lparr>vx = vx v * s, vy = vy v * s, vz = vz v * s\<rparr>"

definition add_v :: "vec3 \<Rightarrow> vec3 \<Rightarrow> vec3" where
  "add_v v u = \<lparr>vx = vx v + vx u, vy = vy v + vy u, vz = vz v + vz u\<rparr>"

definition addScaledVector :: "vec3 \<Rightarrow> vec3 \<Rightarrow> real \<Rightarrow> vec3" where
  "addScaledVector v u s = \<lparr>vx = vx v + vx u * s, vy = vy v + vy u * s, vz = vz v + vz u * s\<rparr>"

text \<open>\<open>Vector3.normalize\<close> is \<open>divideScalar(this.length() || 1)\<close>, and
  \<open>divideScalar(s)\<close> is \<open>multiplyScalar(1 / s)\<close>: the zero vector stays zero.\<close>

definition normalize_v :: "vec3 \<Rightarrow> vec3" where
  "normalize_v v = multiplyScalar v (1 / (if length_v v = 0 then 1 else length_v v))"

text \<open>\<open>Vector3.applyQuaternion\<close>: \<open>v + q.w * t + cross(q.xyz, t)\<close> with
  \<open>t = 2 * cross(q.xyz, v)\<close>.\<close>

definition applyQuaternion :: "vec3 \<Rightarrow> quat \<Rightarrow> vec3" where
  "applyQuaternion v q =
    (let tx = 2 * (qy q * vz v - qz q * vy v);
         ty = 2 * (qz q * vx v - qx q * vz v);
         tz = 2 * (qx q * vy v - qy q * vx v)
     in \<lparr>vx = vx v + qw q * tx + qy q * tz - qz q * ty,
         vy = vy v + qw q * ty + qz q * tx - qx q * tz,
         vz = vz v + qw q * tz + qx q * ty - qy q * tx\<rparr>)"

definition setFromAxisAngle :: "vec3 \<Rightarrow> real \<Rightarrow> quat" where
  "setFromAxisAngle axis angle =
    (let halfAngle = angle / 2; s = sin halfAngle
     in \<lparr>qx = vx axis * s, qy = vy axis * s, qz = vz axis * s, qw = cos halfAngle\<rparr>)"

definition multiply_q :: "quat \<Rightarrow> quat \<Rightarrow> quat" where
  "multiply_q a b =
    \<lparr>qx = qx a * qw b + qw a * qx b + qy a * qz b - qz a * qy b,
     qy = qy a * qw b + qw a * qy b + qz a * qx b - qx a * qz b,
     qz = qz a * qw b + qw a * qz b + qx a * qy b - qy a * qx b,
     qw = qw a * qw b - qx a * qx b - qy a * qy b - qz a * qz b\<rparr>"

definition lengthSq_q :: "quat \<Rightarrow> real" where
  "lengthSq_q q = qx q * qx q + qy q * qy q + qz q * qz q + qw q * qw q"

definition normalize_q :: "quat \<Rightarrow> quat" where
  "normalize_q q =
    (let l = sqrt (lengthSq_q q)
     in if l = 0 then \<lparr>qx = 0, qy = 0, qz = 0, qw = 1\<rparr>
        else \<lparr>qx = qx q * (1 / l), qy = qy q * (1 / l), qz = qz q * (1 / l), qw = qw q * (1 / l)\<rparr>)"

definition clamp :: "real \<Rightarrow> real \<Rightarrow> real \<Rightarrow> real" where
  "clamp v lo hi = max lo (min hi v)"

definition lerp :: "real \<Rightarrow> real \<Rightarrow> real \<Rightarrow> real" where
  "lerp a b t = (1 - t) * a + t * b"

definition smoothstep :: "real \<Rightarrow> real \<Rightarrow> real \<Rightarrow> real" where
  "smoothstep v lo hi =
    (if v \<le> lo then 0
     else if v \<ge> hi then 1
     else (let u = (v - lo) / (hi - lo) in u * u * (3 - 2 * u)))"

subsection \<open>Module constants\<close>

definition MAX_TRAIL_PARTICLES :: nat where "MAX_TRAIL_PARTICLES = 500"
definition MAX_SMOKE_PARTICLES :: nat where "MAX_SMOKE_PARTICLES = 2000"
definition MAX_ENGINE_PARTICLES :: nat where "MAX_ENGINE_PARTICLES = 400"
definition MAX_EXPLOSION_PARTICLES :: nat where "MAX_EXPLOSION_PARTICLES = 2500"

definition OFF_SCREEN_POS :: vec3 where
  "OFF_SCREEN_POS = Vector3 (10 ^ 10) (10 ^ 10) (10 ^ 10)"

definition TERRAIN_SIZE :: real where "TERRAIN_SIZE = 2500"
definition TERRAIN_NOISE_SCALE :: real where "TERRAIN_NOISE_SCALE = 0.008"
definition TERRAIN_NOISE_HEIGHT :: real where "TERRAIN_NOISE_HEIGHT = 60"
definition VOLCANO_RADIUS :: real where "VOLCANO_RADIUS = 600"
definition VOLCANO_HEIGHT :: real where "VOLCANO_HEIGHT = 450"
definition VOLCANO_SLOPE_FACTOR :: real where "VOLCANO_SLOPE_FACTOR = 1.8"
definition CRATER_RADIUS :: real where "CRATER_RADIUS = 250"
definition CRATER_DEPTH :: real where "CRATER_DEPTH = 80"
definition CRATER_RIM_WIDTH_FACTOR :: real where "CRATER_RIM_WIDTH_FACTOR = 0.2"
definition WATER_LEVEL :: real where "WATER_LEVEL = 5.0"
definition AIRCRAFT_GROUND_BUFFER :: real where "AIRCRAFT_GROUND_BUFFER = 1.5"
definition WORLD_BOUNDARY :: real where "WORLD_BOUNDARY = TERRAIN_SIZE / 2 * 0.95"
definition CRASH_VELOCITY_THRESHOLD :: real where "CRASH_VELOCITY_THRESHOLD = - 15.0"
definition CRASH_RESET_DELAY :: nat where "CRASH_RESET_DELAY = 500"

text \<open>The module starts with \<open>import * as THREE from 'three'\<close>: the binding exists before
  any function of the module runs, so the guards \<open>typeof THREE === 'undefined'\<close> are false.
  The constant keeps those guards visible in the embedded functions.\<close>

definition THREE_defined :: bool where "THREE_defined = True"

subsection \<open>Height field\<close>

text \<open>\<open>baseHeight\<close> is the value of the source's variable of that name after its two
  assignments (the rolling noise).\<close>

definition baseHeight :: "real \<Rightarrow> real \<Rightarrow> real" where
  "baseHeight worldX worldZ =
     sin (worldX * TERRAIN_NOISE_SCALE) * cos (worldZ * TERRAIN_NOISE_SCALE) * TERRAIN_NOISE_HEIGHT
     + (sin (worldX * TERRAIN_NOISE_SCALE * 5) + cos (worldZ * TERRAIN_NOISE_SCALE * 7))
       * (TERRAIN_NOISE_HEIGHT * 0.2)"

definition volcanoHeightModifier :: "real \<Rightarrow> real \<Rightarrow> real" where
  "volcanoHeightModifier worldX worldZ =
    (let distSqFromCenter = worldX * worldX + worldZ * worldZ;
         volcanoShape = exp (- distSqFromCenter / (VOLCANO_RADIUS * VOLCANO_RADIUS * VOLCANO_SLOPE_FACTOR));
         coneHeight = volcanoShape * VOLCANO_HEIGHT;
         craterFloorRadius = CRATER_RADIUS * (1.0 - CRATER_RIM_WIDTH_FACTOR);
         craterFloorRadiusSq = craterFloorRadius * craterFloorRadius;
         craterOuterRadiusSq = CRATER_RADIUS * CRATER_RADIUS;
         rimTargetHeight = VOLCANO_HEIGHT;
         craterFloorTarget = rimTargetHeight - CRATER_DEPTH
     in if distSqFromCenter < craterFloorRadiusSq then craterFloorTarget
        else if distSqFromCenter \<ge> craterFloorRadiusSq \<and> distSqFromCenter < craterOuterRadiusSq then
          (let distFromCenter = sqrt distSqFromCenter;
               t = (distFromCenter - craterFloorRadius) / (CRATER_RADIUS - craterFloorRadius);
               smooth_t = smoothstep t 0 1
           in lerp craterFloorTarget rimTargetHeight smooth_t)
        else coneHeight)"

definition getProceduralTerrainHeight :: "real \<Rightarrow> real \<Rightarrow> real" where
  "getProceduralTerrainHeight worldX worldZ =
    (if \<not> THREE_defined then 0
     else
      (let finalHeight = baseHeight worldX worldZ + volcanoHeightModifier worldX worldZ;
           maxHeight = VOLCANO_HEIGHT + TERRAIN_NOISE_HEIGHT * 1.5;
           minHeight = - TERRAIN_NOISE_HEIGHT * 2
       in clamp finalHeight minHeight maxHeight))"

subsection \<open>Module state\<close>

text \<open>\<open>controlParams\<close>: the tuning object. Only the fields the simulation reads are kept
  (sizes, colours and opacities go to the shaders only).\<close>

record controlParams =
  thrustAcceleration :: real
  afterburnerMultiplier :: real
  maxSpeed :: real
  linearDragFactor :: real
  brakeForce :: real
  minSpeed :: real
  pitchRate :: real
  rollRate :: real
  yawRate :: real
  angularAdjustFactor :: real
  angularDamping :: real
  cameraSmoothness :: real
  trailEmissionRate :: real
  trailTriggerSpeed :: real
  trailTriggerAngularVel :: real
  smokeEmissionRate :: real
  smokeBaseVelocityY :: real
  smokeVelocitySpread :: real
  smokeTurbulence :: real
  smokeEmissionRadius :: real
  engineEmissionRate :: real
  engineBaseVelocity :: real
  engineVelocitySpread :: real
  edgeFogStartDistance :: real
  edgeFogFullDistance :: real
  baseFogNear :: real
  baseFogFar :: real
  edgeFogNearFactor :: real
  edgeFogFarFactor :: real
  explosionParticleCount :: real
  explosionBaseVelocity :: real
  explosionVelocitySpread :: real

text \<open>The values the module is loaded with.\<close>

definition defaultParams :: controlParams where
  "defaultParams =
    \<lparr>thrustAcceleration = 50.0, afterburnerMultiplier = 2.5, maxSpeed = 80.0,
     linearDragFactor = 0.5, brakeForce = 60.0, minSpeed = 0.5,
     pitchRate = pi * 0.9, rollRate = pi * 1.2, yawRate = pi * 0.6,
     angularAdjustFactor = 6.0, angularDamping = 0.94, cameraSmoothness = 0.12,
     trailEmissionRate = 225, trailTriggerSpeed = 118, trailTriggerAngularVel = 1.0,
     smokeEmissionRate = 240, smokeBaseVelocityY = 44.0, smokeVelocitySpread = 35.0,
     smokeTurbulence = 0.25, smokeEmissionRadius = 195.0,
     engineEmissionRate = 1500, engineBaseVelocity = - 32.0, engineVelocitySpread = 7.5,
     edgeFogStartDistance = WORLD_BOUNDARY * 0.8, edgeFogFullDistance = WORLD_BOUNDARY,
     baseFogNear = 500, baseFogFar = 3500, edgeFogNearFactor = 0.2, edgeFogFarFactor = 0.5,
     explosionParticleCount = 2400, explosionBaseVelocity = 80.0,
     explosionVelocitySpread = 40.0\<rparr>"

record touchControls =
  pitch :: real
  roll :: real
  thrust :: real
  yaw :: real
  brake :: bool
  afterburner :: bool

text \<open>A \<open>THREE.Points\<close> particle system: the geometry's attribute arrays, one entry per
  slot (\<open>setXYZ(i, ...)\<close> writes entry \<open>i\<close> of a three-component attribute), and the two
  material uniforms the module reads back. The trail systems have no velocity attribute;
  their \<open>velocities\<close> is the empty list.\<close>

record psys =
  positions :: "vec3 list"
  velocities :: "vec3 list"
  startTimes :: "real list"
  alphas :: "real list"
  sizes :: "real list"
  uTime :: real
  uLifetime :: real

text \<open>The \<open>THREE.Group\<close> \<open>aircraftModel\<close>.\<close>

record aircraft =
  position :: vec3
  quaternion :: quat
  visible :: bool

text \<open>The module's variables, the host objects it writes (clock, timers, fog, camera,
  HUD text, console), and two counters: how many values \<open>Math.random()\<close> and the clock
  have handed out so far. An undefined variable is \<open>None\<close> (or \<open>False\<close> where only its
  presence is tested).\<close>

record world =
  aircraftModel :: "aircraft option"
  playerVelocity :: vec3
  playerAngularVelocity :: vec3
  INITIAL_AIRCRAFT_POS :: vec3
  INITIAL_AIRCRAFT_QUAT :: quat
  isCrashing :: bool
  crashResetTimeout :: "nat option"
  pendingTimeouts :: "nat list"
  nextTimeoutId :: nat
  particleTexture :: bool
  terrainMesh :: bool
  leftWingTrail :: "psys option"
  rightWingTrail :: "psys option"
  leftWingTip :: "vec3 option"
  rightWingTip :: "vec3 option"
  currentTrailIndex_left :: nat
  currentTrailIndex_right :: nat
  trailEmitLogTimer :: real
  volcanoSmokeSystem :: "psys option"
  currentSmokeIndex :: nat
  VOLCANO_CRATER_CENTER_Y :: vec3
  engineBurnSystem :: "psys option"
  engineNozzleLeft :: "vec3 option"
  engineNozzleRight :: "vec3 option"
  currentEngineIndex :: nat
  crashExplosionSystem :: "psys option"
  currentExplosionIndex :: nat
  keys :: "string \<Rightarrow> bool"
  touchControls :: touchControls
  controlParams :: controlParams
  elapsedTime :: real
  clockReads :: nat
  rndCount :: nat
  fogNear :: real
  fogFar :: real
  cameraPosition :: vec3
  hudSpeed :: real
  hudAltitude :: real
  console :: "string list"

text \<open>What the host supplies: whether the device has touch input, the stream of
  \<open>Math.random()\<close> values, and for each read of the clock the seconds of wall time since
  the previous read.\<close>

record host =
  isTouchDevice :: bool
  random :: "nat \<Rightarrow> real"
  clockDiff :: "nat \<Rightarrow> real"

subsection \<open>Clock, timers, input handlers\<close>

text \<open>\<open>clock.getDelta()\<close> adds the wall time since the previous read to \<open>elapsedTime\<close> and
  returns it; \<open>clock.getElapsedTime()\<close> calls \<open>getDelta()\<close> and returns \<open>elapsedTime\<close>.\<close>

definition readClock :: "host \<Rightarrow> world \<Rightarrow> world" where
  "readClock h w =
     w\<lparr>elapsedTime := elapsedTime w + clockDiff h (clockReads w), clockReads := Suc (clockReads w)\<rparr>"

text \<open>\<open>Math.pow\<close> on the arguments the module passes (a positive base).\<close>

definition Math_pow :: "real \<Rightarrow> real \<Rightarrow> real" where
  "Math_pow a b = (if b = 0 then 1 else a powr b)"

text \<open>A timer id is truthy when it is not 0; browsers hand out positive ids.\<close>

definition clearTimeout :: "nat \<Rightarrow> world \<Rightarrow> world" where
  "clearTimeout i w = w\<lparr>pendingTimeouts := removeAll i (pendingTimeouts w)\<rparr>"

definition truthy :: "nat option \<Rightarrow> bool" where
  "truthy t = (case t of None \<Rightarrow> False | Some i \<Rightarrow> i \<noteq> 0)"

definition toLowerCase :: "string \<Rightarrow> string" where
  "toLowerCase s =
     map (\<lambda>c. let n = (of_char c :: nat) in if 65 \<le> n \<and> n \<le> 90 then char_of (n + 32) else c) s"

definition keydown :: "string \<Rightarrow> string \<Rightarrow> world \<Rightarrow> world" where
  "keydown key code w =
    (let ks = (keys w)(toLowerCase key := True)
     in w\<lparr>keys := (if code = ''ShiftLeft'' \<or> code = ''ShiftRight'' then ks(''shift'' := True) else ks)\<rparr>)"

definition keyup :: "string \<Rightarrow> string \<Rightarrow> world \<Rightarrow> world" where
  "keyup key code w =
    (let ks = (keys w)(toLowerCase key := False)
     in w\<lparr>keys := (if code = ''ShiftLeft'' \<or> code = ''ShiftRight'' then ks(''shift'' := False) else ks)\<rparr>)"

text \<open>The four joystick handlers of \<open>setupJoysticks\<close>; \<open>joystickOptions.size\<close> is 120. The
  arguments are \<open>data.distance\<close> and \<open>data.angle.radian\<close>.\<close>

definition joystickLeft_move :: "real \<Rightarrow> real \<Rightarrow> world \<Rightarrow> world" where
  "joystickLeft_move dataDistance angle w =
    (let maxDistance = 120 / 2;
         distance = min dataDistance maxDistance;
         force = distance / maxDistance
     in w\<lparr>touchControls := (touchControls w)\<lparr>roll := - cos angle * force, pitch := - sin angle * force\<rparr>\<rparr>)"

definition joystickLeft_end :: "world \<Rightarrow> world" where
  "joystickLeft_end w = w\<lparr>touchControls := (touchControls w)\<lparr>pitch := 0, roll := 0\<rparr>\<rparr>"

definition joystickRight_move :: "real \<Rightarrow> real \<Rightarrow> world \<Rightarrow> world" where
  "joystickRight_move dataDistance angle w =
    (let maxDistance = 120 / 2;
         distance = min dataDistance maxDistance;
         force = distance / maxDistance;
         verticalForce = sin angle * force
     in w\<lparr>touchControls := (touchControls w)
          \<lparr>thrust := max 0 verticalForce,
           afterburner := (verticalForce > 0.9 \<and> force > 0.9),
           yaw := 0\<rparr>\<rparr>)"

definition joystickRight_end :: "world \<Rightarrow> world" where
  "joystickRight_end w =
     w\<lparr>touchControls := (touchControls w)\<lparr>thrust := 0, yaw := 0, afterburner := False\<rparr>\<rparr>"

subsection \<open>Single-precision attributes\<close>

text \<open>The particle attributes are \<open>BufferAttribute\<close>s over \<open>Float32Array\<close>s: a store keeps
  the single-precision number nearest to the value written, ties to even (what
  \<open>Math.fround\<close> returns). \<open>float32Exponent\<close> is the binary exponent the value is
  represented with (from \<open>-126\<close>, where the subnormal numbers start, to 127), and the
  spacing of single-precision numbers there is \<open>2\<close> to that exponent minus 23. From the
  magnitude \<open>2\<^sup>1\<^sup>2\<^sup>8 - 2\<^sup>1\<^sup>0\<^sup>3\<close> on, a store gives an infinity, which the reals do not have:
  \<open>fround\<close> is what a store keeps for the values below that magnitude, which
  \<open>float32Range\<close> singles out.\<close>

definition float32Exponent :: "real \<Rightarrow> int" where
  "float32Exponent x = Max (insert (- 126) (Set.filter (\<lambda>e. 2 powi e \<le> \<bar>x\<bar>) {- 126..127}))"

definition roundTiesToEven :: "real \<Rightarrow> int" where
  "roundTiesToEven r =
    (let n = \<lfloor>r\<rfloor>; d = r - of_int n
     in if d < 1 / 2 then n else if d > 1 / 2 then n + 1 else if even n then n else n + 1)"

definition fround :: "real \<Rightarrow> real" where
  "fround x = (let q = 2 powi (float32Exponent x - 23) in of_int (roundTiesToEven (x / q)) * q)"

definition float32Range :: "real \<Rightarrow> bool" where
  "float32Range x = (\<bar>x\<bar> < 2 ^ 128 - 2 ^ 103)"

text \<open>\<open>BufferAttribute.setX\<close> and \<open>setXYZ\<close>. A write outside the array is ignored by a typed
  array, as by \<open>xs[i := v]\<close>.\<close>

definition setX :: "real list \<Rightarrow> nat \<Rightarrow> real \<Rightarrow> real list" where
  "setX array index x = array[index := fround x]"

definition setXYZ :: "vec3 list \<Rightarrow> nat \<Rightarrow> real \<Rightarrow> real \<Rightarrow> real \<Rightarrow> vec3 list" where
  "setXYZ array index x y z = array[index := Vector3 (fround x) (fround y) (fround z)]"

subsection \<open>Particle ring buffers\<close>

text \<open>The loops over a particle system thread three things: the system, the write cursor
  (\<open>currentTrailIndex[side]\<close>, \<open>currentSmokeIndex\<close>, ...) and the count of random values
  drawn. An attribute write outside the array is ignored by a typed array, as by
  \<open>xs[i := v]\<close>; a read outside is \<open>undefined\<close>, which fails the test \<open>startTime >= 0\<close>.\<close>

record ring =
  sys :: psys
  cursor :: nat
  rnds :: nat

definition retire :: "nat \<Rightarrow> psys \<Rightarrow> psys" where
  "retire i p =
     p\<lparr>positions := setXYZ (positions p) i (vx OFF_SCREEN_POS) (vy OFF_SCREEN_POS) (vz OFF_SCREEN_POS),
       startTimes := setX (startTimes p) i (- 1.0),
       alphas := setX (alphas p) i 0.0\<rparr>"

text \<open>One iteration of the ageing loop that the four update functions share: a slot with
  a timestamp \<open>\<ge> 0\<close> is retired when its age exceeds the lifetime, and otherwise handed to
  the system's own rule \<open>live\<close>.\<close>

definition ageSlot :: "(real \<Rightarrow> nat \<Rightarrow> ring \<Rightarrow> ring) \<Rightarrow> real \<Rightarrow> real \<Rightarrow> nat \<Rightarrow> ring \<Rightarrow> ring" where
  "ageSlot live currentTime lifetime i r =
    (if i < length (startTimes (sys r)) \<and> startTimes (sys r) ! i \<ge> 0 then
       (let age = currentTime - startTimes (sys r) ! i
        in if age > lifetime then r\<lparr>sys := retire i (sys r)\<rparr> else live age i r)
     else r)"

definition ageLoop :: "(real \<Rightarrow> nat \<Rightarrow> ring \<Rightarrow> ring) \<Rightarrow> nat \<Rightarrow> real \<Rightarrow> real \<Rightarrow> ring \<Rightarrow> ring" where
  "ageLoop live n currentTime lifetime r = fold (ageSlot live currentTime lifetime) [0..<n] r"

text \<open>Trails: \<open>alpha = max(0, 1 - age / lifetime)\<close>. Engine burn and explosion compute the
  same value through \<open>lifeRatio = age / lifetime\<close>.\<close>

definition linearFade :: "real \<Rightarrow> real \<Rightarrow> nat \<Rightarrow> ring \<Rightarrow> ring" where
  "linearFade lifetime age i r =
     r\<lparr>sys := (sys r)\<lparr>alphas := setX (alphas (sys r)) i (max 0 (1 - age / lifetime))\<rparr>\<rparr>"

text \<open>Smoke: \<open>alpha = max(0, 1 - lifeRatio\<^sup>2)\<close>, and with turbulence three random values
  are added to the slot's stored velocity.\<close>

definition smokeLive :: "host \<Rightarrow> real \<Rightarrow> real \<Rightarrow> real \<Rightarrow> real \<Rightarrow> nat \<Rightarrow> ring \<Rightarrow> ring" where
  "smokeLive h turbulence deltaTime lifetime age i r =
    (let lifeRatio = age / lifetime;
         p1 = (sys r)\<lparr>alphas := setX (alphas (sys r)) i (max 0 (1 - lifeRatio * lifeRatio))\<rparr>
     in if turbulence > 0 then
          (let k = rnds r;
               tempVector3 = Vector3 ((random h k - 0.5) * turbulence * deltaTime * 50)
                                     ((random h (k + 1) - 0.5) * turbulence * deltaTime * 20)
                                     ((random h (k + 2) - 0.5) * turbulence * deltaTime * 50)
           in r\<lparr>sys := p1\<lparr>velocities :=
                            setXYZ (velocities p1) i
                              (vx (velocities p1 ! i) + vx tempVector3)
                              (vy (velocities p1 ! i) + vy tempVector3)
                              (vz (velocities p1 ! i) + vz tempVector3)\<rparr>,
                rnds := k + 3\<rparr>)
        else r\<lparr>sys := p1\<rparr>)"

text \<open>The emission bodies. Each writes the slot under the cursor and advances the cursor
  modulo the capacity.\<close>

definition trailEmit :: "real \<Rightarrow> vec3 \<Rightarrow> nat \<Rightarrow> ring \<Rightarrow> ring" where
  "trailEmit currentTime wingTipWorldPosition i r =
    (let index = cursor r; p = sys r
     in r\<lparr>sys := p\<lparr>positions := setXYZ (positions p) index (vx wingTipWorldPosition)
                                   (vy wingTipWorldPosition) (vz wingTipWorldPosition),
                    startTimes := setX (startTimes p) index currentTime,
                    alphas := setX (alphas p) index 1.0\<rparr>,
          cursor := (index + 1) mod MAX_TRAIL_PARTICLES\<rparr>)"

definition smokeEmit :: "host \<Rightarrow> controlParams \<Rightarrow> real \<Rightarrow> real \<Rightarrow> nat \<Rightarrow> ring \<Rightarrow> ring" where
  "smokeEmit h cp craterY currentTime i r =
    (let index = cursor r; p = sys r; k = rnds r;
         radius = smokeEmissionRadius cp * sqrt (random h k);
         angle = random h (k + 1) * pi * 2;
         smokeParticlePosition = Vector3 (radius * cos angle) (craterY + 1.0) (radius * sin angle);
         smokeParticleVelocity =
           Vector3 ((random h (k + 2) - 0.5) * smokeVelocitySpread cp)
                   (smokeBaseVelocityY cp * (0.8 + random h (k + 3) * 0.4))
                   ((random h (k + 4) - 0.5) * smokeVelocitySpread cp)
     in r\<lparr>sys := p\<lparr>positions := setXYZ (positions p) index (vx smokeParticlePosition)
                                   (vy smokeParticlePosition) (vz smokeParticlePosition),
                    velocities := setXYZ (velocities p) index (vx smokeParticleVelocity)
                                    (vy smokeParticleVelocity) (vz smokeParticleVelocity),
                    startTimes := setX (startTimes p) index currentTime,
                    alphas := setX (alphas p) index 1.0,
                    sizes := setX (sizes p) index (0.8 + random h (k + 5) * 0.4)\<rparr>,
          cursor := (index + 1) mod MAX_SMOKE_PARTICLES,
          rnds := k + 6\<rparr>)"

definition engineEmit :: "host \<Rightarrow> controlParams \<Rightarrow> vec3 \<Rightarrow> vec3 \<Rightarrow> real \<Rightarrow> nat \<Rightarrow> ring \<Rightarrow> ring" where
  "engineEmit h cp nozzleLeft nozzleRight currentTime i r =
    (let index = cursor r; p = sys r; k = rnds r;
         emissionPosition = (if i mod 2 = 0 then nozzleLeft else nozzleRight);
         speedFactor = 1.0 + (random h k - 0.5) * 0.2;
         engineParticleVelocity =
           Vector3 ((random h (k + 1) - 0.5) * engineVelocitySpread cp)
                   ((random h (k + 2) - 0.5) * engineVelocitySpread cp)
                   (engineBaseVelocity cp * speedFactor)
     in r\<lparr>sys := p\<lparr>positions := setXYZ (positions p) index (vx emissionPosition)
                                   (vy emissionPosition) (vz emissionPosition),
                    velocities := setXYZ (velocities p) index (vx engineParticleVelocity)
                                    (vy engineParticleVelocity) (vz engineParticleVelocity),
                    startTimes := setX (startTimes p) index currentTime,
                    alphas := setX (alphas p) index 1.0,
                    sizes := setX (sizes p) index (0.8 + random h (k + 3) * 0.4)\<rparr>,
          cursor := (index + 1) mod MAX_ENGINE_PARTICLES,
          rnds := k + 4\<rparr>)"

definition explosionEmit :: "host \<Rightarrow> controlParams \<Rightarrow> vec3 \<Rightarrow> real \<Rightarrow> nat \<Rightarrow> ring \<Rightarrow> ring" where
  "explosionEmit h cp pos currentTime i r =
    (let index = cursor r; p = sys r; k = rnds r;
         explosionParticleVelocity =
           multiplyScalar
             (normalize_v (Vector3 (random h k - 0.5) (random h (k + 1) - 0.5) (random h (k + 2) - 0.5)))
             (explosionBaseVelocity cp + (random h (k + 3) - 0.5) * explosionVelocitySpread cp)
     in r\<lparr>sys := p\<lparr>positions := setXYZ (positions p) index (vx pos) (vy pos) (vz pos),
                    velocities := setXYZ (velocities p) index (vx explosionParticleVelocity)
                                    (vy explosionParticleVelocity) (vz explosionParticleVelocity),
                    startTimes := setX (startTimes p) index currentTime,
                    alphas := setX (alphas p) index 1.0,
                    sizes := setX (sizes p) index (0.8 + random h (k + 4) * 0.4)\<rparr>,
          cursor := (index + 1) mod MAX_EXPLOSION_PARTICLES,
          rnds := k + 5\<rparr>)"

subsection \<open>Particle updates\<close>

text \<open>\<open>Matrix4.compose(position, quaternion, scale)\<close> with scale 1, applied to a point:
  how \<open>getWorldPosition\<close> maps a child's local position through a parent.\<close>

definition applyComposed :: "vec3 \<Rightarrow> quat \<Rightarrow> vec3 \<Rightarrow> vec3" where
  "applyComposed p q v =
    (let x2 = qx q + qx q; y2 = qy q + qy q; z2 = qz q + qz q;
         xx = qx q * x2; xy = qx q * y2; xz = qx q * z2;
         yy = qy q * y2; yz = qy q * z2; zz = qz q * z2;
         wx = qw q * x2; wy = qw q * y2; wz = qw q * z2
     in \<lparr>vx = (1 - (yy + zz)) * vx v + (xy - wz) * vy v + (xz + wy) * vz v + vx p,
         vy = (xy + wz) * vx v + (1 - (xx + zz)) * vy v + (yz - wx) * vz v + vy p,
         vz = (xz - wy) * vx v + (yz + wx) * vy v + (1 - (xx + yy)) * vz v + vz p\<rparr>)"

text \<open>The loaded mesh group sits inside \<open>aircraftModel\<close> at the origin with
  \<open>rotation.y = INITIAL_Y_ROTATION\<close> and scale \<open>MODEL_SCALE = 1\<close>; the wing tips and
  nozzles are its children.\<close>

definition INITIAL_Y_ROTATION :: real where "INITIAL_Y_ROTATION = pi"

definition meshGroupQuaternion :: quat where
  "meshGroupQuaternion = Quaternion 0 (sin (INITIAL_Y_ROTATION / 2)) 0 (cos (INITIAL_Y_ROTATION / 2))"

definition getWorldPosition :: "aircraft \<Rightarrow> vec3 \<Rightarrow> vec3" where
  "getWorldPosition a tip =
     applyComposed (position a) (quaternion a) (applyComposed (Vector3 0 0 0) meshGroupQuaternion tip)"

text \<open>The closure \<open>emitParticle\<close> of \<open>updateTrails\<close>, past its presence tests: the loop
  runs while \<open>i < particlesToEmit && emittedCount < MAX_TRAIL_PARTICLES\<close>.\<close>

definition emitParticle :: "real \<Rightarrow> int \<Rightarrow> vec3 \<Rightarrow> ring \<Rightarrow> ring" where
  "emitParticle currentTime particlesToEmit wingTipWorldPosition r =
    (if particlesToEmit \<le> 0 then r
     else fold (trailEmit currentTime wingTipWorldPosition)
            [0..<min (nat particlesToEmit) MAX_TRAIL_PARTICLES] r)"

definition updateExistingParticles :: "real \<Rightarrow> ring \<Rightarrow> ring" where
  "updateExistingParticles currentTime r =
     ageLoop (linearFade (uLifetime (sys r))) MAX_TRAIL_PARTICLES currentTime (uLifetime (sys r)) r"

definition updateTrails :: "host \<Rightarrow> real \<Rightarrow> world \<Rightarrow> world" where
  "updateTrails h deltaTime w =
    (if aircraftModel w = None \<or> leftWingTrail w = None \<or> rightWingTrail w = None
        \<or> \<not> particleTexture w \<or> leftWingTip w = None \<or> rightWingTip w = None then w
     else
      (let w1 = readClock h w;
           currentTime = elapsedTime w1;
           cp = controlParams w;
           a = the (aircraftModel w);
           speed = length_v (playerVelocity w);
           angularSpeed = length_v (playerAngularVelocity w);
           shouldEmit = (speed > trailTriggerSpeed cp
              \<or> (speed > trailTriggerSpeed cp * 0.5 \<and> angularSpeed > trailTriggerAngularVel cp));
           particlesToEmit = (if shouldEmit then \<lceil>trailEmissionRate cp * deltaTime\<rceil> else 0);
           logTimer = trailEmitLogTimer w + deltaTime;
           l = emitParticle currentTime particlesToEmit (getWorldPosition a (the (leftWingTip w)))
                 \<lparr>sys = (the (leftWingTrail w))\<lparr>uTime := currentTime\<rparr>,
                  cursor = currentTrailIndex_left w, rnds = rndCount w\<rparr>;
           r = emitParticle currentTime particlesToEmit (getWorldPosition a (the (rightWingTip w)))
                 \<lparr>sys = (the (rightWingTrail w))\<lparr>uTime := currentTime\<rparr>,
                  cursor = currentTrailIndex_right w, rnds = rndCount w\<rparr>
       in w1\<lparr>leftWingTrail := Some (sys (updateExistingParticles currentTime l)),
             rightWingTrail := Some (sys (updateExistingParticles currentTime r)),
             currentTrailIndex_left := cursor l,
             currentTrailIndex_right := cursor r,
             trailEmitLogTimer := (if logTimer > 1.0 then 0 else logTimer)\<rparr>))"

definition updateVolcanoSmoke :: "host \<Rightarrow> real \<Rightarrow> world \<Rightarrow> world" where
  "updateVolcanoSmoke h deltaTime w =
    (if volcanoSmokeSystem w = None \<or> \<not> particleTexture w then w
     else
      (let w1 = readClock h w;
           currentTime = elapsedTime w1;
           cp = controlParams w;
           p = (the (volcanoSmokeSystem w))\<lparr>uTime := currentTime\<rparr>;
           particlesToEmit = \<lceil>smokeEmissionRate cp * deltaTime\<rceil>;
           r1 = fold (smokeEmit h cp (vy (VOLCANO_CRATER_CENTER_Y w)) currentTime)
                  [0..<min (nat particlesToEmit) MAX_SMOKE_PARTICLES]
                  \<lparr>sys = p, cursor = currentSmokeIndex w, rnds = rndCount w\<rparr>;
           lifetime = uLifetime p;
           turbulence = smokeTurbulence cp;
           r2 = ageLoop (smokeLive h turbulence deltaTime lifetime) MAX_SMOKE_PARTICLES
                  currentTime lifetime r1
       in w1\<lparr>volcanoSmokeSystem := Some (sys r2), currentSmokeIndex := cursor r2,
             rndCount := rnds r2\<rparr>))"

definition updateEngineBurn :: "host \<Rightarrow> real \<Rightarrow> world \<Rightarrow> world" where
  "updateEngineBurn h deltaTime w =
    (if engineBurnSystem w = None \<or> \<not> particleTexture w \<or> engineNozzleLeft w = None
        \<or> engineNozzleRight w = None \<or> aircraftModel w = None then w
     else
      (let w1 = readClock h w;
           currentTime = elapsedTime w1;
           cp = controlParams w;
           p = (the (engineBurnSystem w))\<lparr>uTime := currentTime\<rparr>;
           currentThrustInput =
             (if isTouchDevice h then thrust (touchControls w)
              else if keys w '' '' then 1.0 else 0);
           thrustActive = (currentThrustInput > 0.1);
           particlesToEmit = (if thrustActive then \<lceil>engineEmissionRate cp * deltaTime\<rceil> else 0);
           r0 = \<lparr>sys = p, cursor = currentEngineIndex w, rnds = rndCount w\<rparr>;
           r1 = (if particlesToEmit > 0 then
                   fold (engineEmit h cp (the (engineNozzleLeft w)) (the (engineNozzleRight w)) currentTime)
                     [0..<min (nat particlesToEmit) MAX_ENGINE_PARTICLES] r0
                 else r0);
           lifetime = uLifetime p;
           r2 = ageLoop (linearFade lifetime) MAX_ENGINE_PARTICLES currentTime lifetime r1
       in w1\<lparr>engineBurnSystem := Some (sys r2), currentEngineIndex := cursor r2,
             rndCount := rnds r2\<rparr>))"

definition updateCrashExplosion :: "host \<Rightarrow> real \<Rightarrow> world \<Rightarrow> world" where
  "updateCrashExplosion h deltaTime w =
    (if crashExplosionSystem w = None \<or> \<not> particleTexture w then w
     else
      (let w1 = readClock h w;
           currentTime = elapsedTime w1;
           p = (the (crashExplosionSystem w))\<lparr>uTime := currentTime\<rparr>;
           lifetime = uLifetime p;
           r = ageLoop (linearFade lifetime) MAX_EXPLOSION_PARTICLES currentTime lifetime
                 \<lparr>sys = p, cursor = currentExplosionIndex w, rnds = rndCount w\<rparr>
       in w1\<lparr>crashExplosionSystem := Some (sys r)\<rparr>))"

text \<open>The burst: \<open>count = Math.min(explosionParticleCount, MAX_EXPLOSION_PARTICLES)\<close> and
  the loop runs while \<open>i < count\<close>.\<close>

definition triggerCrashExplosion :: "host \<Rightarrow> vec3 \<Rightarrow> world \<Rightarrow> world" where
  "triggerCrashExplosion h pos w =
    (if crashExplosionSystem w = None \<or> \<not> particleTexture w then w
     else
      (let w1 = readClock h (w\<lparr>console := console w @ [''--- Triggering Crash Explosion ---'']\<rparr>);
           currentTime = elapsedTime w1;
           cp = controlParams w;
           count = min (explosionParticleCount cp) (real MAX_EXPLOSION_PARTICLES);
           r = fold (explosionEmit h cp pos currentTime) [0..<nat \<lceil>count\<rceil>]
                 \<lparr>sys = the (crashExplosionSystem w), cursor = currentExplosionIndex w,
                  rnds = rndCount w\<rparr>
       in w1\<lparr>crashExplosionSystem := Some (sys r), currentExplosionIndex := cursor r,
             rndCount := rnds r\<rparr>))"

subsection \<open>Flight dynamics\<close>

text \<open>The inputs \<open>animate\<close> reads at the top of its physics block: from \<open>touchControls\<close>
  on a touch device, from the key table otherwise. Neither path assigns \<open>yawInput\<close> (the
  lines that would are commented out in the source), and the touch path leaves
  \<open>brakeInput\<close> false.\<close>

record controlInput =
  pitchInput :: real
  rollInput :: real
  yawInput :: real
  thrustInput :: real
  brakeInput :: bool
  afterburnerInput :: bool

definition readControls :: "host \<Rightarrow> world \<Rightarrow> controlInput" where
  "readControls h w =
    (if isTouchDevice h then
       \<lparr>pitchInput = pitch (touchControls w), rollInput = roll (touchControls w), yawInput = 0,
        thrustInput = thrust (touchControls w), brakeInput = False,
        afterburnerInput = afterburner (touchControls w)\<rparr>
     else
       \<lparr>pitchInput = (if keys w ''s'' then 1.0 else if keys w ''w'' then - 1.0 else 0),
        rollInput = (if keys w ''d'' then - 1.0 else if keys w ''a'' then 1.0 else 0),
        yawInput = 0,
        thrustInput = (if keys w '' '' then 1.0 else 0),
        brakeInput = keys w ''b'',
        afterburnerInput = keys w ''shift''\<rparr>)"

definition angularStep :: "controlParams \<Rightarrow> controlInput \<Rightarrow> real \<Rightarrow> vec3 \<Rightarrow> vec3" where
  "angularStep cp inp deltaTime av =
    (let targetPitch = pitchInput inp * pitchRate cp;
         targetRoll = rollInput inp * rollRate cp;
         targetYaw = yawInput inp * yawRate cp;
         av1 = \<lparr>vx = vx av + (targetPitch - vx av) * angularAdjustFactor cp * deltaTime,
                vy = vy av + (targetYaw - vy av) * angularAdjustFactor cp * deltaTime,
                vz = vz av + (targetRoll - vz av) * angularAdjustFactor cp * deltaTime\<rparr>;
         effectiveAngularDamping = Math_pow (angularDamping cp) (deltaTime * 60)
     in multiplyScalar av1 effectiveAngularDamping)"

definition orientationStep :: "vec3 \<Rightarrow> real \<Rightarrow> quat \<Rightarrow> quat" where
  "orientationStep av deltaTime q =
    (let deltaRot = multiplyScalar av deltaTime;
         rx = setFromAxisAngle (Vector3 1 0 0) (vx deltaRot);
         ry = setFromAxisAngle (Vector3 0 1 0) (vy deltaRot);
         rz = setFromAxisAngle (Vector3 0 0 1) (vz deltaRot);
         q1 = multiply_q (multiply_q (multiply_q q ry) rx) rz
     in if lengthSq_q q1 > 1 / 10 ^ 6 then normalize_q q1 else q1)"

text \<open>Thrust, brake and linear drag.\<close>

definition velocityStep :: "controlParams \<Rightarrow> controlInput \<Rightarrow> real \<Rightarrow> quat \<Rightarrow> vec3 \<Rightarrow> vec3" where
  "velocityStep cp inp deltaTime q v =
    (let currentThrustForce = thrustInput inp * thrustAcceleration cp
           * (if afterburnerInput inp then afterburnerMultiplier cp else 1.0);
         forwardDirection = normalize_v (applyQuaternion (Vector3 0 0 (- 1)) q);
         accelerationVector = multiplyScalar forwardDirection (currentThrustForce * deltaTime);
         brakingVector =
           (if brakeInput inp \<and> lengthSq v > 0.01 then
              (if lengthSq v > 1 / 10 ^ 6
               then multiplyScalar (normalize_v v) (- brakeForce cp * deltaTime)
               else Vector3 0 0 0)
            else Vector3 0 0 0);
         v1 = add_v (add_v v accelerationVector) brakingVector;
         dragForce = multiplyScalar v1 (- linearDragFactor cp * deltaTime)
     in add_v v1 dragForce)"

definition speedCap :: "controlParams \<Rightarrow> controlInput \<Rightarrow> vec3 \<Rightarrow> vec3" where
  "speedCap cp inp v =
    (let currentMaxSpeed = maxSpeed cp * (if afterburnerInput inp then afterburnerMultiplier cp else 1.0)
     in if lengthSq v > currentMaxSpeed * currentMaxSpeed then
          (if lengthSq v > 1 / 10 ^ 6 then multiplyScalar (normalize_v v) currentMaxSpeed else v)
        else v)"

definition idleDecay :: "controlParams \<Rightarrow> controlInput \<Rightarrow> vec3 \<Rightarrow> vec3" where
  "idleDecay cp inp v =
    (if thrustInput inp < 0.1 \<and> \<not> brakeInput inp then
       (if lengthSq v < minSpeed cp * minSpeed cp \<and> lengthSq v > 0.01 then
          (let v1 = multiplyScalar v 0.9
           in if lengthSq v1 < 0.01 then Vector3 0 0 0 else v1)
        else v)
     else v)"

text \<open>The velocity update of one frame: thrust, brake and drag, then the speed cap, then
  the idle decay.\<close>

definition flightVelocity :: "controlParams \<Rightarrow> controlInput \<Rightarrow> real \<Rightarrow> quat \<Rightarrow> vec3 \<Rightarrow> vec3" where
  "flightVelocity cp inp deltaTime q v =
     idleDecay cp inp (speedCap cp inp (velocityStep cp inp deltaTime q v))"

text \<open>The older, keyboard-only copy of \<open>main.js\<close> reads the key table where this one reads
  \<open>readControls\<close>, and has the same thrust, brake, drag and speed-cap code. Its idle decay
  differs: it tests only the thrust key, not the brake, and has no lower bound on the
  squared magnitude.\<close>

definition keyboardInput :: "(string \<Rightarrow> bool) \<Rightarrow> controlInput" where
  "keyboardInput ks =
     \<lparr>pitchInput = (if ks ''s'' then 1.0 else if ks ''w'' then - 1.0 else 0),
      rollInput = (if ks ''d'' then - 1.0 else if ks ''a'' then 1.0 else 0),
      yawInput = 0,
      thrustInput = (if ks '' '' then 1.0 else 0),
      brakeInput = ks ''b'',
      afterburnerInput = ks ''shift''\<rparr>"



definition worldWrap :: "vec3 \<Rightarrow> vec3" where
  "worldWrap p =
    (let p1 = (if vx p > WORLD_BOUNDARY then p\<lparr>vx := - WORLD_BOUNDARY + 1\<rparr>
               else if vx p < - WORLD_BOUNDARY then p\<lparr>vx := WORLD_BOUNDARY - 1\<rparr>
               else p)
     in if vz p1 > WORLD_BOUNDARY then p1\<lparr>vz := - WORLD_BOUNDARY + 1\<rparr>
        else if vz p1 < - WORLD_BOUNDARY then p1\<lparr>vz := WORLD_BOUNDARY - 1\<rparr>
        else p1)"

subsection \<open>Collision, crash and reset\<close>

text \<open>The body of \<open>if (!isCrashing) { console.log("CRASH DETECTED!"); ... }\<close>. A call
  \<open>setTimeout(resetSimulation, CRASH_RESET_DELAY)\<close> takes the next timer id and adds it
  to the pending timers; when it fires is the host's choice (event \<open>TimeoutFires\<close>).\<close>

definition crashEntry :: "host \<Rightarrow> world \<Rightarrow> world" where
  "crashEntry h w =
    (let w1 = w\<lparr>console := console w @ [''CRASH DETECTED!''], isCrashing := True\<rparr>;
         w2 = triggerCrashExplosion h (position (the (aircraftModel w1))) w1;
         w3 = w2\<lparr>aircraftModel := map_option (\<lambda>a. a\<lparr>visible := False\<rparr>) (aircraftModel w2),
                 playerVelocity := Vector3 0 0 0,
                 playerAngularVelocity := Vector3 0 0 0\<rparr>;
         w4 = (if truthy (crashResetTimeout w3) then clearTimeout (the (crashResetTimeout w3)) w3 else w3)
     in w4\<lparr>crashResetTimeout := Some (nextTimeoutId w4),
           pendingTimeouts := pendingTimeouts w4 @ [nextTimeoutId w4],
           nextTimeoutId := Suc (nextTimeoutId w4)\<rparr>)"

definition collision :: "host \<Rightarrow> world \<Rightarrow> world" where
  "collision h w =
    (if terrainMesh w then
       (let a = the (aircraftModel w);
            terrainHeightColl = getProceduralTerrainHeight (vx (position a)) (vz (position a));
            effectiveGroundLevel = max terrainHeightColl WATER_LEVEL
        in if vy (position a) < effectiveGroundLevel + AIRCRAFT_GROUND_BUFFER then
             (if vy (playerVelocity w) < CRASH_VELOCITY_THRESHOLD then
                (if \<not> isCrashing w then crashEntry h w else w)
              else
                (let w1 = w\<lparr>aircraftModel :=
                            Some (a\<lparr>position := (position a)\<lparr>vy := effectiveGroundLevel + AIRCRAFT_GROUND_BUFFER\<rparr>\<rparr>)\<rparr>
                 in if vy (playerVelocity w) < 0 then
                      w1\<lparr>playerVelocity :=
                           \<lparr>vx = vx (playerVelocity w) * 0.8,
                            vy = vy (playerVelocity w) * (- 0.2),
                            vz = vz (playerVelocity w) * 0.8\<rparr>,
                         playerAngularVelocity := multiplyScalar (playerAngularVelocity w) 0.5\<rparr>
                    else w1))
           else w)
     else w)"

definition resetSimulation :: "world \<Rightarrow> world" where
  "resetSimulation w0 =
    (let w = w0\<lparr>console := console w0 @ [''--- Resetting Aircraft Position & Physics ---'']\<rparr>
     in case aircraftModel w of
          None \<Rightarrow> w
        | Some a \<Rightarrow>
           (let w1 = w\<lparr>aircraftModel :=
                        Some (a\<lparr>position := INITIAL_AIRCRAFT_POS w,
                                quaternion := INITIAL_AIRCRAFT_QUAT w, visible := True\<rparr>),
                      playerVelocity := Vector3 0 0 0,
                      playerAngularVelocity := Vector3 0 0 0,
                      isCrashing := False\<rparr>
            in if truthy (crashResetTimeout w1)
               then (clearTimeout (the (crashResetTimeout w1)) w1)\<lparr>crashResetTimeout := None\<rparr>
               else w1))"

subsection \<open>The frame\<close>

text \<open>The physics block of \<open>animate\<close>, run when \<open>aircraftModel\<close> exists and
  \<open>isCrashing\<close> is false.\<close>

definition physicsUpdate :: "host \<Rightarrow> real \<Rightarrow> world \<Rightarrow> world" where
  "physicsUpdate h deltaTime w =
    (let a = the (aircraftModel w);
         cp = controlParams w;
         inp = readControls h w;
         av = angularStep cp inp deltaTime (playerAngularVelocity w);
         q = orientationStep av deltaTime (quaternion a);
         v = flightVelocity cp inp deltaTime q (playerVelocity w);
         pos = worldWrap (addScaledVector (position a) v deltaTime)
     in collision h
          (w\<lparr>aircraftModel := Some (a\<lparr>position := pos, quaternion := q\<rparr>),
             playerVelocity := v, playerAngularVelocity := av\<rparr>))"

text \<open>What \<open>animate\<close> does after the physics block whether or not the aircraft is
  crashing: the HUD values (before \<open>toFixed(1)\<close>), the edge fog and the camera follow.
  The light flicker, \<open>camera.lookAt\<close> and the render call only change the picture.\<close>

definition lerp_v :: "vec3 \<Rightarrow> vec3 \<Rightarrow> real \<Rightarrow> vec3" where
  "lerp_v v u t =
     \<lparr>vx = vx v + (vx u - vx v) * t, vy = vy v + (vy u - vy v) * t, vz = vz v + (vz u - vz v) * t\<rparr>"

definition hudFogCamera :: "real \<Rightarrow> world \<Rightarrow> world" where
  "hudFogCamera deltaTime w =
    (let a = the (aircraftModel w);
         cp = controlParams w;
         currentSpeed = length_v (playerVelocity w);
         currentAltitude =
           (if terrainMesh w then
              max 0 (vy (position a)
                - max (getProceduralTerrainHeight (vx (position a)) (vz (position a))) WATER_LEVEL)
            else vy (position a));
         distSq = vx (position a) * vx (position a) + vz (position a) * vz (position a);
         dist = sqrt distSq;
         fogFactor = (if dist > edgeFogStartDistance cp
                      then smoothstep dist (edgeFogStartDistance cp) (edgeFogFullDistance cp) else 0);
         relativeCameraOffset = Vector3 0 7 20;
         cameraOffset = applyQuaternion relativeCameraOffset (quaternion a);
         targetCameraPosition = add_v (position a) cameraOffset;
         lerpFactor = 1.0 - Math_pow (1.0 - cameraSmoothness cp) (deltaTime * 60)
     in w\<lparr>fogNear := lerp (baseFogNear cp) (baseFogNear cp * edgeFogNearFactor cp) fogFactor,
           fogFar := lerp (baseFogFar cp) (baseFogFar cp * edgeFogFarFactor cp) fogFactor,
           cameraPosition := lerp_v (cameraPosition w) targetCameraPosition lerpFactor,
           hudSpeed := currentSpeed,
           hudAltitude := currentAltitude\<rparr>)"

definition updateParticles :: "host \<Rightarrow> real \<Rightarrow> world \<Rightarrow> world" where
  "updateParticles h deltaTime w =
    (if particleTexture w then
       updateCrashExplosion h deltaTime
         (updateEngineBurn h deltaTime (updateVolcanoSmoke h deltaTime (updateTrails h deltaTime w)))
     else w)"

definition animate :: "host \<Rightarrow> world \<Rightarrow> world" where
  "animate h w =
    (let deltaTime = min (clockDiff h (clockReads w)) 0.1;
         w1 = updateParticles h deltaTime (readClock h w)
     in if aircraftModel w1 \<noteq> None \<and> THREE_defined then
          hudFogCamera deltaTime (if \<not> isCrashing w1 then physicsUpdate h deltaTime w1 else w1)
        else w1\<lparr>hudSpeed := 0, hudAltitude := 0\<rparr>)"

subsection \<open>Events\<close>

text \<open>Everything that runs module code after initialisation: an animation frame, a key
  event (\<open>event.key\<close>, \<open>event.code\<close>), a joystick event (handlers exist on touch devices
  only), and the firing of a pending timer, whose callback is \<open>resetSimulation\<close>.\<close>

datatype event =
    Frame
  | KeyDown string string
  | KeyUp string string
  | LeftMove real real
  | LeftEnd
  | RightMove real real
  | RightEnd
  | TimeoutFires nat

fun step :: "host \<Rightarrow> event \<Rightarrow> world \<Rightarrow> world" where
  "step h Frame w = animate h w"
| "step h (KeyDown key code) w = keydown key code w"
| "step h (KeyUp key code) w = keyup key code w"
| "step h (LeftMove d angle) w = (if isTouchDevice h then joystickLeft_move d angle w else w)"
| "step h LeftEnd w = (if isTouchDevice h then joystickLeft_end w else w)"
| "step h (RightMove d angle) w = (if isTouchDevice h then joystickRight_move d angle w else w)"
| "step h RightEnd w = (if isTouchDevice h then joystickRight_end w else w)"
| "step h (TimeoutFires i) w =
     (if i \<in> set (pendingTimeouts w)
      then resetSimulation (w\<lparr>pendingTimeouts := removeAll i (pendingTimeouts w)\<rparr>)
      else w)"

definition run :: "host \<Rightarrow> event list \<Rightarrow> world \<Rightarrow> world" where
  "run h evs w = fold (step h) evs w"

text \<open>The slots an emission of \<open>n\<close> particles writes when the cursor starts at \<open>start\<close>
  in a buffer of the given capacity.\<close>

definition emittedSlots :: "nat \<Rightarrow> nat \<Rightarrow> nat \<Rightarrow> nat set" where
  "emittedSlots capacity start n = (\<lambda>k. (start + k) mod capacity) ` {..<n}"

text \<open>A rule for live slots that writes nothing but alpha values (and possibly
  velocities), and alpha only in the slot it is called for.\<close>

definition alphaOnly :: "(real \<Rightarrow> nat \<Rightarrow> ring \<Rightarrow> ring) \<Rightarrow> bool" where
  "alphaOnly live = (\<forall>age j r.
      startTimes (sys (live age j r)) = startTimes (sys r)
    \<and> positions (sys (live age j r)) = positions (sys r)
    \<and> length (alphas (sys (live age j r))) = length (alphas (sys r))
    \<and> (\<forall>i. i \<noteq> j \<longrightarrow> alphas (sys (live age j r)) ! i = alphas (sys r) ! i))"

subsection \<open>The height function as program text\<close>

text \<open>To state what \<open>getProceduralTerrainHeight\<close> reads and writes, its body is also kept
  as a syntax tree and run by an interpreter of the statements it is written in. The
  interpreter's state holds what a function of this module can reach besides its own
  locals: the number-valued \<open>let\<close> bindings of the module (any of them, under their
  names), the count of \<open>Math.random\<close> draws, and the console's error lines. An identifier
  is looked up among the locals first, then among the module's \<open>const\<close> numbers, then among
  the \<open>let\<close> bindings; an assignment to a name that is not a local writes the \<open>let\<close>
  binding of that name. A failed lookup, a read of an unset local and an assignment to a
  \<open>const\<close> are exceptions in the source and \<open>None\<close> here.\<close>

datatype expr =
    ENum real
  | EVar string
  | ENeg expr
  | EAdd expr expr
  | ESub expr expr
  | EMul expr expr
  | EDiv expr expr
  | ECall0 string
  | ECall1 string expr
  | ECall3 string expr expr expr

datatype cond =
    CLt expr expr
  | CGe expr expr
  | CAnd cond cond
  | COr cond cond
  | CNot cond
  | CTypeofUndefined string
  | CMember string string

datatype stmt =
    SConst string expr
  | SLet string expr
  | SLetUninit string
  | SAssign string expr
  | SAddAssign string expr
  | SIf cond "stmt list" "stmt list"
  | SReturn expr
  | SConsoleError string

record jsState =
  bindings :: "string \<rightharpoonup> real"
  draws :: nat
  errors :: "string list"

text \<open>A local is its name, whether it was declared with \<open>let\<close>, and its value if it has
  one.\<close>

type_synonym scope = "(string \<times> bool \<times> real option) list"

definition moduleConstants :: "string \<rightharpoonup> real" where
  "moduleConstants =
     [''TERRAIN_SIZE'' \<mapsto> TERRAIN_SIZE,
      ''TERRAIN_NOISE_SCALE'' \<mapsto> TERRAIN_NOISE_SCALE,
      ''TERRAIN_NOISE_HEIGHT'' \<mapsto> TERRAIN_NOISE_HEIGHT,
      ''VOLCANO_RADIUS'' \<mapsto> VOLCANO_RADIUS,
      ''VOLCANO_HEIGHT'' \<mapsto> VOLCANO_HEIGHT,
      ''VOLCANO_SLOPE_FACTOR'' \<mapsto> VOLCANO_SLOPE_FACTOR,
      ''CRATER_RADIUS'' \<mapsto> CRATER_RADIUS,
      ''CRATER_DEPTH'' \<mapsto> CRATER_DEPTH,
      ''CRATER_RIM_WIDTH_FACTOR'' \<mapsto> CRATER_RIM_WIDTH_FACTOR,
      ''WATER_LEVEL'' \<mapsto> WATER_LEVEL,
      ''AIRCRAFT_GROUND_BUFFER'' \<mapsto> AIRCRAFT_GROUND_BUFFER,
      ''WORLD_BOUNDARY'' \<mapsto> WORLD_BOUNDARY,
      ''CRASH_VELOCITY_THRESHOLD'' \<mapsto> CRASH_VELOCITY_THRESHOLD]"

text \<open>The imported namespace, with the members the module uses.\<close>

definition moduleNamespaces :: "string \<rightharpoonup> string list" where
  "moduleNamespaces =
     (if THREE_defined
      then [''THREE'' \<mapsto> [''MathUtils'', ''Vector3'', ''Quaternion'', ''Clock'']]
      else Map.empty)"

definition builtin1 :: "string \<Rightarrow> real \<Rightarrow> real option" where
  "builtin1 f v =
    (if f = ''Math.sin'' then Some (sin v)
     else if f = ''Math.cos'' then Some (cos v)
     else if f = ''Math.exp'' then Some (exp v)
     else if f = ''Math.sqrt'' then Some (sqrt v)
     else None)"

definition builtin3 :: "string \<Rightarrow> real \<Rightarrow> real \<Rightarrow> real \<Rightarrow> real option" where
  "builtin3 f a b c =
    (if f = ''THREE.MathUtils.smoothstep'' then Some (smoothstep a b c)
     else if f = ''THREE.MathUtils.lerp'' then Some (lerp a b c)
     else if f = ''THREE.MathUtils.clamp'' then Some (clamp a b c)
     else None)"

definition readVar :: "scope \<Rightarrow> string \<Rightarrow> jsState \<Rightarrow> real option" where
  "readVar ls x s =
    (case map_of ls x of
       Some (m, v) \<Rightarrow> v
     | None \<Rightarrow> (case moduleConstants x of Some c \<Rightarrow> Some c | None \<Rightarrow> bindings s x))"

fun evalExpr :: "host \<Rightarrow> scope \<Rightarrow> expr \<Rightarrow> jsState \<Rightarrow> (real \<times> jsState) option" where
  "evalExpr h ls (ENum c) s = Some (c, s)"
| "evalExpr h ls (EVar x) s = map_option (\<lambda>v. (v, s)) (readVar ls x s)"
| "evalExpr h ls (ENeg e) s = map_option (\<lambda>(v, s'). (- v, s')) (evalExpr h ls e s)"
| "evalExpr h ls (EAdd a b) s =
     (case evalExpr h ls a s of None \<Rightarrow> None
      | Some (u, s1) \<Rightarrow> map_option (\<lambda>(v, s2). (u + v, s2)) (evalExpr h ls b s1))"
| "evalExpr h ls (ESub a b) s =
     (case evalExpr h ls a s of None \<Rightarrow> None
      | Some (u, s1) \<Rightarrow> map_option (\<lambda>(v, s2). (u - v, s2)) (evalExpr h ls b s1))"
| "evalExpr h ls (EMul a b) s =
     (case evalExpr h ls a s of None \<Rightarrow> None
      | Some (u, s1) \<Rightarrow> map_option (\<lambda>(v, s2). (u * v, s2)) (evalExpr h ls b s1))"
| "evalExpr h ls (EDiv a b) s =
     (case evalExpr h ls a s of None \<Rightarrow> None
      | Some (u, s1) \<Rightarrow> map_option (\<lambda>(v, s2). (u / v, s2)) (evalExpr h ls b s1))"
| "evalExpr h ls (ECall0 f) s =
     (if f = ''Math.random'' then Some (random h (draws s), s\<lparr>draws := Suc (draws s)\<rparr>) else None)"
| "evalExpr h ls (ECall1 f a) s =
     (case evalExpr h ls a s of None \<Rightarrow> None
      | Some (u, s1) \<Rightarrow> map_option (\<lambda>r. (r, s1)) (builtin1 f u))"
| "evalExpr h ls (ECall3 f a b c) s =
     (case evalExpr h ls a s of None \<Rightarrow> None
      | Some (u, s1) \<Rightarrow>
         (case evalExpr h ls b s1 of None \<Rightarrow> None
          | Some (v, s2) \<Rightarrow>
             (case evalExpr h ls c s2 of None \<Rightarrow> None
              | Some (w, s3) \<Rightarrow> map_option (\<lambda>r. (r, s3)) (builtin3 f u v w))))"

fun evalCond :: "host \<Rightarrow> scope \<Rightarrow> cond \<Rightarrow> jsState \<Rightarrow> (bool \<times> jsState) option" where
  "evalCond h ls (CLt a b) s =
     (case evalExpr h ls a s of None \<Rightarrow> None
      | Some (u, s1) \<Rightarrow> map_option (\<lambda>(v, s2). (u < v, s2)) (evalExpr h ls b s1))"
| "evalCond h ls (CGe a b) s =
     (case evalExpr h ls a s of None \<Rightarrow> None
      | Some (u, s1) \<Rightarrow> map_option (\<lambda>(v, s2). (u \<ge> v, s2)) (evalExpr h ls b s1))"
| "evalCond h ls (CAnd a b) s =
     (case evalCond h ls a s of None \<Rightarrow> None
      | Some (t, s1) \<Rightarrow> if t then evalCond h ls b s1 else Some (False, s1))"
| "evalCond h ls (COr a b) s =
     (case evalCond h ls a s of None \<Rightarrow> None
      | Some (t, s1) \<Rightarrow> if t then Some (True, s1) else evalCond h ls b s1)"
| "evalCond h ls (CNot a) s = map_option (\<lambda>(t, s1). (\<not> t, s1)) (evalCond h ls a s)"
| "evalCond h ls (CTypeofUndefined x) s =
     Some (map_of ls x = None \<and> moduleConstants x = None \<and> bindings s x = None
           \<and> moduleNamespaces x = None, s)"
| "evalCond h ls (CMember x m) s =
     (case moduleNamespaces x of None \<Rightarrow> None | Some ms \<Rightarrow> Some (m \<in> set ms, s))"

text \<open>A statement completes normally, with the locals and the state it leaves, or
  returns a value. The locals a block declares end with the block.\<close>

datatype completion = Normal scope jsState | Returned real jsState

fun writeLocal :: "string \<Rightarrow> real \<Rightarrow> scope \<Rightarrow> scope option" where
  "writeLocal x v [] = None"
| "writeLocal x v ((y, m, u) # ls) =
     (if x = y then (if m then Some ((y, m, Some v) # ls) else None)
      else map_option (\<lambda>ls'. (y, m, u) # ls') (writeLocal x v ls))"

definition assign :: "string \<Rightarrow> real \<Rightarrow> scope \<Rightarrow> jsState \<Rightarrow> completion option" where
  "assign x v ls s =
    (if map_of ls x \<noteq> None then map_option (\<lambda>ls'. Normal ls' s) (writeLocal x v ls)
     else if moduleConstants x \<noteq> None then None
     else if bindings s x \<noteq> None then Some (Normal ls (s\<lparr>bindings := (bindings s)(x \<mapsto> v)\<rparr>))
     else None)"

fun exec :: "host \<Rightarrow> stmt \<Rightarrow> scope \<Rightarrow> jsState \<Rightarrow> completion option"
  and execs :: "host \<Rightarrow> stmt list \<Rightarrow> scope \<Rightarrow> jsState \<Rightarrow> completion option" where
  "exec h (SConst x e) ls s =
     map_option (\<lambda>(v, s1). Normal ((x, False, Some v) # ls) s1) (evalExpr h ls e s)"
| "exec h (SLet x e) ls s =
     map_option (\<lambda>(v, s1). Normal ((x, True, Some v) # ls) s1) (evalExpr h ls e s)"
| "exec h (SLetUninit x) ls s = Some (Normal ((x, True, None) # ls) s)"
| "exec h (SAssign x e) ls s =
     (case evalExpr h ls e s of None \<Rightarrow> None | Some (v, s1) \<Rightarrow> assign x v ls s1)"
| "exec h (SAddAssign x e) ls s =
     (case readVar ls x s of None \<Rightarrow> None
      | Some u \<Rightarrow>
         (case evalExpr h ls e s of None \<Rightarrow> None | Some (v, s1) \<Rightarrow> assign x (u + v) ls s1))"
| "exec h (SIf c a b) ls s =
     (case evalCond h ls c s of None \<Rightarrow> None
      | Some (t, s1) \<Rightarrow>
         (case (if t then execs h a ls s1 else execs h b ls s1) of
            Some (Normal ls' s2) \<Rightarrow> Some (Normal (drop (length ls' - length ls) ls') s2)
          | r \<Rightarrow> r))"
| "exec h (SReturn e) ls s = map_option (\<lambda>(v, s1). Returned v s1) (evalExpr h ls e s)"
| "exec h (SConsoleError m) ls s = Some (Normal ls (s\<lparr>errors := errors s @ [m]\<rparr>))"
| "execs h [] ls s = Some (Normal ls s)"
| "execs h (c # cs) ls s =
     (case exec h c ls s of Some (Normal ls' s1) \<Rightarrow> execs h cs ls' s1 | r \<Rightarrow> r)"

definition callFunction ::
    "host \<Rightarrow> string list \<Rightarrow> stmt list \<Rightarrow> real list \<Rightarrow> jsState \<Rightarrow> (real \<times> jsState) option" where
  "callFunction h params body args s =
    (case execs h body (zip params (map (\<lambda>v. (True, Some v)) args)) s of
       Some (Returned v s1) \<Rightarrow> Some (v, s1)
     | _ \<Rightarrow> None)"

text \<open>The body of \<open>getProceduralTerrainHeight(worldX, worldZ)\<close>, statement by
  statement.\<close>

definition getProceduralTerrainHeight_params :: "string list" where
  "getProceduralTerrainHeight_params = [''worldX'', ''worldZ'']"

definition getProceduralTerrainHeight_body :: "stmt list" where
  "getProceduralTerrainHeight_body =
    [SIf (COr (CTypeofUndefined ''THREE'') (CNot (CMember ''THREE'' ''MathUtils'')))
        [SConsoleError ''GPTH: THREE undefined'', SReturn (ENum 0)] [],
     SLet ''baseHeight''
       (EMul (EMul (ECall1 ''Math.sin'' (EMul (EVar ''worldX'') (EVar ''TERRAIN_NOISE_SCALE'')))
                 (ECall1 ''Math.cos'' (EMul (EVar ''worldZ'') (EVar ''TERRAIN_NOISE_SCALE''))))
            (EVar ''TERRAIN_NOISE_HEIGHT'')),
     SAddAssign ''baseHeight''
       (EMul (EAdd (ECall1 ''Math.sin'' (EMul (EMul (EVar ''worldX'') (EVar ''TERRAIN_NOISE_SCALE'')) (ENum 5)))
                 (ECall1 ''Math.cos'' (EMul (EMul (EVar ''worldZ'') (EVar ''TERRAIN_NOISE_SCALE'')) (ENum 7))))
            (EMul (EVar ''TERRAIN_NOISE_HEIGHT'') (ENum 0.2))),
     SConst ''distSqFromCenter''
       (EAdd (EMul (EVar ''worldX'') (EVar ''worldX'')) (EMul (EVar ''worldZ'') (EVar ''worldZ''))),
     SConst ''volcanoShape''
       (ECall1 ''Math.exp''
          (EDiv (ENeg (EVar ''distSqFromCenter''))
               (EMul (EMul (EVar ''VOLCANO_RADIUS'') (EVar ''VOLCANO_RADIUS'')) (EVar ''VOLCANO_SLOPE_FACTOR'')))),
     SConst ''coneHeight'' (EMul (EVar ''volcanoShape'') (EVar ''VOLCANO_HEIGHT'')),
     SConst ''craterFloorRadius''
       (EMul (EVar ''CRATER_RADIUS'') (ESub (ENum 1.0) (EVar ''CRATER_RIM_WIDTH_FACTOR''))),
     SConst ''craterFloorRadiusSq'' (EMul (EVar ''craterFloorRadius'') (EVar ''craterFloorRadius'')),
     SConst ''craterOuterRadiusSq'' (EMul (EVar ''CRATER_RADIUS'') (EVar ''CRATER_RADIUS'')),
     SConst ''rimTargetHeight'' (EVar ''VOLCANO_HEIGHT''),
     SConst ''craterFloorTarget'' (ESub (EVar ''rimTargetHeight'') (EVar ''CRATER_DEPTH'')),
     SLetUninit ''volcanoHeightModifier'',
     SIf (CLt (EVar ''distSqFromCenter'') (EVar ''craterFloorRadiusSq''))
        [SAssign ''volcanoHeightModifier'' (EVar ''craterFloorTarget'')]
        [SIf (CAnd (CGe (EVar ''distSqFromCenter'') (EVar ''craterFloorRadiusSq''))
                 (CLt (EVar ''distSqFromCenter'') (EVar ''craterOuterRadiusSq'')))
            [SConst ''distFromCenter'' (ECall1 ''Math.sqrt'' (EVar ''distSqFromCenter'')),
             SConst ''t''
               (EDiv (ESub (EVar ''distFromCenter'') (EVar ''craterFloorRadius''))
                    (ESub (EVar ''CRATER_RADIUS'') (EVar ''craterFloorRadius''))),
             SConst ''smooth_t'' (ECall3 ''THREE.MathUtils.smoothstep'' (EVar ''t'') (ENum 0) (ENum 1)),
             SAssign ''volcanoHeightModifier''
               (ECall3 ''THREE.MathUtils.lerp'' (EVar ''craterFloorTarget'') (EVar ''rimTargetHeight'')
                  (EVar ''smooth_t''))]
            [SAssign ''volcanoHeightModifier'' (EVar ''coneHeight'')]],
     SLet ''finalHeight'' (EAdd (EVar ''baseHeight'') (EVar ''volcanoHeightModifier'')),
     SConst ''maxHeight'' (EAdd (EVar ''VOLCANO_HEIGHT'') (EMul (EVar ''TERRAIN_NOISE_HEIGHT'') (ENum 1.5))),
     SConst ''minHeight'' (EMul (ENeg (EVar ''TERRAIN_NOISE_HEIGHT'')) (ENum 2)),
     SReturn (ECall3 ''THREE.MathUtils.clamp'' (EVar ''finalHeight'') (EVar ''minHeight'') (EVar ''maxHeight''))]"

subsection \<open>Counting crash entries\<close>

text \<open>The number of times the crash-entry block has run and the number of times
  \<open>triggerCrashExplosion\<close> has emitted a burst, read off the console log: the block logs
  \<open>CRASH DETECTED!\<close> first thing, and the trigger logs its banner right after its guard.
  Timers are counted by \<open>nextTimeoutId\<close>, which only \<open>setTimeout\<close> advances.\<close>

definition crashEntries :: "world \<Rightarrow> nat" where
  "crashEntries w = count_list (console w) ''CRASH DETECTED!''"

definition explosionTriggers :: "world \<Rightarrow> nat" where
  "explosionTriggers w = count_list (console w) ''--- Triggering Crash Explosion ---''"

text \<open>The events that can call \<open>resetSimulation\<close>: it is only ever passed to
  \<open>setTimeout\<close>.\<close>

fun isTimeout :: "event \<Rightarrow> bool" where
  "isTimeout (TimeoutFires i) = True"
| "isTimeout ev = False"

text \<open>Between two states, \<open>k\<close> more crash entries, as many more timers, and as many more
  bursts when the explosion system and the texture exist.\<close>

definition crashDelta :: "world \<Rightarrow> world \<Rightarrow> nat \<Rightarrow> bool" where
  "crashDelta w w' k =
    (crashEntries w' = crashEntries w + k
     \<and> explosionTriggers w' = explosionTriggers w
           + (if crashExplosionSystem w \<noteq> None \<and> particleTexture w then k else 0)
     \<and> nextTimeoutId w' = nextTimeoutId w + k
     \<and> particleTexture w' = particleTexture w
     \<and> (crashExplosionSystem w' = None) = (crashExplosionSystem w = None))"

text \<open>How many times the emission loop of a tick runs: in \<open>updateTrails\<close> (for each wing),
  in \<open>updateVolcanoSmoke\<close> and in \<open>updateEngineBurn\<close>.\<close>

definition trailEmitCount :: "world \<Rightarrow> real \<Rightarrow> nat" where
  "trailEmitCount w deltaTime =
    (let cp = controlParams w;
         speed = length_v (playerVelocity w);
         angularSpeed = length_v (playerAngularVelocity w);
         shouldEmit = (speed > trailTriggerSpeed cp
            \<or> (speed > trailTriggerSpeed cp * 0.5 \<and> angularSpeed > trailTriggerAngularVel cp));
         particlesToEmit = (if shouldEmit then \<lceil>trailEmissionRate cp * deltaTime\<rceil> else 0)
     in if particlesToEmit \<le> 0 then 0 else min (nat particlesToEmit) MAX_TRAIL_PARTICLES)"

definition smokeEmitCount :: "world \<Rightarrow> real \<Rightarrow> nat" where
  "smokeEmitCount w deltaTime =
     min (nat \<lceil>smokeEmissionRate (controlParams w) * deltaTime\<rceil>) MAX_SMOKE_PARTICLES"

definition engineEmitCount :: "host \<Rightarrow> world \<Rightarrow> real \<Rightarrow> nat" where
  "engineEmitCount h w deltaTime =
    (let currentThrustInput =
           (if isTouchDevice h then thrust (touchControls w)
            else if keys w '' '' then 1.0 else 0);
         thrustActive = (currentThrustInput > 0.1);
         particlesToEmit =
           (if thrustActive then \<lceil>engineEmissionRate (controlParams w) * deltaTime\<rceil> else 0)
     in if particlesToEmit > 0 then min (nat particlesToEmit) MAX_ENGINE_PARTICLES else 0)"

text \<open>A slot is over age at a time when its timestamp is set and its age exceeds the
  lifetime uniform; it is retired when it holds the sentinel timestamp, alpha 0 and the
  off-screen position. A system has a capacity when its three arrays have that length.\<close>

definition overAge :: "psys \<Rightarrow> real \<Rightarrow> nat \<Rightarrow> bool" where
  "overAge p currentTime i =
     (startTimes p ! i \<ge> 0 \<and> currentTime - startTimes p ! i > uLifetime p)"

definition retired :: "psys \<Rightarrow> nat \<Rightarrow> bool" where
  "retired p i = (startTimes p ! i = - 1 \<and> alphas p ! i = 0 \<and> positions p ! i = OFF_SCREEN_POS)"

definition hasCapacity :: "psys \<Rightarrow> nat \<Rightarrow> bool" where
  "hasCapacity p n = (length (startTimes p) = n \<and> length (alphas p) = n \<and> length (positions p) = n)"

text \<open>An emission body for a buffer of \<open>N\<close> slots: it advances the cursor by one modulo
  \<open>N\<close>, keeps the lengths and the lifetime, and leaves the timestamp, alpha and position of
  every slot but the one under the cursor as they were.\<close>

definition emitter :: "nat \<Rightarrow> (nat \<Rightarrow> ring \<Rightarrow> ring) \<Rightarrow> bool" where
  "emitter N f = (\<forall>k r.
      cursor (f k r) = (cursor r + 1) mod N
    \<and> length (startTimes (sys (f k r))) = length (startTimes (sys r))
    \<and> length (alphas (sys (f k r))) = length (alphas (sys r))
    \<and> length (positions (sys (f k r))) = length (positions (sys r))
    \<and> uLifetime (sys (f k r)) = uLifetime (sys r)
    \<and> (\<forall>i. i \<noteq> cursor r \<longrightarrow>
          startTimes (sys (f k r)) ! i = startTimes (sys r) ! i
        \<and> alphas (sys (f k r)) ! i = alphas (sys r) ! i
        \<and> positions (sys (f k r)) ! i = positions (sys r) ! i))"

subsection \<open>Sample states\<close>

text \<open>The arrays \<open>createVolcanoSmokeSystem\<close>, \<open>createEngineBurnSystem\<close> and
  \<open>createCrashExplosionSystem\<close> allocate (every slot off screen, unset, transparent: all
  of them numbers that single precision holds exactly), and those of \<open>createTrail\<close>, which
  have no velocity attribute.\<close>

definition createSystem :: "nat \<Rightarrow> real \<Rightarrow> psys" where
  "createSystem n lifetime =
    \<lparr>positions = replicate n OFF_SCREEN_POS, velocities = replicate n (Vector3 0 0 0),
     startTimes = replicate n (- 1), alphas = replicate n 0, sizes = replicate n 1,
     uTime = 0, uLifetime = lifetime\<rparr>"

definition createTrail :: "real \<Rightarrow> psys" where
  "createTrail lifetime = (createSystem MAX_TRAIL_PARTICLES lifetime)\<lparr>velocities := []\<rparr>"

definition keyboardHost :: host where
  "keyboardHost = \<lparr>isTouchDevice = False, random = (\<lambda>n. 1 / 2), clockDiff = (\<lambda>n. 1 / 60)\<rparr>"

definition touchHost :: host where
  "touchHost = \<lparr>isTouchDevice = True, random = (\<lambda>n. 1 / 2), clockDiff = (\<lambda>n. 1 / 60)\<rparr>"

text \<open>A state in flight, level, 1000 units up, at rest, with default parameters and no
  key held; the particle texture failed to load, so no particle system exists.\<close>

definition sampleWorld :: world where
  "sampleWorld =
    \<lparr>aircraftModel =
       Some \<lparr>position = Vector3 0 1000 0, quaternion = Quaternion 0 0 0 1, visible = True\<rparr>,
     playerVelocity = Vector3 0 0 0,
     playerAngularVelocity = Vector3 0 0 0,
     INITIAL_AIRCRAFT_POS = Vector3 0 1000 0,
     INITIAL_AIRCRAFT_QUAT = Quaternion 0 0 0 1,
     isCrashing = False,
     crashResetTimeout = None,
     pendingTimeouts = [],
     nextTimeoutId = 1,
     particleTexture = False,
     terrainMesh = True,
     leftWingTrail = None,
     rightWingTrail = None,
     leftWingTip = Some (Vector3 (- 6) 0.5 1),
     rightWingTip = Some (Vector3 6 0.5 1),
     currentTrailIndex_left = 0,
     currentTrailIndex_right = 0,
     trailEmitLogTimer = 0,
     volcanoSmokeSystem = None,
     currentSmokeIndex = 0,
     VOLCANO_CRATER_CENTER_Y = Vector3 0 370.5 0,
     engineBurnSystem = None,
     engineNozzleLeft = Some (Vector3 (- 0.8) 1.9 7.0),
     engineNozzleRight = Some (Vector3 0.8 1.9 7.0),
     currentEngineIndex = 0,
     crashExplosionSystem = None,
     currentExplosionIndex = 0,
     keys = (\<lambda>k. False),
     touchControls =
       \<lparr>pitch = 0, roll = 0, thrust = 0, yaw = 0, brake = False, afterburner = False\<rparr>,
     controlParams = defaultParams,
     elapsedTime = 0,
     clockReads = 0,
     rndCount = 0,
     fogNear = 500,
     fogFar = 3500,
     cameraPosition = Vector3 0 300 2000,
     hudSpeed = 0,
     hudAltitude = 0,
     console = []\<rparr>"

text \<open>The same state with the texture loaded and the five particle systems as created.\<close>

definition particleWorld :: world where
  "particleWorld =
     sampleWorld
       \<lparr>particleTexture := True,
        leftWingTrail := Some (createTrail 1.5),
        rightWingTrail := Some (createTrail 1.5),
        volcanoSmokeSystem := Some (createSystem MAX_SMOKE_PARTICLES 15.0),
        engineBurnSystem := Some (createSystem MAX_ENGINE_PARTICLES 0.17),
        crashExplosionSystem := Some (createSystem MAX_EXPLOSION_PARTICLES 0.8)\<rparr>"

text \<open>An explosion buffer in which slot 17 was emitted at time 0 and every other slot is
  unset, and a state holding it two seconds later.\<close>

definition agedSystem :: psys where
  "agedSystem =
     (createSystem MAX_EXPLOSION_PARTICLES 0.8)
       \<lparr>positions := (replicate MAX_EXPLOSION_PARTICLES OFF_SCREEN_POS)[17 := Vector3 0 1000 0],
        startTimes := (replicate MAX_EXPLOSION_PARTICLES (- 1))[17 := 0],
        alphas := (replicate MAX_EXPLOSION_PARTICLES 0)[17 := 1]\<rparr>"

definition agedWorld :: world where
  "agedWorld = particleWorld\<lparr>crashExplosionSystem := Some agedSystem, elapsedTime := 2\<rparr>"

text \<open>That state after a crash: flag set, aircraft hidden, reset timer 1 pending.\<close>

definition crashedWorld :: world where
  "crashedWorld =
     agedWorld
       \<lparr>aircraftModel :=
          Some \<lparr>position = Vector3 0 371.5 0, quaternion = Quaternion 0 0 0 1, visible = False\<rparr>,
        isCrashing := True,
        crashResetTimeout := Some 1,
        pendingTimeouts := [1],
        nextTimeoutId := 2,
        console := [''CRASH DETECTED!'', ''--- Triggering Crash Explosion ---'']\<rparr>"

text \<open>A state diving at 20 units per second, 380 units up over the centre of the crater
  (where the ground is at 382), with every particle system present.\<close>

definition divingWorld :: world where
  "divingWorld =
     particleWorld
       \<lparr>aircraftModel :=
          Some \<lparr>position = Vector3 0 380 0, quaternion = Quaternion 0 0 0 1, visible = True\<rparr>,
        playerVelocity := Vector3 0 (- 20) 0\<rparr>"

text \<open>A system in which slot 399 was emitted at time 0, and a state at rest, 20 seconds
  in, whose five systems are all like that.\<close>

definition staleSystem :: "psys \<Rightarrow> psys" where
  "staleSystem p =
     p\<lparr>positions := (positions p)[399 := Vector3 0 1000 0],
       startTimes := (startTimes p)[399 := 0],
       alphas := (alphas p)[399 := 1]\<rparr>"

definition staleWorld :: world where
  "staleWorld =
     particleWorld
       \<lparr>leftWingTrail := Some (staleSystem (createTrail 1.5)),
        rightWingTrail := Some (staleSystem (createTrail 1.5)),
        volcanoSmokeSystem := Some (staleSystem (createSystem MAX_SMOKE_PARTICLES 15.0)),
        engineBurnSystem := Some (staleSystem (createSystem MAX_ENGINE_PARTICLES 0.17)),
        crashExplosionSystem := Some (staleSystem (createSystem MAX_EXPLOSION_PARTICLES 0.8)),
        elapsedTime := 20\<rparr>"

section \<open>Properties\<close>

subsection \<open>Height field\<close>

lemma baseHeight_bound: "\<bar>baseHeight x z\<bar> \<le> 84"
proof -
  define s where "s = sin (x * TERRAIN_NOISE_SCALE) * cos (z * TERRAIN_NOISE_SCALE)"
  define t where "t = sin (x * TERRAIN_NOISE_SCALE * 5) + cos (z * TERRAIN_NOISE_SCALE * 7)"
  have a: "\<bar>s\<bar> \<le> 1"
    unfolding s_def by (simp add: abs_mult mult_le_one)
  have b: "\<bar>t\<bar> \<le> 2"
    unfolding t_def
    using abs_sin_le_one[of "x * TERRAIN_NOISE_SCALE * 5"] abs_cos_le_one[of "z * TERRAIN_NOISE_SCALE * 7"]
    by linarith
  have "baseHeight x z = s * 60 + t * 12"
    by (simp add: baseHeight_def TERRAIN_NOISE_HEIGHT_def s_def t_def)
  with a b show ?thesis by linarith
qed

lemma modifier_on_crater_floor:
  assumes "x * x + z * z < (CRATER_RADIUS * (1 - CRATER_RIM_WIDTH_FACTOR))\<^sup>2"
  shows "volcanoHeightModifier x z = VOLCANO_HEIGHT - CRATER_DEPTH"
  using assms by (simp add: volcanoHeightModifier_def Let_def power2_eq_square)

lemma height_on_crater_floor:
  assumes "x * x + z * z < (CRATER_RADIUS * (1 - CRATER_RIM_WIDTH_FACTOR))\<^sup>2"
  shows "getProceduralTerrainHeight x z = baseHeight x z + (VOLCANO_HEIGHT - CRATER_DEPTH)"
  using baseHeight_bound[of x z]
  by (simp add: getProceduralTerrainHeight_def THREE_defined_def modifier_on_crater_floor[OF assms]
      Let_def clamp_def VOLCANO_HEIGHT_def CRATER_DEPTH_def TERRAIN_NOISE_HEIGHT_def)


text \<open>Claim C1, as the code has it. Inside the inner crater radius the volcano/crater
  modifier is the flat floor elevation \<open>VOLCANO_HEIGHT - CRATER_DEPTH\<close>, but the height
  returned is that elevation plus the rolling base noise at the point (the clamp does not
  act there), so it stays within 84 of the floor elevation and is in general not equal
  to it.\<close>

theorem crater_floor_height:
  assumes "worldX * worldX + worldZ * worldZ < (CRATER_RADIUS * (1 - CRATER_RIM_WIDTH_FACTOR))\<^sup>2"
  shows "volcanoHeightModifier worldX worldZ = VOLCANO_HEIGHT - CRATER_DEPTH
       \<and> getProceduralTerrainHeight worldX worldZ
           = baseHeight worldX worldZ + (VOLCANO_HEIGHT - CRATER_DEPTH)
       \<and> \<bar>getProceduralTerrainHeight worldX worldZ - (VOLCANO_HEIGHT - CRATER_DEPTH)\<bar> \<le> 84"
  using modifier_on_crater_floor[OF assms] height_on_crater_floor[OF assms]
    baseHeight_bound[of worldX worldZ]
  by simp

theorem crater_floor_height_witness:
  "(30::real) * 30 + 40 * 40 < (CRATER_RADIUS * (1 - CRATER_RIM_WIDTH_FACTOR))\<^sup>2
   \<and> volcanoHeightModifier 30 40 = 370
   \<and> getProceduralTerrainHeight 30 40 = baseHeight 30 40 + 370
   \<and> \<bar>getProceduralTerrainHeight 30 40 - 370\<bar> \<le> 84"
proof -
  have h: "(30::real) * 30 + 40 * 40 < (CRATER_RADIUS * (1 - CRATER_RIM_WIDTH_FACTOR))\<^sup>2"
    by (simp add: CRATER_RADIUS_def CRATER_RIM_WIDTH_FACTOR_def)
  have e: "VOLCANO_HEIGHT - CRATER_DEPTH = 370"
    by (simp add: VOLCANO_HEIGHT_def CRATER_DEPTH_def)
  show ?thesis
    using h crater_floor_height[OF h] unfolding e by blast
qed

text \<open>Claim C1 as stated fails at the centre of the crater: the squared distance is 0,
  the floor elevation is 370, and the height there is 382.\<close>

theorem crater_floor_counterexample:
  "(0::real) * 0 + 0 * 0 < (CRATER_RADIUS * (1 - CRATER_RIM_WIDTH_FACTOR))\<^sup>2
   \<and> VOLCANO_HEIGHT - CRATER_DEPTH = 370
   \<and> getProceduralTerrainHeight 0 0 = 382
   \<and> getProceduralTerrainHeight 0 0 \<noteq> VOLCANO_HEIGHT - CRATER_DEPTH"
proof -
  have f: "(0::real) * 0 + 0 * 0 < (CRATER_RADIUS * (1 - CRATER_RIM_WIDTH_FACTOR))\<^sup>2"
    by (simp add: CRATER_RADIUS_def CRATER_RIM_WIDTH_FACTOR_def)
  have "getProceduralTerrainHeight 0 0 = 382"
    by (simp add: height_on_crater_floor[OF f] baseHeight_def VOLCANO_HEIGHT_def CRATER_DEPTH_def
        TERRAIN_NOISE_HEIGHT_def)
  with f show ?thesis by (simp add: VOLCANO_HEIGHT_def CRATER_DEPTH_def)
qed

lemma height_at_origin: "getProceduralTerrainHeight 0 0 = 382"
proof -
  have f: "(0::real) * 0 + 0 * 0 < (CRATER_RADIUS * (1 - CRATER_RIM_WIDTH_FACTOR))\<^sup>2"
    by (simp add: CRATER_RADIUS_def CRATER_RIM_WIDTH_FACTOR_def)
  show ?thesis
    by (simp add: height_on_crater_floor[OF f] baseHeight_def VOLCANO_HEIGHT_def CRATER_DEPTH_def
        TERRAIN_NOISE_HEIGHT_def)
qed

lemma moduleConstants_simps [simp]:
  "moduleConstants ''TERRAIN_NOISE_SCALE'' = Some TERRAIN_NOISE_SCALE"
  "moduleConstants ''TERRAIN_NOISE_HEIGHT'' = Some TERRAIN_NOISE_HEIGHT"
  "moduleConstants ''VOLCANO_RADIUS'' = Some VOLCANO_RADIUS"
  "moduleConstants ''VOLCANO_HEIGHT'' = Some VOLCANO_HEIGHT"
  "moduleConstants ''VOLCANO_SLOPE_FACTOR'' = Some VOLCANO_SLOPE_FACTOR"
  "moduleConstants ''CRATER_RADIUS'' = Some CRATER_RADIUS"
  "moduleConstants ''CRATER_DEPTH'' = Some CRATER_DEPTH"
  "moduleConstants ''CRATER_RIM_WIDTH_FACTOR'' = Some CRATER_RIM_WIDTH_FACTOR"
  "moduleConstants ''THREE'' = None"
  "moduleConstants ''worldX'' = None"
  "moduleConstants ''worldZ'' = None"
  by (simp_all add: moduleConstants_def)

lemma getProceduralTerrainHeight_body_run:
  "callFunction h getProceduralTerrainHeight_params getProceduralTerrainHeight_body [x, z] s
     = Some (getProceduralTerrainHeight x z, s)"
  unfolding callFunction_def getProceduralTerrainHeight_body_def getProceduralTerrainHeight_params_def
  by (simp add: readVar_def assign_def builtin1_def builtin3_def moduleNamespaces_def
      THREE_defined_def getProceduralTerrainHeight_def baseHeight_def volcanoHeightModifier_def
      Let_def)
     (simp add: diff_divide_distrib add_divide_distrib)

text \<open>Claim C8. Run from any state of the module's \<open>let\<close> bindings, with any random
  source, after any number of draws and with any console, the body of
  \<open>getProceduralTerrainHeight\<close> returns the value of the embedded function and leaves the
  state exactly as it was: it reads none of the bindings, draws no random number and
  writes nothing. So two calls at the same coordinates return the same height, whatever
  the state, the random source and the calls made before.\<close>

theorem height_two_run:
  "callFunction h getProceduralTerrainHeight_params getProceduralTerrainHeight_body [x, z] s
     = Some (getProceduralTerrainHeight x z, s)
   \<and> map_option fst
        (callFunction h1 getProceduralTerrainHeight_params getProceduralTerrainHeight_body [x, z] s1)
     = map_option fst
        (callFunction h2 getProceduralTerrainHeight_params getProceduralTerrainHeight_body [x, z] s2)"
  by (simp add: getProceduralTerrainHeight_body_run)

theorem height_two_run_witness:
  "callFunction keyboardHost getProceduralTerrainHeight_params getProceduralTerrainHeight_body [0, 0]
      \<lparr>bindings = [''trailEmitLogTimer'' \<mapsto> 1 / 2], draws = 7, errors = []\<rparr>
     = Some (382, \<lparr>bindings = [''trailEmitLogTimer'' \<mapsto> 1 / 2], draws = 7, errors = []\<rparr>)
   \<and> map_option fst
        (callFunction touchHost getProceduralTerrainHeight_params getProceduralTerrainHeight_body [0, 0]
           \<lparr>bindings = Map.empty, draws = 0, errors = [''GPTH: THREE undefined'']\<rparr>)
     = Some 382"
proof -
  let ?s = "\<lparr>bindings = [''trailEmitLogTimer'' \<mapsto> 1 / 2], draws = 7, errors = []\<rparr>"
  let ?t = "\<lparr>bindings = Map.empty, draws = 0, errors = [''GPTH: THREE undefined'']\<rparr>"
  note T = height_two_run[of keyboardHost 0 0 ?s touchHost ?t keyboardHost ?s]
  have a: "callFunction keyboardHost getProceduralTerrainHeight_params getProceduralTerrainHeight_body
      [0, 0] ?s = Some (382, ?s)"
    using conjunct1[OF T] unfolding height_at_origin .
  have "map_option fst
        (callFunction touchHost getProceduralTerrainHeight_params getProceduralTerrainHeight_body [0, 0] ?t)
     = map_option fst
        (callFunction keyboardHost getProceduralTerrainHeight_params getProceduralTerrainHeight_body
           [0, 0] ?s)"
    using conjunct2[OF T] .
  then have b: "map_option fst
        (callFunction touchHost getProceduralTerrainHeight_params getProceduralTerrainHeight_body [0, 0] ?t)
     = Some 382"
    unfolding a by simp
  show ?thesis using a b by (intro conjI)
qed

subsection \<open>World wrap\<close>

text \<open>Claim C9. At the boundary check a position with \<open>x = WORLD_BOUNDARY + 5\<close> is moved
  to \<open>x = - WORLD_BOUNDARY + 1\<close>; any \<open>x\<close> beyond the positive boundary goes to
  \<open>- WORLD_BOUNDARY + 1\<close>, any \<open>x\<close> beyond the negative boundary to \<open>WORLD_BOUNDARY - 1\<close>,
  and the same holds for \<open>z\<close>.\<close>

theorem world_wrap_teleport:
  "(vx p = WORLD_BOUNDARY + 5 \<longrightarrow> vx (worldWrap p) = - WORLD_BOUNDARY + 1)
   \<and> (vx p > WORLD_BOUNDARY \<longrightarrow> vx (worldWrap p) = - WORLD_BOUNDARY + 1)
   \<and> (vx p < - WORLD_BOUNDARY \<longrightarrow> vx (worldWrap p) = WORLD_BOUNDARY - 1)
   \<and> (vz p > WORLD_BOUNDARY \<longrightarrow> vz (worldWrap p) = - WORLD_BOUNDARY + 1)
   \<and> (vz p < - WORLD_BOUNDARY \<longrightarrow> vz (worldWrap p) = WORLD_BOUNDARY - 1)"
  by (simp add: worldWrap_def Let_def WORLD_BOUNDARY_def TERRAIN_SIZE_def)

theorem world_wrap_teleport_witness:
  "vx (Vector3 (WORLD_BOUNDARY + 5) 100 (- WORLD_BOUNDARY - 3)) = WORLD_BOUNDARY + 5
   \<and> vz (Vector3 (WORLD_BOUNDARY + 5) 100 (- WORLD_BOUNDARY - 3)) < - WORLD_BOUNDARY
   \<and> WORLD_BOUNDARY = 1187.5
   \<and> vx (worldWrap (Vector3 (WORLD_BOUNDARY + 5) 100 (- WORLD_BOUNDARY - 3))) = - 1186.5
   \<and> vz (worldWrap (Vector3 (WORLD_BOUNDARY + 5) 100 (- WORLD_BOUNDARY - 3))) = 1186.5"
  using world_wrap_teleport[of "Vector3 (WORLD_BOUNDARY + 5) 100 (- WORLD_BOUNDARY - 3)"]
  by (simp add: Vector3_def WORLD_BOUNDARY_def TERRAIN_SIZE_def)

subsection \<open>Vector facts\<close>

lemma multiplyScalar_zero_vec [simp]: "multiplyScalar (Vector3 0 0 0) s = Vector3 0 0 0"
  by (simp add: multiplyScalar_def Vector3_def)

lemma multiplyScalar_by_zero [simp]: "multiplyScalar v 0 = Vector3 0 0 0"
  by (simp add: multiplyScalar_def Vector3_def)

lemma add_v_zero [simp]: "add_v v (Vector3 0 0 0) = v"
  by (simp add: add_v_def Vector3_def)

lemma lengthSq_multiplyScalar: "lengthSq (multiplyScalar v s) = s * s * lengthSq v"
  by (simp add: lengthSq_def multiplyScalar_def algebra_simps)

lemma length_v_sqrt: "length_v v = sqrt (lengthSq v)"
  by (simp add: length_v_def lengthSq_def)

lemma lengthSq_nonneg [simp]: "0 \<le> lengthSq v"
  by (simp add: lengthSq_def)

lemma length_v_nonneg [simp]: "0 \<le> length_v v"
  by (simp add: length_v_sqrt)

lemma length_v_multiplyScalar: "length_v (multiplyScalar v s) = \<bar>s\<bar> * length_v v"
  by (simp add: length_v_sqrt lengthSq_multiplyScalar real_sqrt_mult)

lemma length_v_zero [simp]: "length_v (Vector3 0 0 0) = 0"
  by (simp add: length_v_def Vector3_def)

lemma length_v_axis: "length_v (Vector3 a 0 0) = \<bar>a\<bar>"
  by (simp add: length_v_def Vector3_def)

subsection \<open>The steps of the flight dynamics\<close>

lemma velocityStep_coasting:
  assumes "thrustInput inp = 0" and "\<not> brakeInput inp"
  shows "velocityStep cp inp deltaTime q v = multiplyScalar v (1 - linearDragFactor cp * deltaTime)"
proof -
  have "velocityStep cp inp deltaTime q v = add_v v (multiplyScalar v (- linearDragFactor cp * deltaTime))"
    using assms by (simp add: velocityStep_def Let_def)
  also have "\<dots> = multiplyScalar v (1 - linearDragFactor cp * deltaTime)"
    by (simp add: add_v_def multiplyScalar_def algebra_simps)
  finally show ?thesis .
qed



lemma idleDecay_skip:
  assumes "lengthSq u \<le> 0.01"
  shows "idleDecay cp inp u = u"
  using assms by (simp add: idleDecay_def Let_def)

lemma speedCap_under:
  assumes "lengthSq v \<le> (maxSpeed cp * (if afterburnerInput inp then afterburnerMultiplier cp else 1))\<^sup>2"
  shows "speedCap cp inp v = v"
  using assms by (cases "afterburnerInput inp"; simp add: speedCap_def Let_def power2_eq_square)




lemma worldWrap_vy [simp]: "vy (worldWrap p) = vy p"
  by (simp add: worldWrap_def Let_def)


lemma sampleWorld_fields [simp]:
  "aircraftModel sampleWorld
     = Some \<lparr>position = Vector3 0 1000 0, quaternion = Quaternion 0 0 0 1, visible = True\<rparr>"
  "playerVelocity sampleWorld = Vector3 0 0 0"
  "playerAngularVelocity sampleWorld = Vector3 0 0 0"
  "controlParams sampleWorld = defaultParams"
  "keys sampleWorld = (\<lambda>k. False)"
  "isCrashing sampleWorld = False"
  "terrainMesh sampleWorld = True"
  "particleTexture sampleWorld = False"
  "yaw (touchControls sampleWorld) = 0"
  by (simp_all add: sampleWorld_def)

lemma readControls_sample [simp]:
  "readControls keyboardHost (sampleWorld\<lparr>playerVelocity := u\<rparr>)
     = \<lparr>pitchInput = 0, rollInput = 0, yawInput = 0, thrustInput = 0, brakeInput = False,
        afterburnerInput = False\<rparr>"
  by (simp add: readControls_def keyboardHost_def)

lemma angularStep_rest:
  assumes "pitchInput inp = 0" "rollInput inp = 0" "yawInput inp = 0"
  shows "angularStep cp inp deltaTime (Vector3 0 0 0) = Vector3 0 0 0"
  using assms by (simp add: angularStep_def Let_def Vector3_def multiplyScalar_def)

lemma orientationStep_rest:
  "orientationStep (Vector3 0 0 0) deltaTime (Quaternion 0 0 0 1) = Quaternion 0 0 0 1"
  by (simp add: orientationStep_def Let_def Vector3_def Quaternion_def multiplyScalar_def
      setFromAxisAngle_def multiply_q_def lengthSq_q_def normalize_q_def)





lemma readControls_keyboard:
  assumes "\<not> isTouchDevice h"
  shows "readControls h w = keyboardInput (keys w)"
  using assms by (simp add: readControls_def keyboardInput_def)





subsection \<open>What each function leaves alone\<close>

lemma readClock_frame [simp]:
  "aircraftModel (readClock h w) = aircraftModel w"
  "playerVelocity (readClock h w) = playerVelocity w"
  "playerAngularVelocity (readClock h w) = playerAngularVelocity w"
  "isCrashing (readClock h w) = isCrashing w"
  "console (readClock h w) = console w"
  "crashResetTimeout (readClock h w) = crashResetTimeout w"
  "pendingTimeouts (readClock h w) = pendingTimeouts w"
  "nextTimeoutId (readClock h w) = nextTimeoutId w"
  "currentExplosionIndex (readClock h w) = currentExplosionIndex w"
  "touchControls (readClock h w) = touchControls w"
  "controlParams (readClock h w) = controlParams w"
  "keys (readClock h w) = keys w"
  "particleTexture (readClock h w) = particleTexture w"
  "terrainMesh (readClock h w) = terrainMesh w"
  by (simp_all add: readClock_def)

lemma updateTrails_frame [simp]:
  "aircraftModel (updateTrails h dt w) = aircraftModel w"
  "playerVelocity (updateTrails h dt w) = playerVelocity w"
  "playerAngularVelocity (updateTrails h dt w) = playerAngularVelocity w"
  "isCrashing (updateTrails h dt w) = isCrashing w"
  "console (updateTrails h dt w) = console w"
  "crashResetTimeout (updateTrails h dt w) = crashResetTimeout w"
  "pendingTimeouts (updateTrails h dt w) = pendingTimeouts w"
  "nextTimeoutId (updateTrails h dt w) = nextTimeoutId w"
  "currentExplosionIndex (updateTrails h dt w) = currentExplosionIndex w"
  "touchControls (updateTrails h dt w) = touchControls w"
  "controlParams (updateTrails h dt w) = controlParams w"
  "keys (updateTrails h dt w) = keys w"
  "particleTexture (updateTrails h dt w) = particleTexture w"
  "terrainMesh (updateTrails h dt w) = terrainMesh w"
  by (simp_all add: updateTrails_def Let_def)

lemma updateVolcanoSmoke_frame [simp]:
  "aircraftModel (updateVolcanoSmoke h dt w) = aircraftModel w"
  "playerVelocity (updateVolcanoSmoke h dt w) = playerVelocity w"
  "playerAngularVelocity (updateVolcanoSmoke h dt w) = playerAngularVelocity w"
  "isCrashing (updateVolcanoSmoke h dt w) = isCrashing w"
  "console (updateVolcanoSmoke h dt w) = console w"
  "crashResetTimeout (updateVolcanoSmoke h dt w) = crashResetTimeout w"
  "pendingTimeouts (updateVolcanoSmoke h dt w) = pendingTimeouts w"
  "nextTimeoutId (updateVolcanoSmoke h dt w) = nextTimeoutId w"
  "currentExplosionIndex (updateVolcanoSmoke h dt w) = currentExplosionIndex w"
  "touchControls (updateVolcanoSmoke h dt w) = touchControls w"
  "controlParams (updateVolcanoSmoke h dt w) = controlParams w"
  "keys (updateVolcanoSmoke h dt w) = keys w"
  "particleTexture (updateVolcanoSmoke h dt w) = particleTexture w"
  "terrainMesh (updateVolcanoSmoke h dt w) = terrainMesh w"
  by (simp_all add: updateVolcanoSmoke_def Let_def)

lemma updateEngineBurn_frame [simp]:
  "aircraftModel (updateEngineBurn h dt w) = aircraftModel w"
  "playerVelocity (updateEngineBurn h dt w) = playerVelocity w"
  "playerAngularVelocity (updateEngineBurn h dt w) = playerAngularVelocity w"
  "isCrashing (updateEngineBurn h dt w) = isCrashing w"
  "console (updateEngineBurn h dt w) = console w"
  "crashResetTimeout (updateEngineBurn h dt w) = crashResetTimeout w"
  "pendingTimeouts (updateEngineBurn h dt w) = pendingTimeouts w"
  "nextTimeoutId (updateEngineBurn h dt w) = nextTimeoutId w"
  "currentExplosionIndex (updateEngineBurn h dt w) = currentExplosionIndex w"
  "touchControls (updateEngineBurn h dt w) = touchControls w"
  "controlParams (updateEngineBurn h dt w) = controlParams w"
  "keys (updateEngineBurn h dt w) = keys w"
  "particleTexture (updateEngineBurn h dt w) = particleTexture w"
  "terrainMesh (updateEngineBurn h dt w) = terrainMesh w"
  by (simp_all add: updateEngineBurn_def Let_def)

lemma updateCrashExplosion_frame [simp]:
  "aircraftModel (updateCrashExplosion h dt w) = aircraftModel w"
  "playerVelocity (updateCrashExplosion h dt w) = playerVelocity w"
  "playerAngularVelocity (updateCrashExplosion h dt w) = playerAngularVelocity w"
  "isCrashing (updateCrashExplosion h dt w) = isCrashing w"
  "console (updateCrashExplosion h dt w) = console w"
  "crashResetTimeout (updateCrashExplosion h dt w) = crashResetTimeout w"
  "pendingTimeouts (updateCrashExplosion h dt w) = pendingTimeouts w"
  "nextTimeoutId (updateCrashExplosion h dt w) = nextTimeoutId w"
  "currentExplosionIndex (updateCrashExplosion h dt w) = currentExplosionIndex w"
  "touchControls (updateCrashExplosion h dt w) = touchControls w"
  "controlParams (updateCrashExplosion h dt w) = controlParams w"
  "keys (updateCrashExplosion h dt w) = keys w"
  "particleTexture (updateCrashExplosion h dt w) = particleTexture w"
  "terrainMesh (updateCrashExplosion h dt w) = terrainMesh w"
  by (simp_all add: updateCrashExplosion_def Let_def)

lemma updateParticles_frame [simp]:
  "aircraftModel (updateParticles h dt w) = aircraftModel w"
  "playerVelocity (updateParticles h dt w) = playerVelocity w"
  "playerAngularVelocity (updateParticles h dt w) = playerAngularVelocity w"
  "isCrashing (updateParticles h dt w) = isCrashing w"
  "console (updateParticles h dt w) = console w"
  "crashResetTimeout (updateParticles h dt w) = crashResetTimeout w"
  "pendingTimeouts (updateParticles h dt w) = pendingTimeouts w"
  "nextTimeoutId (updateParticles h dt w) = nextTimeoutId w"
  "currentExplosionIndex (updateParticles h dt w) = currentExplosionIndex w"
  "touchControls (updateParticles h dt w) = touchControls w"
  "controlParams (updateParticles h dt w) = controlParams w"
  "keys (updateParticles h dt w) = keys w"
  "particleTexture (updateParticles h dt w) = particleTexture w"
  "terrainMesh (updateParticles h dt w) = terrainMesh w"
  by (simp_all add: updateParticles_def)

lemma hudFogCamera_frame [simp]:
  "aircraftModel (hudFogCamera dt w) = aircraftModel w"
  "playerVelocity (hudFogCamera dt w) = playerVelocity w"
  "playerAngularVelocity (hudFogCamera dt w) = playerAngularVelocity w"
  "isCrashing (hudFogCamera dt w) = isCrashing w"
  "console (hudFogCamera dt w) = console w"
  "crashResetTimeout (hudFogCamera dt w) = crashResetTimeout w"
  "pendingTimeouts (hudFogCamera dt w) = pendingTimeouts w"
  "nextTimeoutId (hudFogCamera dt w) = nextTimeoutId w"
  "currentExplosionIndex (hudFogCamera dt w) = currentExplosionIndex w"
  "touchControls (hudFogCamera dt w) = touchControls w"
  "controlParams (hudFogCamera dt w) = controlParams w"
  "keys (hudFogCamera dt w) = keys w"
  "particleTexture (hudFogCamera dt w) = particleTexture w"
  "terrainMesh (hudFogCamera dt w) = terrainMesh w"
  by (simp_all add: hudFogCamera_def Let_def)

lemma triggerCrashExplosion_frame [simp]:
  "aircraftModel (triggerCrashExplosion h p w) = aircraftModel w"
  "playerVelocity (triggerCrashExplosion h p w) = playerVelocity w"
  "playerAngularVelocity (triggerCrashExplosion h p w) = playerAngularVelocity w"
  "isCrashing (triggerCrashExplosion h p w) = isCrashing w"
  "crashResetTimeout (triggerCrashExplosion h p w) = crashResetTimeout w"
  "pendingTimeouts (triggerCrashExplosion h p w) = pendingTimeouts w"
  "nextTimeoutId (triggerCrashExplosion h p w) = nextTimeoutId w"
  "touchControls (triggerCrashExplosion h p w) = touchControls w"
  "controlParams (triggerCrashExplosion h p w) = controlParams w"
  "keys (triggerCrashExplosion h p w) = keys w"
  "particleTexture (triggerCrashExplosion h p w) = particleTexture w"
  "terrainMesh (triggerCrashExplosion h p w) = terrainMesh w"
  by (simp_all add: triggerCrashExplosion_def Let_def readClock_def)

lemma crashEntry_frame [simp]:
  "touchControls (crashEntry h w) = touchControls w"
  "controlParams (crashEntry h w) = controlParams w"
  "keys (crashEntry h w) = keys w"
  "playerVelocity (crashEntry h w) = Vector3 0 0 0"
  "playerAngularVelocity (crashEntry h w) = Vector3 0 0 0"
  "isCrashing (crashEntry h w) = True"
  by (simp_all add: crashEntry_def Let_def clearTimeout_def)

lemma collision_frame [simp]:
  "touchControls (collision h w) = touchControls w"
  "controlParams (collision h w) = controlParams w"
  "keys (collision h w) = keys w"
  by (simp_all add: collision_def Let_def)

lemma physicsUpdate_frame [simp]:
  "touchControls (physicsUpdate h dt w) = touchControls w"
  "controlParams (physicsUpdate h dt w) = controlParams w"
  "keys (physicsUpdate h dt w) = keys w"
  by (simp_all add: physicsUpdate_def Let_def)

lemma animate_frame [simp]:
  "touchControls (animate h w) = touchControls w"
  "controlParams (animate h w) = controlParams w"
  "keys (animate h w) = keys w"
  by (simp_all add: animate_def Let_def)


lemma resetSimulation_frame [simp]:
  "touchControls (resetSimulation w) = touchControls w"
  "controlParams (resetSimulation w) = controlParams w"
  "keys (resetSimulation w) = keys w"
  by (simp_all add: resetSimulation_def Let_def clearTimeout_def split: option.split)

lemma step_yaw:
  assumes "yaw (touchControls w) = 0"
  shows "yaw (touchControls (step h ev w)) = 0"
  using assms
  by (cases ev)
     (simp_all add: keydown_def keyup_def Let_def joystickLeft_move_def joystickLeft_end_def
        joystickRight_move_def joystickRight_end_def)

lemma run_yaw:
  assumes "yaw (touchControls w) = 0"
  shows "yaw (touchControls (run h evs w)) = 0"
  using assms unfolding run_def
  by (induction evs arbitrary: w) (simp_all add: step_yaw)

lemma readControls_yaw [simp]: "yawInput (readControls h w) = 0"
  by (simp add: readControls_def)

lemma angularStep_yaw:
  assumes "yawInput inp = 0"
  shows "vy (angularStep cp inp deltaTime av)
     = vy av * (1 - angularAdjustFactor cp * deltaTime) * Math_pow (angularDamping cp) (deltaTime * 60)"
  using assms by (simp add: angularStep_def Let_def multiplyScalar_def algebra_simps)

lemma collision_angular:
  "\<exists>k\<in>{0, 1 / 2, 1}. vy (playerAngularVelocity (collision h w)) = k * vy (playerAngularVelocity w)"
  by (simp add: collision_def Let_def multiplyScalar_def Vector3_def)

lemma physicsUpdate_angular:
  "playerAngularVelocity (physicsUpdate h deltaTime w) =
     playerAngularVelocity (collision h
       (w\<lparr>aircraftModel := Some ((the (aircraftModel w))
             \<lparr>position := worldWrap (addScaledVector (position (the (aircraftModel w)))
                 (flightVelocity (controlParams w) (readControls h w) deltaTime
                    (orientationStep (angularStep (controlParams w) (readControls h w) deltaTime
                       (playerAngularVelocity w)) deltaTime (quaternion (the (aircraftModel w))))
                    (playerVelocity w)) deltaTime),
               quaternion := orientationStep (angularStep (controlParams w) (readControls h w) deltaTime
                       (playerAngularVelocity w)) deltaTime (quaternion (the (aircraftModel w)))\<rparr>),
          playerVelocity := flightVelocity (controlParams w) (readControls h w) deltaTime
                    (orientationStep (angularStep (controlParams w) (readControls h w) deltaTime
                       (playerAngularVelocity w)) deltaTime (quaternion (the (aircraftModel w))))
                    (playerVelocity w),
          playerAngularVelocity := angularStep (controlParams w) (readControls h w) deltaTime
                       (playerAngularVelocity w)\<rparr>))"
  by (simp add: physicsUpdate_def Let_def)

lemma physicsUpdate_yaw:
  "\<exists>k\<in>{0, 1 / 2, 1}. vy (playerAngularVelocity (physicsUpdate h deltaTime w))
      = k * (vy (playerAngularVelocity w) * (1 - angularAdjustFactor (controlParams w) * deltaTime)
             * Math_pow (angularDamping (controlParams w)) (deltaTime * 60))"
proof -
  obtain w' where w': "playerAngularVelocity (physicsUpdate h deltaTime w)
        = playerAngularVelocity (collision h w')"
      "playerAngularVelocity w' = angularStep (controlParams w) (readControls h w) deltaTime
                       (playerAngularVelocity w)"
    using physicsUpdate_angular[of h deltaTime w] by force
  show ?thesis
    using collision_angular[of h w'] unfolding w' by (simp add: angularStep_yaw)
qed

lemma Math_pow_unit:
  assumes "0 < d" "d \<le> 1" "0 \<le> e"
  shows "0 \<le> Math_pow d e \<and> Math_pow d e \<le> 1"
  using assms by (simp add: Math_pow_def powr_le1)

lemma damped_bound:
  fixes y c P k :: real
  assumes "0 \<le> c" "c \<le> 2" "0 \<le> P" "P \<le> 1" "k \<in> {0, 1 / 2, 1}"
  shows "\<bar>k * (y * (1 - c) * P)\<bar> \<le> \<bar>y\<bar>"
proof -
  have k: "\<bar>k\<bar> \<le> 1" using assms(5) by auto
  have c: "\<bar>1 - c\<bar> \<le> 1" using assms(1,2) by simp
  have P: "\<bar>P\<bar> \<le> 1" using assms(3,4) by simp
  have "\<bar>k * (y * (1 - c) * P)\<bar> = \<bar>k\<bar> * (\<bar>y\<bar> * \<bar>1 - c\<bar> * \<bar>P\<bar>)"
    by (simp add: abs_mult)
  also have "\<dots> \<le> 1 * (\<bar>y\<bar> * 1 * 1)"
    using k c P by (intro mult_mono) simp_all
  finally show ?thesis by simp
qed

text \<open>Claim C10. The yaw input read at the top of the physics block is 0 on both input
  paths; the touch handlers keep \<open>touchControls.yaw\<close> at 0 through every sequence of
  events; so the target yaw rate is 0 and one physics update takes the y component of the
  angular velocity to itself times \<open>1 - angularAdjustFactor * deltaTime\<close> times the
  damping factor \<open>angularDamping ^ (60 * deltaTime)\<close> (times 1/2 on a ground bounce, times
  0 on a crash), whatever the inputs are. With \<open>angularAdjustFactor * deltaTime\<close> in
  [0, 2] and \<open>angularDamping\<close> in (0, 1] its magnitude does not grow.\<close>

theorem yaw_never_driven:
  "yawInput (readControls h w) = 0
   \<and> (yaw (touchControls w) = 0 \<longrightarrow> yaw (touchControls (run h evs w)) = 0)
   \<and> vy (angularStep (controlParams w) (readControls h w) deltaTime av)
        = vy av * (1 - angularAdjustFactor (controlParams w) * deltaTime)
            * Math_pow (angularDamping (controlParams w)) (deltaTime * 60)
   \<and> (\<exists>k\<in>{0, 1 / 2, 1}. vy (playerAngularVelocity (physicsUpdate h deltaTime w))
        = k * (vy (playerAngularVelocity w) * (1 - angularAdjustFactor (controlParams w) * deltaTime)
               * Math_pow (angularDamping (controlParams w)) (deltaTime * 60)))
   \<and> (0 \<le> deltaTime \<and> 0 \<le> angularAdjustFactor (controlParams w) * deltaTime
        \<and> angularAdjustFactor (controlParams w) * deltaTime \<le> 2
        \<and> 0 < angularDamping (controlParams w) \<and> angularDamping (controlParams w) \<le> 1
      \<longrightarrow> \<bar>vy (playerAngularVelocity (physicsUpdate h deltaTime w))\<bar> \<le> \<bar>vy (playerAngularVelocity w)\<bar>)"
proof -
  have bound: "\<bar>vy (playerAngularVelocity (physicsUpdate h deltaTime w))\<bar> \<le> \<bar>vy (playerAngularVelocity w)\<bar>"
    if "0 \<le> deltaTime" "0 \<le> angularAdjustFactor (controlParams w) * deltaTime"
       "angularAdjustFactor (controlParams w) * deltaTime \<le> 2"
       "0 < angularDamping (controlParams w)" "angularDamping (controlParams w) \<le> 1"
  proof -
    obtain k where k: "k \<in> {0, 1 / 2, 1}"
      "vy (playerAngularVelocity (physicsUpdate h deltaTime w))
        = k * (vy (playerAngularVelocity w) * (1 - angularAdjustFactor (controlParams w) * deltaTime)
               * Math_pow (angularDamping (controlParams w)) (deltaTime * 60))"
      using physicsUpdate_yaw[of h deltaTime w] by blast
    have P: "0 \<le> Math_pow (angularDamping (controlParams w)) (deltaTime * 60)
        \<and> Math_pow (angularDamping (controlParams w)) (deltaTime * 60) \<le> 1"
      using that by (intro Math_pow_unit) simp_all
    show ?thesis unfolding k(2) using that P k(1) by (intro damped_bound) simp_all
  qed
  show ?thesis
    using run_yaw[of w h evs] angularStep_yaw[of "readControls h w"] physicsUpdate_yaw[of h deltaTime w] bound
    by simp
qed


theorem yaw_never_driven_witness:
  "yaw (touchControls (sampleWorld\<lparr>playerAngularVelocity := Vector3 0 1 0\<rparr>)) = 0
   \<and> yaw (touchControls (run touchHost
            [RightMove 60 (pi / 2), KeyDown ''q'' ''KeyQ'', Frame, LeftMove 30 0, RightEnd]
            (sampleWorld\<lparr>playerAngularVelocity := Vector3 0 1 0\<rparr>))) = 0
   \<and> yawInput (readControls touchHost (sampleWorld\<lparr>playerAngularVelocity := Vector3 0 1 0\<rparr>)) = 0
   \<and> (0::real) \<le> 0.1
   \<and> angularAdjustFactor (controlParams (sampleWorld\<lparr>playerAngularVelocity := Vector3 0 1 0\<rparr>)) * 0.1
        = 0.6
   \<and> angularDamping (controlParams (sampleWorld\<lparr>playerAngularVelocity := Vector3 0 1 0\<rparr>)) = 0.94
   \<and> \<bar>vy (playerAngularVelocity
          (physicsUpdate touchHost 0.1 (sampleWorld\<lparr>playerAngularVelocity := Vector3 0 1 0\<rparr>)))\<bar>
        \<le> 1"
  using yaw_never_driven[of touchHost "sampleWorld\<lparr>playerAngularVelocity := Vector3 0 1 0\<rparr>"
      "[RightMove 60 (pi / 2), KeyDown ''q'' ''KeyQ'', Frame, LeftMove 30 0, RightEnd]"
      "0.1" "Vector3 0 1 0"]
  by (simp add: defaultParams_def Vector3_def)

subsection \<open>Speed cap\<close>

lemma length_v_normalize:
  assumes "0 < lengthSq v"
  shows "length_v (normalize_v v) = 1"
proof -
  have p: "0 < length_v v" using assms by (simp add: length_v_sqrt)
  then show ?thesis
    by (simp add: normalize_v_def length_v_multiplyScalar)
qed

lemma speedCap_rescale:
  assumes "lengthSq v > (maxSpeed cp * (if afterburnerInput inp then afterburnerMultiplier cp else 1))
                        * (maxSpeed cp * (if afterburnerInput inp then afterburnerMultiplier cp else 1))"
    and "lengthSq v > 1 / 10 ^ 6"
  shows "speedCap cp inp v
       = multiplyScalar v (maxSpeed cp * (if afterburnerInput inp then afterburnerMultiplier cp else 1) / length_v v)"
proof -
  have p: "0 < length_v v" using assms(2) by (simp add: length_v_sqrt)
  have "speedCap cp inp v = multiplyScalar (normalize_v v)
      (maxSpeed cp * (if afterburnerInput inp then afterburnerMultiplier cp else 1))"
    using assms by (cases "afterburnerInput inp"; simp add: speedCap_def Let_def)
  also have "\<dots> = multiplyScalar v (maxSpeed cp * (if afterburnerInput inp then afterburnerMultiplier cp else 1) / length_v v)"
    using p by (simp add: normalize_v_def multiplyScalar_def)
  finally show ?thesis .
qed

lemma speedCap_length:
  fixes cp inp
  defines "cms \<equiv> maxSpeed cp * (if afterburnerInput inp then afterburnerMultiplier cp else 1)"
  assumes "0 \<le> cms"
  shows "length_v (speedCap cp inp v) \<le> cms \<or> (cms < 1 / 1000 \<and> length_v (speedCap cp inp v) \<le> 1 / 1000)"
proof (cases "lengthSq v > cms * cms")
  case False
  then have "speedCap cp inp v = v"
    by (intro speedCap_under) (simp add: cms_def power2_eq_square)
  moreover have "length_v v \<le> cms"
  proof -
    have "sqrt (lengthSq v) \<le> sqrt (cms * cms)" using False by (intro real_sqrt_le_mono) simp
    then show ?thesis using assms(2) by (simp add: length_v_sqrt)
  qed
  ultimately show ?thesis by simp
next
  case over: True
  show ?thesis
  proof (cases "lengthSq v > 1 / 10 ^ 6")
    case True
    have p: "0 < length_v v" using True by (simp add: length_v_sqrt)
    have "speedCap cp inp v = multiplyScalar v (cms / length_v v)"
      using speedCap_rescale[of cp inp v] over True unfolding cms_def by blast
    then have "length_v (speedCap cp inp v) = cms"
      using p assms(2) by (simp add: length_v_multiplyScalar)
    then show ?thesis by simp
  next
    case False
    then have e: "speedCap cp inp v = v"
      using over by (cases "afterburnerInput inp"; simp add: speedCap_def Let_def cms_def)
    have "lengthSq v \<le> (1 / 1000)\<^sup>2" using False by (simp add: power2_eq_square)
    then have "sqrt (lengthSq v) \<le> sqrt ((1 / 1000)\<^sup>2)" by (rule real_sqrt_le_mono)
    then have l: "length_v v \<le> 1 / 1000" unfolding length_v_sqrt real_sqrt_abs by simp
    have "cms * cms < (1 / 1000) * (1 / 1000)" using over False by simp
    then have "cms < 1 / 1000"
    proof -
      have "\<not> 1 / 1000 \<le> cms"
      proof
        assume "1 / 1000 \<le> cms"
        then have "(1 / 1000) * (1 / 1000) \<le> cms * cms" by (intro mult_mono) simp_all
        with \<open>cms * cms < (1 / 1000) * (1 / 1000)\<close> show False by linarith
      qed
      then show ?thesis by simp
    qed
    then show ?thesis using l e by simp
  qed
qed


lemma idleDecay_length: "length_v (idleDecay cp inp v) \<le> length_v v"
proof -
  have "length_v (multiplyScalar v 0.9) \<le> length_v v"
    by (simp add: length_v_multiplyScalar)
  then show ?thesis
    by (simp add: idleDecay_def Let_def)
qed

lemma flightVelocity_length:
  assumes "0 \<le> maxSpeed cp" and "1 \<le> afterburnerMultiplier cp"
  shows "length_v (flightVelocity cp inp deltaTime q v) \<le> maxSpeed cp * afterburnerMultiplier cp + 1 / 1000"
    and "1 / 1000 \<le> maxSpeed cp \<Longrightarrow>
         length_v (flightVelocity cp inp deltaTime q v) \<le> maxSpeed cp * afterburnerMultiplier cp"
proof -
  define cms where "cms = maxSpeed cp * (if afterburnerInput inp then afterburnerMultiplier cp else 1)"
  define u where "u = velocityStep cp inp deltaTime q v"
  have m: "maxSpeed cp \<le> maxSpeed cp * afterburnerMultiplier cp"
    using assms by (simp add: mult_le_cancel_left1)
  have c: "0 \<le> cms" "cms \<le> maxSpeed cp * afterburnerMultiplier cp" "maxSpeed cp \<le> cms"
    using assms m by (simp_all add: cms_def)
  have s: "length_v (speedCap cp inp u) \<le> cms \<or> (cms < 1 / 1000 \<and> length_v (speedCap cp inp u) \<le> 1 / 1000)"
    using speedCap_length[of cp inp u] c(1) unfolding cms_def by blast
  have i: "length_v (flightVelocity cp inp deltaTime q v) \<le> length_v (speedCap cp inp u)"
    unfolding flightVelocity_def u_def by (rule idleDecay_length)
  show "length_v (flightVelocity cp inp deltaTime q v) \<le> maxSpeed cp * afterburnerMultiplier cp + 1 / 1000"
    using s i c by linarith
  show "length_v (flightVelocity cp inp deltaTime q v) \<le> maxSpeed cp * afterburnerMultiplier cp"
    if "1 / 1000 \<le> maxSpeed cp"
    using s i c that by linarith
qed

lemma collision_velocity_length:
  "length_v (playerVelocity (collision h w)) \<le> length_v (playerVelocity w)"
proof -
  let ?v = "playerVelocity w"
  have b: "length_v \<lparr>vx = vx ?v * 0.8, vy = vy ?v * (- 0.2), vz = vz ?v * 0.8\<rparr> \<le> length_v ?v"
  proof -
    define a where "a = vx ?v * vx ?v"
    define b where "b = vy ?v * vy ?v"
    define c where "c = vz ?v * vz ?v"
    have n: "0 \<le> a" "0 \<le> b" "0 \<le> c" by (simp_all add: a_def b_def c_def)
    have "lengthSq \<lparr>vx = vx ?v * 0.8, vy = vy ?v * (- 0.2), vz = vz ?v * 0.8\<rparr>
        = 64 / 100 * a + 4 / 100 * b + 64 / 100 * c"
      by (simp add: lengthSq_def a_def b_def c_def)
    also have "\<dots> \<le> a + b + c" using n by linarith
    also have "\<dots> = lengthSq ?v" by (simp add: lengthSq_def a_def b_def c_def)
    finally show ?thesis unfolding length_v_sqrt by (rule real_sqrt_le_mono)
  qed
  show ?thesis
    using b by (simp add: collision_def Let_def)
qed


lemma physicsUpdate_velocity:
  "\<exists>w' q. playerVelocity (physicsUpdate h deltaTime w) = playerVelocity (collision h w')
     \<and> playerVelocity w' = flightVelocity (controlParams w) (readControls h w) deltaTime q (playerVelocity w)"
proof -
  let ?q = "orientationStep (angularStep (controlParams w) (readControls h w) deltaTime
                       (playerAngularVelocity w)) deltaTime (quaternion (the (aircraftModel w)))"
  let ?v = "flightVelocity (controlParams w) (readControls h w) deltaTime ?q (playerVelocity w)"
  let ?w' = "w\<lparr>aircraftModel := Some ((the (aircraftModel w))
             \<lparr>position := worldWrap (addScaledVector (position (the (aircraftModel w))) ?v deltaTime),
               quaternion := ?q\<rparr>),
          playerVelocity := ?v,
          playerAngularVelocity := angularStep (controlParams w) (readControls h w) deltaTime
                       (playerAngularVelocity w)\<rparr>"
  have "physicsUpdate h deltaTime w = collision h ?w'"
    by (simp add: physicsUpdate_def Let_def)
  moreover have "playerVelocity ?w' = ?v" by simp
  ultimately show ?thesis by metis
qed

lemma physicsUpdate_velocity_bound:
  assumes "\<And>inp dt q v. length_v (flightVelocity (controlParams w) inp dt q v) \<le> B"
  shows "length_v (playerVelocity (physicsUpdate h deltaTime w)) \<le> B"
proof -
  obtain w' q where w': "playerVelocity (physicsUpdate h deltaTime w) = playerVelocity (collision h w')"
     "playerVelocity w' = flightVelocity (controlParams w) (readControls h w) deltaTime q (playerVelocity w)"
    using physicsUpdate_velocity by blast
  have "length_v (playerVelocity (collision h w')) \<le> length_v (playerVelocity w')"
    by (rule collision_velocity_length)
  also have "\<dots> \<le> B" unfolding w'(2) by (rule assms)
  finally show ?thesis unfolding w'(1) .
qed

lemma animate_velocity_bound:
  assumes "\<And>inp dt q v. length_v (flightVelocity (controlParams w) inp dt q v) \<le> B"
    and "length_v (playerVelocity w) \<le> B"
  shows "length_v (playerVelocity (animate h w)) \<le> B"
proof -
  define dt where "dt = min (clockDiff h (clockReads w)) 0.1"
  define w1 where "w1 = updateParticles h dt (readClock h w)"
  have c: "controlParams w1 = controlParams w" and v: "playerVelocity w1 = playerVelocity w"
    by (simp_all add: w1_def)
  have p: "length_v (playerVelocity (physicsUpdate h dt w1)) \<le> B"
    by (rule physicsUpdate_velocity_bound) (simp add: c assms(1))
  have "animate h w =
      (if aircraftModel w1 \<noteq> None \<and> THREE_defined then
          hudFogCamera dt (if \<not> isCrashing w1 then physicsUpdate h dt w1 else w1)
        else w1\<lparr>hudSpeed := 0, hudAltitude := 0\<rparr>)"
    by (simp add: animate_def Let_def dt_def w1_def)
  then show ?thesis
    using p assms(2) v by simp
qed

lemma resetSimulation_velocity:
  "playerVelocity (resetSimulation w) = Vector3 0 0 0 \<or> playerVelocity (resetSimulation w) = playerVelocity w"
  by (simp add: resetSimulation_def Let_def clearTimeout_def split: option.split)

lemma step_controlParams [simp]: "controlParams (step h ev w) = controlParams w"
  by (cases ev)
     (simp_all add: keydown_def keyup_def Let_def joystickLeft_move_def joystickLeft_end_def
        joystickRight_move_def joystickRight_end_def)

lemma step_velocity_bound:
  assumes "\<And>inp dt q v. length_v (flightVelocity (controlParams w) inp dt q v) \<le> B"
    and "0 \<le> B" and "length_v (playerVelocity w) \<le> B"
  shows "length_v (playerVelocity (step h ev w)) \<le> B"
proof (cases ev)
  case Frame
  then show ?thesis using animate_velocity_bound[OF assms(1,3)] by simp
next
  case (TimeoutFires i)
  then show ?thesis
    using assms(2,3) resetSimulation_velocity[of "w\<lparr>pendingTimeouts := removeAll i (pendingTimeouts w)\<rparr>"]
    by auto
qed (use assms(3) in \<open>simp_all add: keydown_def keyup_def Let_def joystickLeft_move_def joystickLeft_end_def
        joystickRight_move_def joystickRight_end_def\<close>)

lemma run_controlParams [simp]: "controlParams (run h evs w) = controlParams w"
  unfolding run_def by (induction evs arbitrary: w) simp_all

lemma run_velocity_bound:
  assumes "\<And>inp dt q v. length_v (flightVelocity (controlParams w) inp dt q v) \<le> B"
    and "0 \<le> B" and "length_v (playerVelocity w) \<le> B"
  shows "length_v (playerVelocity (run h evs w)) \<le> B"
  using assms unfolding run_def
proof (induction evs arbitrary: w)
  case Nil
  then show ?case by simp
next
  case (Cons ev evs)
  have "length_v (playerVelocity (step h ev w)) \<le> B"
    by (rule step_velocity_bound) (use Cons.prems in simp_all)
  then show ?case
    using Cons.IH[of "step h ev w"] Cons.prems by simp
qed

text \<open>Claim C3. Start from zero velocity and let any sequence of events happen (frames,
  key and joystick events, timer firings; the tuning parameters stay as they are, with
  \<open>maxSpeed \<ge> 0\<close> and \<open>afterburnerMultiplier \<ge> 1\<close>). After every event the speed is at most
  \<open>maxSpeed * afterburnerMultiplier + 1/1000\<close>, and at most \<open>maxSpeed * afterburnerMultiplier\<close>
  when \<open>maxSpeed \<ge> 1/1000\<close>. The speed-cap step replaces a velocity over the current cap
  (and with squared length over 1e-6) by the same direction scaled to the cap.\<close>

theorem speed_cap_invariant:
  assumes "playerVelocity w = Vector3 0 0 0"
    and "0 \<le> maxSpeed (controlParams w)" and "1 \<le> afterburnerMultiplier (controlParams w)"
  shows "length_v (playerVelocity (run h evs w))
           \<le> maxSpeed (controlParams w) * afterburnerMultiplier (controlParams w) + 1 / 1000
       \<and> (1 / 1000 \<le> maxSpeed (controlParams w) \<longrightarrow>
            length_v (playerVelocity (run h evs w))
              \<le> maxSpeed (controlParams w) * afterburnerMultiplier (controlParams w))
       \<and> (lengthSq v > (maxSpeed cp * (if afterburnerInput inp then afterburnerMultiplier cp else 1))
                        * (maxSpeed cp * (if afterburnerInput inp then afterburnerMultiplier cp else 1))
            \<and> lengthSq v > 1 / 10 ^ 6 \<longrightarrow>
          speedCap cp inp v = multiplyScalar v
              (maxSpeed cp * (if afterburnerInput inp then afterburnerMultiplier cp else 1) / length_v v))"
proof -
  let ?M = "maxSpeed (controlParams w) * afterburnerMultiplier (controlParams w)"
  have M: "0 \<le> ?M" using assms(2,3) by simp
  have a: "length_v (playerVelocity (run h evs w)) \<le> ?M + 1 / 1000"
    by (rule run_velocity_bound) (use assms M flightVelocity_length(1) in simp_all)
  have b: "length_v (playerVelocity (run h evs w)) \<le> ?M" if "1 / 1000 \<le> maxSpeed (controlParams w)"
    by (rule run_velocity_bound) (use assms M that flightVelocity_length(2) in simp_all)
  show ?thesis using a b speedCap_rescale[of cp inp v] by blast
qed


theorem speed_cap_invariant_witness:
  "playerVelocity sampleWorld = Vector3 0 0 0
   \<and> (0::real) \<le> maxSpeed (controlParams sampleWorld)
   \<and> 1 \<le> afterburnerMultiplier (controlParams sampleWorld)
   \<and> 1 / 1000 \<le> maxSpeed (controlParams sampleWorld)
   \<and> length_v (playerVelocity (run keyboardHost
         [KeyDown '' '' ''Space'', KeyDown ''Shift'' ''ShiftLeft'', Frame, Frame, Frame] sampleWorld))
        \<le> 200
   \<and> speedCap defaultParams
         \<lparr>pitchInput = 0, rollInput = 0, yawInput = 0, thrustInput = 1, brakeInput = False,
           afterburnerInput = True\<rparr> (Vector3 300 0 0) = Vector3 200 0 0"
proof -
  let ?inp = "\<lparr>pitchInput = 0, rollInput = 0, yawInput = 0, thrustInput = 1, brakeInput = False,
           afterburnerInput = True\<rparr>"
  note T = speed_cap_invariant[where w = sampleWorld and h = keyboardHost
       and evs = "[KeyDown '' '' ''Space'', KeyDown ''Shift'' ''ShiftLeft'', Frame, Frame, Frame]"
       and v = "Vector3 300 0 0" and cp = defaultParams and inp = ?inp]
  have h: "playerVelocity sampleWorld = Vector3 0 0 0" "(0::real) \<le> maxSpeed (controlParams sampleWorld)"
     "1 \<le> afterburnerMultiplier (controlParams sampleWorld)" "1 / 1000 \<le> maxSpeed (controlParams sampleWorld)"
    by (simp_all add: defaultParams_def)
  have a: "length_v (playerVelocity (run keyboardHost
         [KeyDown '' '' ''Space'', KeyDown ''Shift'' ''ShiftLeft'', Frame, Frame, Frame] sampleWorld)) \<le> 200"
    using T[OF h(1,2,3)] h(4) by (simp add: defaultParams_def)
  have c: "maxSpeed defaultParams * (if afterburnerInput ?inp then afterburnerMultiplier defaultParams else 1)
      = 200"
    by (simp add: defaultParams_def)
  have l: "lengthSq (Vector3 300 0 0) = 90000" by (simp add: lengthSq_def Vector3_def)
  have ll: "length_v (Vector3 300 0 0) = 300" by (simp add: length_v_axis)
  have "speedCap defaultParams ?inp (Vector3 300 0 0) = multiplyScalar (Vector3 300 0 0) (200 / 300)"
    using T[OF h(1,2,3)] unfolding c l ll by simp
  then have b: "speedCap defaultParams ?inp (Vector3 300 0 0) = Vector3 200 0 0"
    by (simp add: multiplyScalar_def Vector3_def)
  show ?thesis using h a b by blast
qed

subsection \<open>Single-precision stores\<close>

lemma float32Exponent_eqI:
  assumes "- 126 \<le> e" and "e \<le> 127" and "2 powi e \<le> \<bar>x\<bar>" and "\<bar>x\<bar> < 2 powi (e + 1)"
  shows "float32Exponent x = e"
  unfolding float32Exponent_def
proof (rule Max_eqI)
  show "finite (insert (- 126) (Set.filter (\<lambda>e. 2 powi e \<le> \<bar>x\<bar>) {- 126..127}))"
    by (rule finite_subset[of _ "{- 126..127}"]) auto
  show "e \<in> insert (- 126) (Set.filter (\<lambda>e. 2 powi e \<le> \<bar>x\<bar>) {- 126..127})"
    using assms by simp
  fix y assume y: "y \<in> insert (- 126) (Set.filter (\<lambda>e. 2 powi e \<le> \<bar>x\<bar>) {- 126..127})"
  show "y \<le> e"
  proof (cases "y = - 126")
    case True
    then show ?thesis using assms(1) by simp
  next
    case False
    then have "(2::real) powi y \<le> \<bar>x\<bar>" using y by simp
    then have "(2::real) powi y < 2 powi (e + 1)" using assms(4) by linarith
    then have "y < e + 1"
      using power_int_increasing[of "e + 1" y "2::real"] by (cases "y < e + 1") simp_all
    then show ?thesis by simp
  qed
qed

lemma float32Exponent_tiny:
  assumes "\<bar>x\<bar> < 2 powi (- 126)"
  shows "float32Exponent x = - 126"
  unfolding float32Exponent_def
proof (rule Max_eqI)
  show "finite (insert (- 126) (Set.filter (\<lambda>e. 2 powi e \<le> \<bar>x\<bar>) {- 126..127}))"
    by (rule finite_subset[of _ "{- 126..127}"]) auto
  show "- 126 \<in> insert (- 126) (Set.filter (\<lambda>e. 2 powi e \<le> \<bar>x\<bar>) {- 126..127})" by simp
  fix y assume y: "y \<in> insert (- 126) (Set.filter (\<lambda>e. 2 powi e \<le> \<bar>x\<bar>) {- 126..127})"
  show "y \<le> - 126"
  proof (cases "y = - 126")
    case True
    then show ?thesis by simp
  next
    case False
    then have "(2::real) powi y \<le> \<bar>x\<bar>" using y by simp
    then have "(2::real) powi y < 2 powi (- 126)" using assms by linarith
    then have "y < - 126"
      using power_int_increasing[of "- 126" y "2::real"] by (cases "y < - 126") simp_all
    then show ?thesis by simp
  qed
qed

lemma roundTiesToEven_exact:
  assumes "r \<in> \<int>"
  shows "of_int (roundTiesToEven r) = r"
  using assms by (auto simp: roundTiesToEven_def Ints_def)

lemma fround_zero [simp]: "fround 0 = 0"
  by (simp add: fround_def Let_def roundTiesToEven_def)

lemma fround_exact:
  assumes "- 126 \<le> e" and "e \<le> 127" and "2 powi e \<le> \<bar>x\<bar>" and "\<bar>x\<bar> < 2 powi (e + 1)"
    and "x / 2 powi (e - 23) \<in> \<int>"
  shows "fround x = x"
  unfolding fround_def Let_def float32Exponent_eqI[OF assms(1-4)] roundTiesToEven_exact[OF assms(5)]
  by simp

lemma fround_one [simp]: "fround 1 = 1"
  by (rule fround_exact[where e = 0]) (simp_all add: power_int_minus)

lemma fround_minus_one [simp]: "fround (- 1) = - 1"
  by (rule fround_exact[where e = 0]) (simp_all add: power_int_minus)

lemma fround_off_screen [simp]: "fround (10 ^ 10) = 10 ^ 10"
proof (rule fround_exact[where e = 33])
  have "(10::real) ^ 10 / 2 powi (33 - 23) = of_int 9765625" by simp
  then show "(10::real) ^ 10 / 2 powi (33 - 23) \<in> \<int>" by (simp only: Ints_of_int)
qed simp_all

lemma fround_sixtieth: "fround (1 / 60) = 8947849 / 536870912"
proof -
  have e: "float32Exponent (1 / 60) = - 6"
    by (rule float32Exponent_eqI) (simp_all add: power_int_minus)
  have q: "(2::real) powi (- 6 - 23) = 1 / 536870912" by (simp add: power_int_minus)
  have f: "\<lfloor>(536870912::real) / 60\<rfloor> = 8947848" by linarith
  have r: "roundTiesToEven (1 / 60 / (1 / 536870912)) = 8947849"
    unfolding roundTiesToEven_def Let_def by (simp add: f)
  show ?thesis
    unfolding fround_def Let_def e q r by simp
qed

lemma setX_length [simp]: "length (setX a i x) = length a"
  by (simp add: setX_def)

lemma setXYZ_length [simp]: "length (setXYZ a i x y z) = length a"
  by (simp add: setXYZ_def)

lemma setX_other [simp]: "i \<noteq> j \<Longrightarrow> setX a j x ! i = a ! i"
  by (simp add: setX_def)

lemma setXYZ_other [simp]: "i \<noteq> j \<Longrightarrow> setXYZ a j x y z ! i = a ! i"
  by (simp add: setXYZ_def)

lemma setX_same [simp]: "j < length a \<Longrightarrow> setX a j x ! j = fround x"
  by (simp add: setX_def)

lemma setXYZ_same [simp]:
  "j < length a \<Longrightarrow> setXYZ a j x y z ! j = Vector3 (fround x) (fround y) (fround z)"
  by (simp add: setXYZ_def)

lemma setXYZ_off_screen:
  "setXYZ a i (vx OFF_SCREEN_POS) (vy OFF_SCREEN_POS) (vz OFF_SCREEN_POS) = a[i := OFF_SCREEN_POS]"
proof -
  have "fround (vx OFF_SCREEN_POS) = vx OFF_SCREEN_POS" "fround (vy OFF_SCREEN_POS) = vy OFF_SCREEN_POS"
      "fround (vz OFF_SCREEN_POS) = vz OFF_SCREEN_POS"
    unfolding OFF_SCREEN_POS_def Vector3_def vec3.simps by (rule fround_off_screen)+
  then show ?thesis
    unfolding setXYZ_def by (simp add: OFF_SCREEN_POS_def Vector3_def)
qed

lemma fround_thousand: "fround 1000 = 1000"
proof (rule fround_exact[where e = 9])
  have "(1000::real) / 2 powi (9 - 23) = of_int 16384000" by (simp add: power_int_minus)
  then show "(1000::real) / 2 powi (9 - 23) \<in> \<int>" by (simp only: Ints_of_int)
qed simp_all

subsection \<open>Explosion burst\<close>

lemma emittedSlots_Suc:
  "emittedSlots N c (Suc n) = insert ((c + n) mod N) (emittedSlots N c n)"
  by (simp add: emittedSlots_def lessThan_Suc)

lemma emittedSlots_inj:
  fixes c N n :: nat
  assumes "n \<le> N"
  shows "inj_on (\<lambda>k. (c + k) mod N) {..<n}"
proof (rule inj_onI)
  fix x y assume x: "x \<in> {..<n}" and y: "y \<in> {..<n}" and e: "(c + x) mod N = (c + y) mod N"
  have aux: "a = b" if "a \<le> b" "b < N" "(c + a) mod N = (c + b) mod N" for a b
  proof -
    have "N dvd (c + b) - (c + a)"
      using that(1,3) by (subst mod_eq_dvd_iff_nat[symmetric]) simp_all
    then have "N dvd b - a" by simp
    moreover have "b - a < N" using that(2) by simp
    ultimately have "b - a = 0" by (meson dvd_imp_le not_less zero_less_iff_neq_zero)
    then show ?thesis using that(1) by simp
  qed
  show "x = y"
  proof (cases "x \<le> y")
    case True
    then show ?thesis using aux[of x y] y e assms by simp
  next
    case False
    then show ?thesis using aux[of y x] x e assms by simp
  qed
qed

lemma card_emittedSlots:
  assumes "n \<le> N"
  shows "card (emittedSlots N c n) = n"
  unfolding emittedSlots_def by (simp add: card_image emittedSlots_inj[OF assms])

lemma emittedSlots_bound:
  assumes "0 < N"
  shows "emittedSlots N c n \<subseteq> {..<N}"
  using assms by (auto simp: emittedSlots_def)

lemma nth_list_update_if:
  "(xs[j := v]) ! i = (if i = j \<and> j < length xs then v else xs ! i)"
  by (cases "j < length xs") (auto simp: list_update_beyond)

lemma explosionEmit_sel:
  "cursor (explosionEmit h cp pos t k r) = (cursor r + 1) mod MAX_EXPLOSION_PARTICLES"
  "startTimes (sys (explosionEmit h cp pos t k r)) = (startTimes (sys r))[cursor r := fround t]"
  "alphas (sys (explosionEmit h cp pos t k r)) = (alphas (sys r))[cursor r := 1]"
  "positions (sys (explosionEmit h cp pos t k r))
     = (positions (sys r))[cursor r := Vector3 (fround (vx pos)) (fround (vy pos)) (fround (vz pos))]"
  "uLifetime (sys (explosionEmit h cp pos t k r)) = uLifetime (sys r)"
  "uTime (sys (explosionEmit h cp pos t k r)) = uTime (sys r)"
  by (simp_all add: explosionEmit_def Let_def setX_def setXYZ_def)

lemma explosionEmit_other:
  assumes "i \<noteq> cursor r"
  shows "velocities (sys (explosionEmit h cp pos t k r)) ! i = velocities (sys r) ! i"
    and "sizes (sys (explosionEmit h cp pos t k r)) ! i = sizes (sys r) ! i"
  using assms by (simp_all add: explosionEmit_def Let_def)

lemma explosionEmit_fold_Suc:
  "fold (explosionEmit h cp pos t) [0..<Suc n] r
     = explosionEmit h cp pos t n (fold (explosionEmit h cp pos t) [0..<n] r)"
  by simp

lemma explosionEmit_fold_cursor:
  assumes "cursor r < MAX_EXPLOSION_PARTICLES"
  shows "cursor (fold (explosionEmit h cp pos t) [0..<n] r) = (cursor r + n) mod MAX_EXPLOSION_PARTICLES"
proof (induction n)
  case 0
  then show ?case using assms by simp
next
  case (Suc n)
  show ?case
    unfolding explosionEmit_fold_Suc
    by (simp add: explosionEmit_sel Suc mod_Suc_eq)
qed

lemma explosionEmit_fold_lengths:
  "length (startTimes (sys (fold (explosionEmit h cp pos t) [0..<n] r))) = length (startTimes (sys r))
   \<and> length (alphas (sys (fold (explosionEmit h cp pos t) [0..<n] r))) = length (alphas (sys r))
   \<and> length (positions (sys (fold (explosionEmit h cp pos t) [0..<n] r))) = length (positions (sys r))
   \<and> uLifetime (sys (fold (explosionEmit h cp pos t) [0..<n] r)) = uLifetime (sys r)
   \<and> uTime (sys (fold (explosionEmit h cp pos t) [0..<n] r)) = uTime (sys r)"
proof (induction n)
  case 0
  then show ?case by simp
next
  case (Suc n)
  show ?case
    unfolding explosionEmit_fold_Suc
    using Suc by (simp add: explosionEmit_sel)
qed

lemma written_step:
  assumes "ys = xs[j := v]" and "length xs = n"
    and "xs ! i = (if i \<in> S \<and> i < n then v else zs ! i)"
  shows "ys ! i = (if i \<in> insert j S \<and> i < n then v else zs ! i)"
  using assms by (auto simp: nth_list_update_if)

lemma explosionEmit_fold_startTimes:
  assumes "cursor r < MAX_EXPLOSION_PARTICLES"
  shows "startTimes (sys (fold (explosionEmit h cp pos t) [0..<n] r)) ! i
     = (if i \<in> emittedSlots MAX_EXPLOSION_PARTICLES (cursor r) n \<and> i < length (startTimes (sys r))
        then fround t else startTimes (sys r) ! i)"
proof (induction n)
  case 0
  then show ?case by (simp add: emittedSlots_def)
next
  case (Suc n)
  show ?case
    unfolding explosionEmit_fold_Suc emittedSlots_Suc
    by (rule written_step[OF _ _ Suc])
       (simp_all add: explosionEmit_sel explosionEmit_fold_cursor[OF assms] explosionEmit_fold_lengths)
qed

lemma explosionEmit_fold_alphas:
  assumes "cursor r < MAX_EXPLOSION_PARTICLES"
  shows "alphas (sys (fold (explosionEmit h cp pos t) [0..<n] r)) ! i
     = (if i \<in> emittedSlots MAX_EXPLOSION_PARTICLES (cursor r) n \<and> i < length (alphas (sys r))
        then 1 else alphas (sys r) ! i)"
proof (induction n)
  case 0
  then show ?case by (simp add: emittedSlots_def)
next
  case (Suc n)
  show ?case
    unfolding explosionEmit_fold_Suc emittedSlots_Suc
    by (rule written_step[OF _ _ Suc])
       (simp_all add: explosionEmit_sel explosionEmit_fold_cursor[OF assms] explosionEmit_fold_lengths)
qed

lemma explosionEmit_fold_positions:
  assumes "cursor r < MAX_EXPLOSION_PARTICLES"
  shows "positions (sys (fold (explosionEmit h cp pos t) [0..<n] r)) ! i
     = (if i \<in> emittedSlots MAX_EXPLOSION_PARTICLES (cursor r) n \<and> i < length (positions (sys r))
        then Vector3 (fround (vx pos)) (fround (vy pos)) (fround (vz pos))
        else positions (sys r) ! i)"
proof (induction n)
  case 0
  then show ?case by (simp add: emittedSlots_def)
next
  case (Suc n)
  show ?case
    unfolding explosionEmit_fold_Suc emittedSlots_Suc
    by (rule written_step[OF _ _ Suc])
       (simp_all add: explosionEmit_sel explosionEmit_fold_cursor[OF assms] explosionEmit_fold_lengths)
qed

lemma explosionEmit_fold_untouched:
  assumes "cursor r < MAX_EXPLOSION_PARTICLES"
    and "i \<notin> emittedSlots MAX_EXPLOSION_PARTICLES (cursor r) n"
  shows "velocities (sys (fold (explosionEmit h cp pos t) [0..<n] r)) ! i = velocities (sys r) ! i
       \<and> sizes (sys (fold (explosionEmit h cp pos t) [0..<n] r)) ! i = sizes (sys r) ! i"
  using assms(2)
proof (induction n)
  case 0
  then show ?case by simp
next
  case (Suc n)
  then have "i \<noteq> (cursor r + n) mod MAX_EXPLOSION_PARTICLES"
      and "i \<notin> emittedSlots MAX_EXPLOSION_PARTICLES (cursor r) n"
    by (simp_all add: emittedSlots_Suc)
  then show ?case
    unfolding explosionEmit_fold_Suc
    using Suc.IH
    by (simp add: explosionEmit_other explosionEmit_fold_cursor[OF assms(1)])
qed


lemma triggerCrashExplosion_result:
  fixes h :: host and pos :: vec3 and w :: world and p :: psys
  assumes "crashExplosionSystem w = Some p" and "particleTexture w"
  defines "t \<equiv> elapsedTime w + clockDiff h (clockReads w)"
  defines "r \<equiv> fold (explosionEmit h (controlParams w) pos t)
       [0..<nat \<lceil>min (explosionParticleCount (controlParams w)) (real MAX_EXPLOSION_PARTICLES)\<rceil>]
       \<lparr>sys = p, cursor = currentExplosionIndex w, rnds = rndCount w\<rparr>"
  shows "crashExplosionSystem (triggerCrashExplosion h pos w) = Some (sys r)"
    and "currentExplosionIndex (triggerCrashExplosion h pos w) = cursor r"
    and "elapsedTime (triggerCrashExplosion h pos w) = t"
    and "console (triggerCrashExplosion h pos w) = console w @ [''--- Triggering Crash Explosion ---'']"
  using assms(1,2) by (simp_all add: triggerCrashExplosion_def Let_def readClock_def r_def t_def)

lemma emittedSlots_from_zero:
  assumes "n \<le> N"
  shows "emittedSlots N 0 n = {..<n}"
  using assms by (auto simp: emittedSlots_def image_iff)

lemma createSystem_fields [simp]:
  "length (startTimes (createSystem n l)) = n"
  "length (alphas (createSystem n l)) = n"
  "length (positions (createSystem n l)) = n"
  "i < n \<Longrightarrow> startTimes (createSystem n l) ! i = - 1"
  "i < n \<Longrightarrow> alphas (createSystem n l) ! i = 0"
  "i < n \<Longrightarrow> positions (createSystem n l) ! i = OFF_SCREEN_POS"
  "uLifetime (createSystem n l) = l"
  by (simp_all add: createSystem_def)

lemma particleWorld_fields [simp]:
  "crashExplosionSystem particleWorld = Some (createSystem MAX_EXPLOSION_PARTICLES 0.8)"
  "particleTexture particleWorld = True"
  "controlParams particleWorld = defaultParams"
  "currentExplosionIndex particleWorld = 0"
  "elapsedTime particleWorld = 0"
  "clockReads particleWorld = 0"
  "isCrashing particleWorld = False"
  by (simp_all add: particleWorld_def sampleWorld_def)



text \<open>Claim C6, as the code has it. When the explosion system and the texture exist, the
  cursor is inside the buffer, the three arrays have the buffer's capacity, and the
  trigger time and the crash position are within the single-precision range, a trigger
  with \<open>explosionParticleCount = k\<close> writes exactly \<open>min k MAX_EXPLOSION_PARTICLES\<close>
  distinct slots: each gets as start timestamp the trigger time rounded to single
  precision, alpha 1, and the crash position with each coordinate rounded to single
  precision; every other slot keeps all five attributes; the cursor advances by that
  count modulo the capacity. For \<open>k = 2400\<close> and capacity 2500 that is 2400 slots written
  and 100 not.\<close>

theorem explosion_burst:
  assumes "crashExplosionSystem w = Some p" and "particleTexture w"
    and "explosionParticleCount (controlParams w) = real k"
    and "currentExplosionIndex w < MAX_EXPLOSION_PARTICLES"
    and "length (startTimes p) = MAX_EXPLOSION_PARTICLES"
    and "length (alphas p) = MAX_EXPLOSION_PARTICLES"
    and "length (positions p) = MAX_EXPLOSION_PARTICLES"
    and "float32Range (elapsedTime w + clockDiff h (clockReads w))"
    and "float32Range (vx pos)" and "float32Range (vy pos)" and "float32Range (vz pos)"
  shows "let w' = triggerCrashExplosion h pos w;
             p' = the (crashExplosionSystem w');
             n = min k MAX_EXPLOSION_PARTICLES;
             S = emittedSlots MAX_EXPLOSION_PARTICLES (currentExplosionIndex w) n;
             triggerTime = elapsedTime w + clockDiff h (clockReads w)
         in card S = n \<and> S \<subseteq> {..<MAX_EXPLOSION_PARTICLES}
          \<and> card ({..<MAX_EXPLOSION_PARTICLES} - S) = MAX_EXPLOSION_PARTICLES - n
          \<and> elapsedTime w' = triggerTime
          \<and> (\<forall>i\<in>S. startTimes p' ! i = fround triggerTime \<and> alphas p' ! i = 1
                \<and> positions p' ! i = Vector3 (fround (vx pos)) (fround (vy pos)) (fround (vz pos)))
          \<and> (\<forall>i. i \<notin> S \<longrightarrow>
                startTimes p' ! i = startTimes p ! i \<and> alphas p' ! i = alphas p ! i
              \<and> positions p' ! i = positions p ! i \<and> velocities p' ! i = velocities p ! i
              \<and> sizes p' ! i = sizes p ! i)
          \<and> currentExplosionIndex w' = (currentExplosionIndex w + n) mod MAX_EXPLOSION_PARTICLES"
proof -
  define N where "N = MAX_EXPLOSION_PARTICLES"
  define n where "n = min k N"
  define t where "t = elapsedTime w + clockDiff h (clockReads w)"
  define r0 where "r0 = \<lparr>sys = p, cursor = currentExplosionIndex w, rnds = rndCount w\<rparr>"
  define r where "r = fold (explosionEmit h (controlParams w) pos t) [0..<n] r0"
  define S where "S = emittedSlots N (currentExplosionIndex w) n"
  have cnt: "nat \<lceil>min (explosionParticleCount (controlParams w)) (real MAX_EXPLOSION_PARTICLES)\<rceil> = n"
  proof -
    have "min (real k) (real N) = real (min k N)" by simp
    then show ?thesis unfolding assms(3) n_def N_def by (simp only: ceiling_of_nat nat_int)
  qed
  have r0: "sys r0 = p" "cursor r0 = currentExplosionIndex w" by (simp_all add: r0_def)
  have c0: "cursor r0 < MAX_EXPLOSION_PARTICLES" using assms(4) by (simp add: r0_def)
  have Npos: "0 < N" using assms(4) by (simp add: N_def)
  have sub: "S \<subseteq> {..<N}" unfolding S_def by (rule emittedSlots_bound[OF Npos])
  have card: "card S = n" unfolding S_def by (rule card_emittedSlots) (simp add: n_def)
  have rest: "card ({..<N} - S) = N - n"
    using sub card by (simp add: card_Diff_subset finite_subset[OF sub])
  note R = triggerCrashExplosion_result[OF assms(1,2), of h pos, unfolded cnt, folded t_def r0_def, folded r_def]
  have written: "startTimes (sys r) ! i = fround t \<and> alphas (sys r) ! i = 1
      \<and> positions (sys r) ! i = Vector3 (fround (vx pos)) (fround (vy pos)) (fround (vz pos))"
    if "i \<in> S" for i
  proof -
    have "i < N" using sub that by auto
    then show ?thesis
      using that assms(5,6,7)
      unfolding r_def S_def N_def
      by (simp add: explosionEmit_fold_startTimes[OF c0] explosionEmit_fold_alphas[OF c0]
          explosionEmit_fold_positions[OF c0] r0)
  qed
  have other: "startTimes (sys r) ! i = startTimes p ! i \<and> alphas (sys r) ! i = alphas p ! i
      \<and> positions (sys r) ! i = positions p ! i \<and> velocities (sys r) ! i = velocities p ! i
      \<and> sizes (sys r) ! i = sizes p ! i"
    if "i \<notin> S" for i
  proof -
    have "i \<notin> emittedSlots MAX_EXPLOSION_PARTICLES (cursor r0) n"
      using that by (simp add: S_def N_def r0)
    then show ?thesis
      using explosionEmit_fold_untouched[OF c0, of i n h "controlParams w" pos t]
      unfolding r_def
      by (simp add: explosionEmit_fold_startTimes[OF c0] explosionEmit_fold_alphas[OF c0]
          explosionEmit_fold_positions[OF c0] r0)
  qed
  have cur: "cursor r = (currentExplosionIndex w + n) mod N"
    unfolding r_def N_def using explosionEmit_fold_cursor[OF c0, of h "controlParams w" pos t n]
    by (simp add: r0)
  show ?thesis
    unfolding Let_def R(1,2,3) option.sel
    using card sub rest written other cur
    unfolding S_def N_def n_def t_def
    by blast
qed



theorem explosion_burst_witness:
  "crashExplosionSystem particleWorld = Some (createSystem MAX_EXPLOSION_PARTICLES 0.8)
   \<and> particleTexture particleWorld
   \<and> explosionParticleCount (controlParams particleWorld) = real 2400
   \<and> currentExplosionIndex particleWorld < MAX_EXPLOSION_PARTICLES
   \<and> length (startTimes (createSystem MAX_EXPLOSION_PARTICLES 0.8)) = MAX_EXPLOSION_PARTICLES
   \<and> length (alphas (createSystem MAX_EXPLOSION_PARTICLES 0.8)) = MAX_EXPLOSION_PARTICLES
   \<and> length (positions (createSystem MAX_EXPLOSION_PARTICLES 0.8)) = MAX_EXPLOSION_PARTICLES
   \<and> float32Range (elapsedTime particleWorld + clockDiff keyboardHost (clockReads particleWorld))
   \<and> float32Range (vx (Vector3 0 1000 0)) \<and> float32Range (vy (Vector3 0 1000 0))
   \<and> float32Range (vz (Vector3 0 1000 0))
   \<and> card (emittedSlots MAX_EXPLOSION_PARTICLES 0 2400) = 2400
   \<and> card ({..<MAX_EXPLOSION_PARTICLES} - emittedSlots MAX_EXPLOSION_PARTICLES 0 2400) = 100
   \<and> startTimes (the (crashExplosionSystem
        (triggerCrashExplosion keyboardHost (Vector3 0 1000 0) particleWorld))) ! 17
       = fround (1 / 60)
   \<and> alphas (the (crashExplosionSystem
        (triggerCrashExplosion keyboardHost (Vector3 0 1000 0) particleWorld))) ! 17 = 1
   \<and> positions (the (crashExplosionSystem
        (triggerCrashExplosion keyboardHost (Vector3 0 1000 0) particleWorld))) ! 17 = Vector3 0 1000 0
   \<and> startTimes (the (crashExplosionSystem
        (triggerCrashExplosion keyboardHost (Vector3 0 1000 0) particleWorld))) ! 2450 = - 1
   \<and> alphas (the (crashExplosionSystem
        (triggerCrashExplosion keyboardHost (Vector3 0 1000 0) particleWorld))) ! 2450 = 0
   \<and> currentExplosionIndex (triggerCrashExplosion keyboardHost (Vector3 0 1000 0) particleWorld) = 2400"
proof -
  define W' where "W' = triggerCrashExplosion keyboardHost (Vector3 0 1000 0) particleWorld"
  define P' where "P' = the (crashExplosionSystem W')"
  define P where "P = createSystem MAX_EXPLOSION_PARTICLES 0.8"
  have M: "MAX_EXPLOSION_PARTICLES = 2500" by (simp add: MAX_EXPLOSION_PARTICLES_def)
  have h: "crashExplosionSystem particleWorld = Some (createSystem MAX_EXPLOSION_PARTICLES 0.8)"
     "particleTexture particleWorld"
     "explosionParticleCount (controlParams particleWorld) = real 2400"
     "currentExplosionIndex particleWorld < MAX_EXPLOSION_PARTICLES"
     "length (startTimes (createSystem MAX_EXPLOSION_PARTICLES 0.8)) = MAX_EXPLOSION_PARTICLES"
     "length (alphas (createSystem MAX_EXPLOSION_PARTICLES 0.8)) = MAX_EXPLOSION_PARTICLES"
     "length (positions (createSystem MAX_EXPLOSION_PARTICLES 0.8)) = MAX_EXPLOSION_PARTICLES"
     "float32Range (elapsedTime particleWorld + clockDiff keyboardHost (clockReads particleWorld))"
     "float32Range (vx (Vector3 0 1000 0))" "float32Range (vy (Vector3 0 1000 0))"
     "float32Range (vz (Vector3 0 1000 0))"
    by (simp_all add: defaultParams_def M float32Range_def keyboardHost_def Vector3_def)
  have S: "emittedSlots MAX_EXPLOSION_PARTICLES 0 2400 = {..<2400}"
    by (rule emittedSlots_from_zero) (simp add: M)
  have n: "min 2400 MAX_EXPLOSION_PARTICLES = 2400" by (simp add: M)
  have c: "elapsedTime particleWorld + clockDiff keyboardHost (clockReads particleWorld) = 1 / 60"
    by (simp add: keyboardHost_def)
  have i0: "currentExplosionIndex particleWorld = 0" by simp
  note T = explosion_burst[OF h, unfolded Let_def n i0 c,
      folded W'_def, folded P'_def, folded P_def]
  have k1: "card (emittedSlots MAX_EXPLOSION_PARTICLES 0 2400) = 2400"
    using T by (elim conjE)
  have "card ({..<MAX_EXPLOSION_PARTICLES} - emittedSlots MAX_EXPLOSION_PARTICLES 0 2400)
      = MAX_EXPLOSION_PARTICLES - 2400"
    using T by (elim conjE)
  then have k2: "card ({..<MAX_EXPLOSION_PARTICLES} - emittedSlots MAX_EXPLOSION_PARTICLES 0 2400) = 100"
    by (simp only: M)
  have w: "\<forall>i\<in>emittedSlots MAX_EXPLOSION_PARTICLES 0 2400.
      startTimes P' ! i = fround (1 / 60) \<and> alphas P' ! i = 1
      \<and> positions P' ! i
          = Vector3 (fround (vx (Vector3 0 1000 0))) (fround (vy (Vector3 0 1000 0)))
              (fround (vz (Vector3 0 1000 0)))"
    using T by (elim conjE)
  have o: "\<forall>i. i \<notin> emittedSlots MAX_EXPLOSION_PARTICLES 0 2400 \<longrightarrow>
        startTimes P' ! i = startTimes P ! i \<and> alphas P' ! i = alphas P ! i
      \<and> positions P' ! i = positions P ! i \<and> velocities P' ! i = velocities P ! i
      \<and> sizes P' ! i = sizes P ! i"
    using T by (elim conjE)
  have "currentExplosionIndex W' = (0 + 2400) mod MAX_EXPLOSION_PARTICLES"
    using T by (elim conjE)
  then have e: "currentExplosionIndex W' = 2400" by (simp add: M)
  have a: "startTimes P' ! 17 = fround (1 / 60) \<and> alphas P' ! 17 = 1
      \<and> positions P' ! 17 = Vector3 0 1000 0"
    using bspec[OF w, of 17] unfolding S by (simp add: Vector3_def fround_thousand)
  have "startTimes P' ! 2450 = startTimes P ! 2450 \<and> alphas P' ! 2450 = alphas P ! 2450"
    using spec[OF o, of 2450] unfolding S by simp
  moreover have "startTimes P ! 2450 = - 1" unfolding P_def by (rule createSystem_fields) (simp add: M)
  moreover have "alphas P ! 2450 = 0" unfolding P_def by (rule createSystem_fields) (simp add: M)
  ultimately have d: "startTimes P' ! 2450 = - 1 \<and> alphas P' ! 2450 = 0" by simp
  show ?thesis
    using h k1 k2 a d e unfolding P'_def W'_def by (intro conjI) simp_all
qed

text \<open>Claim C6 as stated fails on the timestamp. A trigger on freshly created buffers at
  elapsed time 0, when the clock has advanced by 1/60, happens at trigger time 1/60; slot
  17 is one of the 2400 written, and the timestamp stored in it is the single-precision
  number 8947849 / 536870912 (0.01666666753590107...), not 1/60.\<close>

theorem explosion_burst_counterexample:
  "elapsedTime (triggerCrashExplosion keyboardHost (Vector3 0 1000 0) particleWorld) = 1 / 60
   \<and> 17 \<in> emittedSlots MAX_EXPLOSION_PARTICLES (currentExplosionIndex particleWorld)
            (min 2400 MAX_EXPLOSION_PARTICLES)
   \<and> startTimes (the (crashExplosionSystem
        (triggerCrashExplosion keyboardHost (Vector3 0 1000 0) particleWorld))) ! 17
       = 8947849 / 536870912
   \<and> startTimes (the (crashExplosionSystem
        (triggerCrashExplosion keyboardHost (Vector3 0 1000 0) particleWorld))) ! 17
       \<noteq> elapsedTime (triggerCrashExplosion keyboardHost (Vector3 0 1000 0) particleWorld)"
proof -
  have M: "MAX_EXPLOSION_PARTICLES = 2500" by (simp add: MAX_EXPLOSION_PARTICLES_def)
  have S: "emittedSlots MAX_EXPLOSION_PARTICLES 0 2400 = {..<2400}"
    by (rule emittedSlots_from_zero) (simp add: M)
  have n: "nat \<lceil>min (explosionParticleCount (controlParams particleWorld))
      (real MAX_EXPLOSION_PARTICLES)\<rceil> = 2400"
    by (simp add: defaultParams_def M)
  have c: "elapsedTime particleWorld + clockDiff keyboardHost (clockReads particleWorld) = 1 / 60"
    by (simp add: keyboardHost_def)
  have p: "crashExplosionSystem particleWorld = Some (createSystem MAX_EXPLOSION_PARTICLES 0.8)"
    "particleTexture particleWorld" by simp_all
  note R = triggerCrashExplosion_result[OF p, of keyboardHost "Vector3 0 1000 0", unfolded n c]
  have c0: "cursor \<lparr>sys = createSystem MAX_EXPLOSION_PARTICLES 0.8,
      cursor = currentExplosionIndex particleWorld, rnds = rndCount particleWorld\<rparr>
      < MAX_EXPLOSION_PARTICLES"
    by (simp add: M)
  have e: "elapsedTime (triggerCrashExplosion keyboardHost (Vector3 0 1000 0) particleWorld) = 1 / 60"
    by (rule R(3))
  have m: "17 \<in> emittedSlots MAX_EXPLOSION_PARTICLES (currentExplosionIndex particleWorld)
            (min 2400 MAX_EXPLOSION_PARTICLES)"
    using S by (simp add: M)
  have v: "startTimes (the (crashExplosionSystem
        (triggerCrashExplosion keyboardHost (Vector3 0 1000 0) particleWorld))) ! 17
       = 8947849 / 536870912"
    unfolding R(1) option.sel explosionEmit_fold_startTimes[OF c0]
    using S by (simp add: M fround_sixtieth)
  show ?thesis
    unfolding v e using m by simp
qed

subsection \<open>Particle retirement\<close>

lemma alphaOnly_linearFade: "alphaOnly (linearFade lifetime)"
  by (simp add: alphaOnly_def linearFade_def)

lemma alphaOnly_smokeLive: "alphaOnly (smokeLive h turbulence deltaTime lifetime)"
  by (simp add: alphaOnly_def smokeLive_def Let_def)

lemma retire_sel:
  "startTimes (retire j p) = (startTimes p)[j := - 1]"
  "alphas (retire j p) = (alphas p)[j := 0]"
  "positions (retire j p) = (positions p)[j := OFF_SCREEN_POS]"
  by (simp_all add: retire_def setX_def setXYZ_off_screen)

lemma ageSlot_lengths:
  assumes "alphaOnly live"
  shows "length (startTimes (sys (ageSlot live t l j r))) = length (startTimes (sys r))"
    and "length (alphas (sys (ageSlot live t l j r))) = length (alphas (sys r))"
    and "length (positions (sys (ageSlot live t l j r))) = length (positions (sys r))"
  using assms by (simp_all add: ageSlot_def Let_def retire_sel alphaOnly_def)

lemma ageSlot_other:
  assumes "alphaOnly live" and "i \<noteq> j"
  shows "startTimes (sys (ageSlot live t l j r)) ! i = startTimes (sys r) ! i"
    and "alphas (sys (ageSlot live t l j r)) ! i = alphas (sys r) ! i"
    and "positions (sys (ageSlot live t l j r)) ! i = positions (sys r) ! i"
  using assms by (simp_all add: ageSlot_def Let_def retire_sel alphaOnly_def)

lemma fold_ageSlot_lengths:
  assumes "alphaOnly live"
  shows "length (startTimes (sys (fold (ageSlot live t l) js r))) = length (startTimes (sys r))
       \<and> length (alphas (sys (fold (ageSlot live t l) js r))) = length (alphas (sys r))
       \<and> length (positions (sys (fold (ageSlot live t l) js r))) = length (positions (sys r))"
  by (induction js arbitrary: r) (simp_all add: ageSlot_lengths[OF assms])

lemma fold_ageSlot_other:
  assumes "alphaOnly live" and "i \<notin> set js"
  shows "startTimes (sys (fold (ageSlot live t l) js r)) ! i = startTimes (sys r) ! i
       \<and> alphas (sys (fold (ageSlot live t l) js r)) ! i = alphas (sys r) ! i
       \<and> positions (sys (fold (ageSlot live t l) js r)) ! i = positions (sys r) ! i"
  using assms(2)
  by (induction js arbitrary: r) (simp_all add: ageSlot_other[OF assms(1)])

lemma ageLoop_split:
  assumes "i < n"
  shows "ageLoop live n t l r
     = fold (ageSlot live t l) [Suc i..<n] (ageSlot live t l i (fold (ageSlot live t l) [0..<i] r))"
proof -
  have "[0..<n] = [0..<i] @ i # [Suc i..<n]"
    using assms by (metis le_add2 le_add_same_cancel2 less_imp_add_positive upt_add_eq_append upt_conv_Cons)
  then show ?thesis by (simp add: ageLoop_def)
qed

lemma ageSlot_retires:
  assumes "i < length (startTimes (sys r))" and "i < length (alphas (sys r))"
    and "i < length (positions (sys r))"
    and "0 \<le> startTimes (sys r) ! i" and "t - startTimes (sys r) ! i > l"
  shows "startTimes (sys (ageSlot live t l i r)) ! i = - 1
       \<and> alphas (sys (ageSlot live t l i r)) ! i = 0
       \<and> positions (sys (ageSlot live t l i r)) ! i = OFF_SCREEN_POS"
  using assms by (simp add: ageSlot_def Let_def retire_sel)

lemma ageSlot_skips:
  assumes "startTimes (sys r) ! i < 0"
  shows "ageSlot live t l i r = r"
  using assms by (simp add: ageSlot_def)

lemma ageLoop_retires:
  assumes "alphaOnly live" and "i < n"
    and "i < length (startTimes (sys r))" and "i < length (alphas (sys r))"
    and "i < length (positions (sys r))"
    and "0 \<le> startTimes (sys r) ! i" and "t - startTimes (sys r) ! i > l"
  shows "startTimes (sys (ageLoop live n t l r)) ! i = - 1
       \<and> alphas (sys (ageLoop live n t l r)) ! i = 0
       \<and> positions (sys (ageLoop live n t l r)) ! i = OFF_SCREEN_POS"
proof -
  define r1 where "r1 = fold (ageSlot live t l) [0..<i] r"
  define r2 where "r2 = ageSlot live t l i r1"
  have b: "startTimes (sys r1) ! i = startTimes (sys r) ! i"
    unfolding r1_def using fold_ageSlot_other[OF assms(1), of i "[0..<i]" t l r] by simp
  have len: "length (startTimes (sys r1)) = length (startTimes (sys r))"
      "length (alphas (sys r1)) = length (alphas (sys r))"
      "length (positions (sys r1)) = length (positions (sys r))"
    unfolding r1_def using fold_ageSlot_lengths[OF assms(1), of t l "[0..<i]" r] by simp_all
  have m: "startTimes (sys r2) ! i = - 1 \<and> alphas (sys r2) ! i = 0 \<and> positions (sys r2) ! i = OFF_SCREEN_POS"
    unfolding r2_def by (rule ageSlot_retires) (use assms b len in simp_all)
  have "ageLoop live n t l r = fold (ageSlot live t l) [Suc i..<n] r2"
    unfolding r2_def r1_def by (rule ageLoop_split[OF assms(2)])
  then show ?thesis
    using fold_ageSlot_other[OF assms(1), of i "[Suc i..<n]" t l r2] m by simp
qed

lemma ageLoop_keeps_retired:
  assumes "alphaOnly live" and "startTimes (sys r) ! i < 0"
  shows "startTimes (sys (ageLoop live n t l r)) ! i = startTimes (sys r) ! i
       \<and> alphas (sys (ageLoop live n t l r)) ! i = alphas (sys r) ! i
       \<and> positions (sys (ageLoop live n t l r)) ! i = positions (sys r) ! i"
proof (cases "i < n")
  case False
  then show ?thesis
    unfolding ageLoop_def using fold_ageSlot_other[OF assms(1), of i "[0..<n]" t l r] by simp
next
  case True
  define r1 where "r1 = fold (ageSlot live t l) [0..<i] r"
  have b: "startTimes (sys r1) ! i = startTimes (sys r) ! i
       \<and> alphas (sys r1) ! i = alphas (sys r) ! i
       \<and> positions (sys r1) ! i = positions (sys r) ! i"
    unfolding r1_def using fold_ageSlot_other[OF assms(1), of i "[0..<i]" t l r] by simp
  then have s: "ageSlot live t l i r1 = r1" using assms(2) by (simp add: ageSlot_skips)
  have "ageLoop live n t l r = fold (ageSlot live t l) [Suc i..<n] r1"
    using ageLoop_split[OF True, of live t l r] unfolding r1_def[symmetric] s .
  then show ?thesis
    using fold_ageSlot_other[OF assms(1), of i "[Suc i..<n]" t l r1] b by simp
qed

lemma ageing_keeps_retired:
  assumes "alphaOnly live" and "startTimes (sys r) ! i < 0"
  shows "startTimes (sys (fold (\<lambda>t. ageLoop live n t l) ts r)) ! i = startTimes (sys r) ! i
       \<and> alphas (sys (fold (\<lambda>t. ageLoop live n t l) ts r)) ! i = alphas (sys r) ! i
       \<and> positions (sys (fold (\<lambda>t. ageLoop live n t l) ts r)) ! i = positions (sys r) ! i"
  using assms(2)
proof (induction ts arbitrary: r)
  case Nil
  then show ?case by simp
next
  case (Cons t ts)
  have k: "startTimes (sys (ageLoop live n t l r)) ! i = startTimes (sys r) ! i
       \<and> alphas (sys (ageLoop live n t l r)) ! i = alphas (sys r) ! i
       \<and> positions (sys (ageLoop live n t l r)) ! i = positions (sys r) ! i"
    by (rule ageLoop_keeps_retired[OF assms(1) Cons.prems])
  then have "startTimes (sys (ageLoop live n t l r)) ! i < 0" using Cons.prems by simp
  from Cons.IH[OF this] k show ?case by simp
qed


lemma updateCrashExplosion_result:
  fixes h :: host and w :: world and p :: psys
  assumes "crashExplosionSystem w = Some p" and "particleTexture w"
  defines "t \<equiv> elapsedTime w + clockDiff h (clockReads w)"
  shows "crashExplosionSystem (updateCrashExplosion h dt w)
     = Some (sys (ageLoop (linearFade (uLifetime p)) MAX_EXPLOSION_PARTICLES t (uLifetime p)
          \<lparr>sys = p\<lparr>uTime := t\<rparr>, cursor = currentExplosionIndex w, rnds = rndCount w\<rparr>))"
  using assms(1,2) by (simp add: updateCrashExplosion_def Let_def readClock_def t_def)

lemma agedSystem_fields [simp]:
  "length (startTimes agedSystem) = MAX_EXPLOSION_PARTICLES"
  "length (alphas agedSystem) = MAX_EXPLOSION_PARTICLES"
  "length (positions agedSystem) = MAX_EXPLOSION_PARTICLES"
  "startTimes agedSystem ! 17 = 0"
  "startTimes agedSystem ! 5 = - 1"
  "alphas agedSystem ! 5 = 0"
  "uLifetime agedSystem = 0.8"
  by (simp_all add: agedSystem_def createSystem_def MAX_EXPLOSION_PARTICLES_def)

lemma agedWorld_fields [simp]:
  "crashExplosionSystem agedWorld = Some agedSystem"
  "particleTexture agedWorld = True"
  "elapsedTime agedWorld = 2"
  "clockReads agedWorld = 0"
  by (simp_all add: agedWorld_def)

lemma emitter_trailEmit: "emitter MAX_TRAIL_PARTICLES (trailEmit t pos)"
  by (simp add: emitter_def trailEmit_def Let_def)

lemma emitter_smokeEmit: "emitter MAX_SMOKE_PARTICLES (smokeEmit h cp y t)"
  by (simp add: emitter_def smokeEmit_def Let_def)

lemma emitter_engineEmit: "emitter MAX_ENGINE_PARTICLES (engineEmit h cp l r t)"
  by (simp add: emitter_def engineEmit_def Let_def)

lemma emitter_step:
  assumes "emitter N f"
  shows "cursor (f k r) = (cursor r + 1) mod N"
    and "length (startTimes (sys (f k r))) = length (startTimes (sys r))"
    and "length (alphas (sys (f k r))) = length (alphas (sys r))"
    and "length (positions (sys (f k r))) = length (positions (sys r))"
    and "uLifetime (sys (f k r)) = uLifetime (sys r)"
    and "i \<noteq> cursor r \<Longrightarrow> startTimes (sys (f k r)) ! i = startTimes (sys r) ! i"
    and "i \<noteq> cursor r \<Longrightarrow> alphas (sys (f k r)) ! i = alphas (sys r) ! i"
    and "i \<noteq> cursor r \<Longrightarrow> positions (sys (f k r)) ! i = positions (sys r) ! i"
  using assms unfolding emitter_def by blast+

lemma emitter_fold_cursor:
  assumes "emitter N f" and "cursor r < N"
  shows "cursor (fold f [0..<n] r) = (cursor r + n) mod N"
proof (induction n)
  case 0
  then show ?case using assms(2) by simp
next
  case (Suc n)
  show ?case by (simp add: emitter_step(1)[OF assms(1)] Suc mod_Suc_eq)
qed

lemma emitter_fold_shape:
  assumes "emitter N f"
  shows "length (startTimes (sys (fold f [0..<n] r))) = length (startTimes (sys r))
       \<and> length (alphas (sys (fold f [0..<n] r))) = length (alphas (sys r))
       \<and> length (positions (sys (fold f [0..<n] r))) = length (positions (sys r))
       \<and> uLifetime (sys (fold f [0..<n] r)) = uLifetime (sys r)"
  by (induction n) (simp_all add: emitter_step[OF assms])

lemma emitter_fold_untouched:
  assumes "emitter N f" and "cursor r < N" and "i \<notin> emittedSlots N (cursor r) n"
  shows "startTimes (sys (fold f [0..<n] r)) ! i = startTimes (sys r) ! i
       \<and> alphas (sys (fold f [0..<n] r)) ! i = alphas (sys r) ! i
       \<and> positions (sys (fold f [0..<n] r)) ! i = positions (sys r) ! i"
  using assms(3)
proof (induction n)
  case 0
  then show ?case by simp
next
  case (Suc n)
  then have a: "i \<noteq> (cursor r + n) mod N" and b: "i \<notin> emittedSlots N (cursor r) n"
    by (simp_all add: emittedSlots_Suc)
  have c: "i \<noteq> cursor (fold f [0..<n] r)"
    using a by (simp add: emitter_fold_cursor[OF assms(1,2)])
  show ?case
    using Suc.IH[OF b] by (simp add: emitter_step(6,7,8)[OF assms(1) c])
qed

lemma tick_retires:
  assumes "emitter N f" and "alphaOnly live" and "cursor r < N" and "hasCapacity (sys r) N"
    and "i < N" and "i \<notin> emittedSlots N (cursor r) n"
    and "overAge (sys r) t i \<or> retired (sys r) i"
  shows "retired (sys (ageLoop live N t (uLifetime (sys r)) (fold f [0..<n] r))) i"
proof -
  define r1 where "r1 = fold f [0..<n] r"
  have same: "startTimes (sys r1) ! i = startTimes (sys r) ! i"
      "alphas (sys r1) ! i = alphas (sys r) ! i"
      "positions (sys r1) ! i = positions (sys r) ! i"
    unfolding r1_def using emitter_fold_untouched[OF assms(1,3,6)] by simp_all
  have len: "i < length (startTimes (sys r1))" "i < length (alphas (sys r1))"
      "i < length (positions (sys r1))"
    unfolding r1_def using emitter_fold_shape[OF assms(1), of n r] assms(4,5)
    by (simp_all add: hasCapacity_def)
  from assms(7) show ?thesis
  proof
    assume "overAge (sys r) t i"
    then have o: "0 \<le> startTimes (sys r1) ! i" "t - startTimes (sys r1) ! i > uLifetime (sys r)"
      by (simp_all add: overAge_def same)
    show ?thesis
      unfolding retired_def r1_def[symmetric]
      by (rule ageLoop_retires[OF assms(2,5) len o])
  next
    assume "retired (sys r) i"
    then have k: "startTimes (sys r1) ! i = - 1" "alphas (sys r1) ! i = 0"
        "positions (sys r1) ! i = OFF_SCREEN_POS"
      by (simp_all add: retired_def same)
    then have "startTimes (sys r1) ! i < 0" by simp
    from ageLoop_keeps_retired[OF assms(2) this, of N t "uLifetime (sys r)"] k
    show ?thesis
      unfolding retired_def r1_def[symmetric] by simp
  qed
qed

lemma updateTrails_result:
  fixes h :: host and w :: world
  assumes "particleTexture w" and "aircraftModel w = Some a" and "leftWingTip w = Some tipL"
    and "rightWingTip w = Some tipR" and "leftWingTrail w = Some pl" and "rightWingTrail w = Some pr"
  defines "t \<equiv> elapsedTime w + clockDiff h (clockReads w)"
  shows "leftWingTrail (updateTrails h dt w)
      = Some (sys (ageLoop (linearFade (uLifetime pl)) MAX_TRAIL_PARTICLES t (uLifetime pl)
          (fold (trailEmit t (getWorldPosition a tipL)) [0..<trailEmitCount w dt]
             \<lparr>sys = pl\<lparr>uTime := t\<rparr>, cursor = currentTrailIndex_left w, rnds = rndCount w\<rparr>)))"
    and "rightWingTrail (updateTrails h dt w)
      = Some (sys (ageLoop (linearFade (uLifetime pr)) MAX_TRAIL_PARTICLES t (uLifetime pr)
          (fold (trailEmit t (getWorldPosition a tipR)) [0..<trailEmitCount w dt]
             \<lparr>sys = pr\<lparr>uTime := t\<rparr>, cursor = currentTrailIndex_right w, rnds = rndCount w\<rparr>)))"
proof -
  have e: "emitParticle t pte pos r
      = fold (trailEmit t pos) [0..<(if pte \<le> 0 then 0 else min (nat pte) MAX_TRAIL_PARTICLES)] r"
    for pte pos r
    by (simp add: emitParticle_def)
  have u: "uLifetime (sys (fold (trailEmit t pos) [0..<n] r)) = uLifetime (sys r)" for pos n r
    using emitter_fold_shape[OF emitter_trailEmit] by simp
  show "leftWingTrail (updateTrails h dt w)
      = Some (sys (ageLoop (linearFade (uLifetime pl)) MAX_TRAIL_PARTICLES t (uLifetime pl)
          (fold (trailEmit t (getWorldPosition a tipL)) [0..<trailEmitCount w dt]
             \<lparr>sys = pl\<lparr>uTime := t\<rparr>, cursor = currentTrailIndex_left w, rnds = rndCount w\<rparr>)))"
    using assms(1-6)
    by (simp add: updateTrails_def Let_def readClock_def t_def[symmetric] e u
        updateExistingParticles_def trailEmitCount_def)
  show "rightWingTrail (updateTrails h dt w)
      = Some (sys (ageLoop (linearFade (uLifetime pr)) MAX_TRAIL_PARTICLES t (uLifetime pr)
          (fold (trailEmit t (getWorldPosition a tipR)) [0..<trailEmitCount w dt]
             \<lparr>sys = pr\<lparr>uTime := t\<rparr>, cursor = currentTrailIndex_right w, rnds = rndCount w\<rparr>)))"
    using assms(1-6)
    by (simp add: updateTrails_def Let_def readClock_def t_def[symmetric] e u
        updateExistingParticles_def trailEmitCount_def)
qed

lemma updateVolcanoSmoke_result:
  fixes h :: host and w :: world
  assumes "particleTexture w" and "volcanoSmokeSystem w = Some p"
  defines "t \<equiv> elapsedTime w + clockDiff h (clockReads w)"
  shows "volcanoSmokeSystem (updateVolcanoSmoke h dt w)
      = Some (sys (ageLoop (smokeLive h (smokeTurbulence (controlParams w)) dt (uLifetime p))
          MAX_SMOKE_PARTICLES t (uLifetime p)
          (fold (smokeEmit h (controlParams w) (vy (VOLCANO_CRATER_CENTER_Y w)) t)
             [0..<smokeEmitCount w dt]
             \<lparr>sys = p\<lparr>uTime := t\<rparr>, cursor = currentSmokeIndex w, rnds = rndCount w\<rparr>)))"
  using assms(1,2)
  by (simp add: updateVolcanoSmoke_def Let_def readClock_def t_def[symmetric] smokeEmitCount_def)

lemma updateEngineBurn_result:
  fixes h :: host and w :: world
  assumes "particleTexture w" and "engineBurnSystem w = Some p" and "engineNozzleLeft w = Some nl"
    and "engineNozzleRight w = Some nr" and "aircraftModel w = Some a"
  defines "t \<equiv> elapsedTime w + clockDiff h (clockReads w)"
  shows "engineBurnSystem (updateEngineBurn h dt w)
      = Some (sys (ageLoop (linearFade (uLifetime p)) MAX_ENGINE_PARTICLES t (uLifetime p)
          (fold (engineEmit h (controlParams w) nl nr t) [0..<engineEmitCount h w dt]
             \<lparr>sys = p\<lparr>uTime := t\<rparr>, cursor = currentEngineIndex w, rnds = rndCount w\<rparr>)))"
  using assms(1-5)
  by (simp add: updateEngineBurn_def Let_def readClock_def t_def[symmetric] engineEmitCount_def)

lemma staleSystem_fields:
  assumes "399 < n"
  shows "hasCapacity (staleSystem (createSystem n l)) n"
    and "uLifetime (staleSystem (createSystem n l)) = l"
    and "startTimes (staleSystem (createSystem n l)) ! 399 = 0"
    and "retired (staleSystem (createSystem n l)) 398"
  using assms by (simp_all add: staleSystem_def createSystem_def hasCapacity_def retired_def)

lemma staleTrail_fields:
  "hasCapacity (staleSystem (createTrail l)) MAX_TRAIL_PARTICLES"
  "uLifetime (staleSystem (createTrail l)) = l"
  "startTimes (staleSystem (createTrail l)) ! 399 = 0"
  "retired (staleSystem (createTrail l)) 398"
  by (simp_all add: staleSystem_def createTrail_def createSystem_def hasCapacity_def retired_def
      MAX_TRAIL_PARTICLES_def)

lemma staleWorld_fields [simp]:
  "particleTexture staleWorld"
  "elapsedTime staleWorld = 20"
  "clockReads staleWorld = 0"
  "aircraftModel staleWorld
     = Some \<lparr>position = Vector3 0 1000 0, quaternion = Quaternion 0 0 0 1, visible = True\<rparr>"
  "leftWingTip staleWorld = Some (Vector3 (- 6) 0.5 1)"
  "rightWingTip staleWorld = Some (Vector3 6 0.5 1)"
  "engineNozzleLeft staleWorld = Some (Vector3 (- 0.8) 1.9 7.0)"
  "engineNozzleRight staleWorld = Some (Vector3 0.8 1.9 7.0)"
  "leftWingTrail staleWorld = Some (staleSystem (createTrail 1.5))"
  "rightWingTrail staleWorld = Some (staleSystem (createTrail 1.5))"
  "volcanoSmokeSystem staleWorld = Some (staleSystem (createSystem MAX_SMOKE_PARTICLES 15.0))"
  "engineBurnSystem staleWorld = Some (staleSystem (createSystem MAX_ENGINE_PARTICLES 0.17))"
  "crashExplosionSystem staleWorld = Some (staleSystem (createSystem MAX_EXPLOSION_PARTICLES 0.8))"
  "currentTrailIndex_left staleWorld = 0"
  "currentTrailIndex_right staleWorld = 0"
  "currentSmokeIndex staleWorld = 0"
  "currentEngineIndex staleWorld = 0"
  "playerVelocity staleWorld = Vector3 0 0 0"
  "playerAngularVelocity staleWorld = Vector3 0 0 0"
  "controlParams staleWorld = defaultParams"
  "keys staleWorld = (\<lambda>k. False)"
  by (simp_all add: staleWorld_def particleWorld_def sampleWorld_def)

lemma staleWorld_counts:
  "trailEmitCount staleWorld 0.1 = 0"
  "smokeEmitCount staleWorld 0.1 = 24"
  "engineEmitCount keyboardHost staleWorld 0.1 = 0"
  by (simp_all add: trailEmitCount_def smokeEmitCount_def engineEmitCount_def Let_def
      defaultParams_def keyboardHost_def MAX_SMOKE_PARTICLES_def)

text \<open>Claim C7. In a tick of each of the four update functions (for \<open>updateTrails\<close>, on
  each wing's system), at the tick's time \<open>currentTime\<close>, every slot below the capacity
  that the tick's emission loop does not claim and that is over age - its timestamp is set
  and \<open>currentTime\<close> minus the timestamp exceeds the lifetime - ends the tick retired: with
  timestamp -1, alpha 0 and the off-screen position. And a slot that is retired when the
  tick starts and is not claimed by the tick's emission loop is still retired when the
  tick ends, so its alpha stays 0 tick after tick until an emission claims it.
  \<open>updateCrashExplosion\<close> has no emission loop (the burst is emitted by the crash
  trigger).\<close>

theorem particle_retirement:
  assumes "particleTexture w" and "currentTime = elapsedTime w + clockDiff h (clockReads w)"
  shows
   "(aircraftModel w = Some a \<and> leftWingTip w = Some tipL \<and> rightWingTip w = Some tipR
      \<and> leftWingTrail w = Some pl \<and> rightWingTrail w = Some pr
      \<and> hasCapacity pl MAX_TRAIL_PARTICLES \<and> hasCapacity pr MAX_TRAIL_PARTICLES
      \<and> currentTrailIndex_left w < MAX_TRAIL_PARTICLES
      \<and> currentTrailIndex_right w < MAX_TRAIL_PARTICLES
      \<and> i < MAX_TRAIL_PARTICLES
     \<longrightarrow> (i \<notin> emittedSlots MAX_TRAIL_PARTICLES (currentTrailIndex_left w) (trailEmitCount w deltaTime)
          \<and> (overAge pl currentTime i \<or> retired pl i)
         \<longrightarrow> retired (the (leftWingTrail (updateTrails h deltaTime w))) i)
       \<and> (i \<notin> emittedSlots MAX_TRAIL_PARTICLES (currentTrailIndex_right w) (trailEmitCount w deltaTime)
          \<and> (overAge pr currentTime i \<or> retired pr i)
         \<longrightarrow> retired (the (rightWingTrail (updateTrails h deltaTime w))) i))
   \<and> (volcanoSmokeSystem w = Some ps \<and> hasCapacity ps MAX_SMOKE_PARTICLES
      \<and> currentSmokeIndex w < MAX_SMOKE_PARTICLES \<and> i < MAX_SMOKE_PARTICLES
      \<and> i \<notin> emittedSlots MAX_SMOKE_PARTICLES (currentSmokeIndex w) (smokeEmitCount w deltaTime)
      \<and> (overAge ps currentTime i \<or> retired ps i)
     \<longrightarrow> retired (the (volcanoSmokeSystem (updateVolcanoSmoke h deltaTime w))) i)
   \<and> (aircraftModel w = Some a \<and> engineNozzleLeft w = Some nl \<and> engineNozzleRight w = Some nr
      \<and> engineBurnSystem w = Some pb \<and> hasCapacity pb MAX_ENGINE_PARTICLES
      \<and> currentEngineIndex w < MAX_ENGINE_PARTICLES \<and> i < MAX_ENGINE_PARTICLES
      \<and> i \<notin> emittedSlots MAX_ENGINE_PARTICLES (currentEngineIndex w) (engineEmitCount h w deltaTime)
      \<and> (overAge pb currentTime i \<or> retired pb i)
     \<longrightarrow> retired (the (engineBurnSystem (updateEngineBurn h deltaTime w))) i)
   \<and> (crashExplosionSystem w = Some pe \<and> hasCapacity pe MAX_EXPLOSION_PARTICLES
      \<and> i < MAX_EXPLOSION_PARTICLES
      \<and> (overAge pe currentTime i \<or> retired pe i)
     \<longrightarrow> retired (the (crashExplosionSystem (updateCrashExplosion h deltaTime w))) i)"
proof (intro conjI impI; (elim conjE)?)
  note t = assms(2)
  {
    assume g: "aircraftModel w = Some a" "leftWingTip w = Some tipL" "rightWingTip w = Some tipR"
      "leftWingTrail w = Some pl" "rightWingTrail w = Some pr"
      and c: "hasCapacity pl MAX_TRAIL_PARTICLES" "currentTrailIndex_left w < MAX_TRAIL_PARTICLES"
        "i < MAX_TRAIL_PARTICLES"
        "i \<notin> emittedSlots MAX_TRAIL_PARTICLES (currentTrailIndex_left w) (trailEmitCount w deltaTime)"
        "overAge pl currentTime i \<or> retired pl i"
    let ?r = "\<lparr>sys = pl\<lparr>uTime := currentTime\<rparr>, cursor = currentTrailIndex_left w, rnds = rndCount w\<rparr>"
    have "retired (sys (ageLoop (linearFade (uLifetime pl)) MAX_TRAIL_PARTICLES currentTime
        (uLifetime (sys ?r))
        (fold (trailEmit currentTime (getWorldPosition a tipL)) [0..<trailEmitCount w deltaTime] ?r))) i"
      by (rule tick_retires[OF emitter_trailEmit alphaOnly_linearFade])
         (use c in \<open>simp_all add: hasCapacity_def overAge_def retired_def\<close>)
    then show "retired (the (leftWingTrail (updateTrails h deltaTime w))) i"
      unfolding updateTrails_result(1)[OF assms(1) g, of h deltaTime] t[symmetric] by simp
  }
  {
    assume g: "aircraftModel w = Some a" "leftWingTip w = Some tipL" "rightWingTip w = Some tipR"
      "leftWingTrail w = Some pl" "rightWingTrail w = Some pr"
      and c: "hasCapacity pr MAX_TRAIL_PARTICLES" "currentTrailIndex_right w < MAX_TRAIL_PARTICLES"
        "i < MAX_TRAIL_PARTICLES"
        "i \<notin> emittedSlots MAX_TRAIL_PARTICLES (currentTrailIndex_right w) (trailEmitCount w deltaTime)"
        "overAge pr currentTime i \<or> retired pr i"
    let ?r = "\<lparr>sys = pr\<lparr>uTime := currentTime\<rparr>, cursor = currentTrailIndex_right w, rnds = rndCount w\<rparr>"
    have "retired (sys (ageLoop (linearFade (uLifetime pr)) MAX_TRAIL_PARTICLES currentTime
        (uLifetime (sys ?r))
        (fold (trailEmit currentTime (getWorldPosition a tipR)) [0..<trailEmitCount w deltaTime] ?r))) i"
      by (rule tick_retires[OF emitter_trailEmit alphaOnly_linearFade])
         (use c in \<open>simp_all add: hasCapacity_def overAge_def retired_def\<close>)
    then show "retired (the (rightWingTrail (updateTrails h deltaTime w))) i"
      unfolding updateTrails_result(2)[OF assms(1) g, of h deltaTime] t[symmetric] by simp
  }
  {
    assume g: "volcanoSmokeSystem w = Some ps"
      and c: "hasCapacity ps MAX_SMOKE_PARTICLES" "currentSmokeIndex w < MAX_SMOKE_PARTICLES"
        "i < MAX_SMOKE_PARTICLES"
        "i \<notin> emittedSlots MAX_SMOKE_PARTICLES (currentSmokeIndex w) (smokeEmitCount w deltaTime)"
        "overAge ps currentTime i \<or> retired ps i"
    let ?r = "\<lparr>sys = ps\<lparr>uTime := currentTime\<rparr>, cursor = currentSmokeIndex w, rnds = rndCount w\<rparr>"
    have "retired (sys (ageLoop (smokeLive h (smokeTurbulence (controlParams w)) deltaTime (uLifetime ps))
        MAX_SMOKE_PARTICLES currentTime (uLifetime (sys ?r))
        (fold (smokeEmit h (controlParams w) (vy (VOLCANO_CRATER_CENTER_Y w)) currentTime)
           [0..<smokeEmitCount w deltaTime] ?r))) i"
      by (rule tick_retires[OF emitter_smokeEmit alphaOnly_smokeLive])
         (use c in \<open>simp_all add: hasCapacity_def overAge_def retired_def\<close>)
    then show "retired (the (volcanoSmokeSystem (updateVolcanoSmoke h deltaTime w))) i"
      unfolding updateVolcanoSmoke_result[OF assms(1) g, of h deltaTime] t[symmetric] by simp
  }
  {
    assume g: "engineBurnSystem w = Some pb" "engineNozzleLeft w = Some nl"
        "engineNozzleRight w = Some nr" "aircraftModel w = Some a"
      and c: "hasCapacity pb MAX_ENGINE_PARTICLES" "currentEngineIndex w < MAX_ENGINE_PARTICLES"
        "i < MAX_ENGINE_PARTICLES"
        "i \<notin> emittedSlots MAX_ENGINE_PARTICLES (currentEngineIndex w) (engineEmitCount h w deltaTime)"
        "overAge pb currentTime i \<or> retired pb i"
    let ?r = "\<lparr>sys = pb\<lparr>uTime := currentTime\<rparr>, cursor = currentEngineIndex w, rnds = rndCount w\<rparr>"
    have "retired (sys (ageLoop (linearFade (uLifetime pb)) MAX_ENGINE_PARTICLES currentTime
        (uLifetime (sys ?r))
        (fold (engineEmit h (controlParams w) nl nr currentTime) [0..<engineEmitCount h w deltaTime] ?r))) i"
      by (rule tick_retires[OF emitter_engineEmit alphaOnly_linearFade])
         (use c in \<open>simp_all add: hasCapacity_def overAge_def retired_def\<close>)
    then show "retired (the (engineBurnSystem (updateEngineBurn h deltaTime w))) i"
      unfolding updateEngineBurn_result[OF assms(1) g, of h deltaTime] t[symmetric] by simp
  }
  {
    assume g: "crashExplosionSystem w = Some pe"
      and c: "hasCapacity pe MAX_EXPLOSION_PARTICLES" "i < MAX_EXPLOSION_PARTICLES"
        "overAge pe currentTime i \<or> retired pe i"
    let ?r = "\<lparr>sys = pe\<lparr>uTime := currentTime\<rparr>, cursor = currentExplosionIndex w, rnds = rndCount w\<rparr>"
    have "retired (sys (ageLoop (linearFade (uLifetime pe)) MAX_EXPLOSION_PARTICLES currentTime
        (uLifetime (sys ?r)) ?r)) i"
      using c(3)
    proof
      assume "overAge pe currentTime i"
      then show ?thesis
        unfolding retired_def
        by (intro ageLoop_retires[OF alphaOnly_linearFade c(2)])
           (use c(1,2) in \<open>simp_all add: hasCapacity_def overAge_def\<close>)
    next
      assume r: "retired pe i"
      then have "startTimes (sys ?r) ! i < 0" by (simp add: retired_def)
      from ageLoop_keeps_retired[OF alphaOnly_linearFade this, where n = MAX_EXPLOSION_PARTICLES
          and t = currentTime and l = "uLifetime (sys ?r)"] r
      show ?thesis by (simp add: retired_def)
    qed
    then show "retired (the (crashExplosionSystem (updateCrashExplosion h deltaTime w))) i"
      unfolding updateCrashExplosion_result[OF g assms(1), of h deltaTime] t[symmetric] by simp
  }
qed

theorem particle_retirement_witness:
  "particleTexture staleWorld
   \<and> overAge (staleSystem (createTrail 1.5)) (20 + 1 / 60) 399
   \<and> overAge (staleSystem (createSystem MAX_SMOKE_PARTICLES 15.0)) (20 + 1 / 60) 399
   \<and> overAge (staleSystem (createSystem MAX_ENGINE_PARTICLES 0.17)) (20 + 1 / 60) 399
   \<and> overAge (staleSystem (createSystem MAX_EXPLOSION_PARTICLES 0.8)) (20 + 1 / 60) 399
   \<and> retired (the (leftWingTrail (updateTrails keyboardHost 0.1 staleWorld))) 399
   \<and> retired (the (rightWingTrail (updateTrails keyboardHost 0.1 staleWorld))) 399
   \<and> retired (the (volcanoSmokeSystem (updateVolcanoSmoke keyboardHost 0.1 staleWorld))) 399
   \<and> retired (the (engineBurnSystem (updateEngineBurn keyboardHost 0.1 staleWorld))) 399
   \<and> retired (the (crashExplosionSystem (updateCrashExplosion keyboardHost 0.1 staleWorld))) 399
   \<and> retired (staleSystem (createTrail 1.5)) 398
   \<and> retired (the (leftWingTrail (updateTrails keyboardHost 0.1 staleWorld))) 398
   \<and> retired (staleSystem (createSystem MAX_SMOKE_PARTICLES 15.0)) 398
   \<and> retired (the (volcanoSmokeSystem (updateVolcanoSmoke keyboardHost 0.1 staleWorld))) 398"
proof -
  let ?a = "\<lparr>position = Vector3 0 1000 0, quaternion = Quaternion 0 0 0 1, visible = True\<rparr>"
  let ?pt = "staleSystem (createTrail 1.5)"
  let ?ps = "staleSystem (createSystem MAX_SMOKE_PARTICLES 15.0)"
  let ?pb = "staleSystem (createSystem MAX_ENGINE_PARTICLES 0.17)"
  let ?pe = "staleSystem (createSystem MAX_EXPLOSION_PARTICLES 0.8)"
  have M: "399 < MAX_TRAIL_PARTICLES" "399 < MAX_SMOKE_PARTICLES" "399 < MAX_ENGINE_PARTICLES"
      "399 < MAX_EXPLOSION_PARTICLES" "398 < MAX_TRAIL_PARTICLES" "398 < MAX_SMOKE_PARTICLES"
      "0 < MAX_TRAIL_PARTICLES" "0 < MAX_SMOKE_PARTICLES" "0 < MAX_ENGINE_PARTICLES"
    by (simp_all add: MAX_TRAIL_PARTICLES_def MAX_SMOKE_PARTICLES_def MAX_ENGINE_PARTICLES_def
        MAX_EXPLOSION_PARTICLES_def)
  have h1: "particleTexture staleWorld" by simp
  have h2: "20 + 1 / 60 = elapsedTime staleWorld + clockDiff keyboardHost (clockReads staleWorld)"
    by (simp add: keyboardHost_def)
  have o: "overAge ?pt (20 + 1 / 60) 399" "overAge ?ps (20 + 1 / 60) 399"
      "overAge ?pb (20 + 1 / 60) 399" "overAge ?pe (20 + 1 / 60) 399"
    by (simp_all add: overAge_def staleTrail_fields staleSystem_fields M)
  have e0: "emittedSlots N 0 0 = {}" for N by (simp add: emittedSlots_def)
  have e24: "emittedSlots MAX_SMOKE_PARTICLES 0 24 = {..<24}"
    by (rule emittedSlots_from_zero) (simp add: MAX_SMOKE_PARTICLES_def)
  note T = particle_retirement[OF h1 h2, where deltaTime = "0.1" and a = ?a
      and tipL = "Vector3 (- 6) 0.5 1" and tipR = "Vector3 6 0.5 1" and pl = ?pt and pr = ?pt
      and ps = ?ps and nl = "Vector3 (- 0.8) 1.9 7.0" and nr = "Vector3 0.8 1.9 7.0" and pb = ?pb
      and pe = ?pe]
  note A = T[where i = 399]
  note B = T[where i = 398]
  have gt: "aircraftModel staleWorld = Some ?a \<and> leftWingTip staleWorld = Some (Vector3 (- 6) 0.5 1)
      \<and> rightWingTip staleWorld = Some (Vector3 6 0.5 1)
      \<and> leftWingTrail staleWorld = Some ?pt \<and> rightWingTrail staleWorld = Some ?pt
      \<and> hasCapacity ?pt MAX_TRAIL_PARTICLES \<and> hasCapacity ?pt MAX_TRAIL_PARTICLES
      \<and> currentTrailIndex_left staleWorld < MAX_TRAIL_PARTICLES
      \<and> currentTrailIndex_right staleWorld < MAX_TRAIL_PARTICLES
      \<and> i < MAX_TRAIL_PARTICLES" if "i < MAX_TRAIL_PARTICLES" for i
    using that by (simp add: staleTrail_fields M)
  note A1 = mp[OF conjunct1[OF A] gt[OF M(1)]]
  have l: "retired (the (leftWingTrail (updateTrails keyboardHost 0.1 staleWorld))) 399"
    by (rule mp[OF conjunct1[OF A1]]) (use o in \<open>simp add: staleWorld_counts e0\<close>)
  have r: "retired (the (rightWingTrail (updateTrails keyboardHost 0.1 staleWorld))) 399"
    by (rule mp[OF conjunct2[OF A1]]) (use o in \<open>simp add: staleWorld_counts e0\<close>)
  have s: "retired (the (volcanoSmokeSystem (updateVolcanoSmoke keyboardHost 0.1 staleWorld))) 399"
    by (rule mp[OF conjunct1[OF conjunct2[OF A]]])
       (use o in \<open>simp add: staleWorld_counts e24 staleSystem_fields M\<close>)
  have b: "retired (the (engineBurnSystem (updateEngineBurn keyboardHost 0.1 staleWorld))) 399"
    by (rule mp[OF conjunct1[OF conjunct2[OF conjunct2[OF A]]]])
       (use o in \<open>simp add: staleWorld_counts e0 staleSystem_fields M\<close>)
  have e: "retired (the (crashExplosionSystem (updateCrashExplosion keyboardHost 0.1 staleWorld))) 399"
    by (rule mp[OF conjunct2[OF conjunct2[OF conjunct2[OF A]]]])
       (use o in \<open>simp add: staleSystem_fields M\<close>)
  have k: "retired ?pt 398" "retired ?ps 398"
    by (simp_all add: staleTrail_fields staleSystem_fields M)
  note B1 = mp[OF conjunct1[OF B] gt[OF M(5)]]
  have l': "retired (the (leftWingTrail (updateTrails keyboardHost 0.1 staleWorld))) 398"
    by (rule mp[OF conjunct1[OF B1]]) (use k in \<open>simp add: staleWorld_counts e0\<close>)
  have s': "retired (the (volcanoSmokeSystem (updateVolcanoSmoke keyboardHost 0.1 staleWorld))) 398"
    by (rule mp[OF conjunct1[OF conjunct2[OF B]]])
       (use k in \<open>simp add: staleWorld_counts e24 staleSystem_fields M\<close>)
  show ?thesis
    using h1 o l r s b e k l' s' by (intro conjI)
qed


subsection \<open>A frame while crashing\<close>

lemma animate_crashing:
  assumes "isCrashing w"
  shows "animate h w =
     (if aircraftModel w \<noteq> None
      then hudFogCamera (min (clockDiff h (clockReads w)) 0.1)
             (updateParticles h (min (clockDiff h (clockReads w)) 0.1) (readClock h w))
      else (updateParticles h (min (clockDiff h (clockReads w)) 0.1) (readClock h w))
             \<lparr>hudSpeed := 0, hudAltitude := 0\<rparr>)"
  using assms by (simp add: animate_def Let_def THREE_defined_def)

lemma hudFogCamera_values:
  "hudSpeed (hudFogCamera dt w) = length_v (playerVelocity w)"
  "cameraPosition (hudFogCamera dt w)
     = lerp_v (cameraPosition w)
         (add_v (position (the (aircraftModel w)))
            (applyQuaternion (Vector3 0 7 20) (quaternion (the (aircraftModel w)))))
         (1 - Math_pow (1 - cameraSmoothness (controlParams w)) (dt * 60))"
  "crashExplosionSystem (hudFogCamera dt w) = crashExplosionSystem w"
  "leftWingTrail (hudFogCamera dt w) = leftWingTrail w"
  "rightWingTrail (hudFogCamera dt w) = rightWingTrail w"
  "volcanoSmokeSystem (hudFogCamera dt w) = volcanoSmokeSystem w"
  "engineBurnSystem (hudFogCamera dt w) = engineBurnSystem w"
  by (simp_all add: hudFogCamera_def Let_def)

lemma emitters_leave_explosion [simp]:
  "crashExplosionSystem (readClock h w) = crashExplosionSystem w"
  "crashExplosionSystem (updateTrails h dt w) = crashExplosionSystem w"
  "crashExplosionSystem (updateVolcanoSmoke h dt w) = crashExplosionSystem w"
  "crashExplosionSystem (updateEngineBurn h dt w) = crashExplosionSystem w"
  by (simp_all add: readClock_def updateTrails_def updateVolcanoSmoke_def updateEngineBurn_def Let_def)

lemma clock_monotone:
  assumes "\<And>k. 0 \<le> clockDiff h k"
  shows "elapsedTime w \<le> elapsedTime (readClock h w)"
    and "elapsedTime w \<le> elapsedTime (updateTrails h dt w)"
    and "elapsedTime w \<le> elapsedTime (updateVolcanoSmoke h dt w)"
    and "elapsedTime w \<le> elapsedTime (updateEngineBurn h dt w)"
  using assms
  by (simp_all add: readClock_def updateTrails_def updateVolcanoSmoke_def updateEngineBurn_def Let_def)

lemma updateParticles_explosion:
  assumes "\<And>k. 0 \<le> clockDiff h k" and "particleTexture w" and "crashExplosionSystem w = Some p"
  shows "\<exists>t r. elapsedTime w \<le> t \<and> sys r = p\<lparr>uTime := t\<rparr>
      \<and> crashExplosionSystem (updateParticles h dt w)
          = Some (sys (ageLoop (linearFade (uLifetime p)) MAX_EXPLOSION_PARTICLES t (uLifetime p) r))"
proof -
  define w3 where "w3 = updateEngineBurn h dt (updateVolcanoSmoke h dt (updateTrails h dt w))"
  define t where "t = elapsedTime w3 + clockDiff h (clockReads w3)"
  have e: "elapsedTime w \<le> elapsedTime w3"
    unfolding w3_def
    using clock_monotone(2)[OF assms(1), of w dt]
      clock_monotone(3)[OF assms(1), of "updateTrails h dt w" dt]
      clock_monotone(4)[OF assms(1), of "updateVolcanoSmoke h dt (updateTrails h dt w)" dt]
    by linarith
  have p: "crashExplosionSystem w3 = Some p" "particleTexture w3"
    using assms(2,3) by (simp_all add: w3_def)
  have "updateParticles h dt w = updateCrashExplosion h dt w3"
    using assms(2) by (simp add: updateParticles_def w3_def)
  then have "crashExplosionSystem (updateParticles h dt w)
      = Some (sys (ageLoop (linearFade (uLifetime p)) MAX_EXPLOSION_PARTICLES t (uLifetime p)
          \<lparr>sys = p\<lparr>uTime := t\<rparr>, cursor = currentExplosionIndex w3, rnds = rndCount w3\<rparr>))"
    using updateCrashExplosion_result[OF p, of h dt] by (simp add: t_def)
  moreover have "elapsedTime w \<le> t" using e assms(1)[of "clockReads w3"] by (simp add: t_def)
  ultimately show ?thesis
    by (intro exI[of _ t] exI[of _ "\<lparr>sys = p\<lparr>uTime := t\<rparr>, cursor = currentExplosionIndex w3, rnds = rndCount w3\<rparr>"]) simp
qed

lemma crashedWorld_fields [simp]:
  "isCrashing crashedWorld = True"
  "aircraftModel crashedWorld
     = Some \<lparr>position = Vector3 0 371.5 0, quaternion = Quaternion 0 0 0 1, visible = False\<rparr>"
  "playerVelocity crashedWorld = Vector3 0 0 0"
  "playerAngularVelocity crashedWorld = Vector3 0 0 0"
  "crashExplosionSystem crashedWorld = Some agedSystem"
  "particleTexture crashedWorld = True"
  "elapsedTime crashedWorld = 2"
  "console crashedWorld = [''CRASH DETECTED!'', ''--- Triggering Crash Explosion ---'']"
  "crashResetTimeout crashedWorld = Some 1"
  "pendingTimeouts crashedWorld = [1]"
  "nextTimeoutId crashedWorld = 2"
  by (simp_all add: crashedWorld_def agedWorld_def particleWorld_def sampleWorld_def)

lemma agedSystem_slot17:
  "alphas agedSystem ! 17 = 1" "17 < MAX_EXPLOSION_PARTICLES"
  by (simp_all add: agedSystem_def createSystem_def MAX_EXPLOSION_PARTICLES_def)

text \<open>Claim C5. A frame that starts with \<open>isCrashing\<close> set leaves the aircraft (position,
  quaternion, visibility), the velocity and the angular velocity as they were and keeps the
  flag set: the whole frame is the clock read, the four particle updates, and then the HUD,
  fog and camera update (when the aircraft exists), with no physics, wrap or collision
  step. In particular the HUD speed is recomputed and the explosion system is the one the
  particle updates produce.\<close>

theorem crashing_tick_frozen:
  assumes "isCrashing w"
  shows "aircraftModel (animate h w) = aircraftModel w
       \<and> playerVelocity (animate h w) = playerVelocity w
       \<and> playerAngularVelocity (animate h w) = playerAngularVelocity w
       \<and> isCrashing (animate h w)
       \<and> animate h w =
           (if aircraftModel w \<noteq> None
            then hudFogCamera (min (clockDiff h (clockReads w)) 0.1)
                   (updateParticles h (min (clockDiff h (clockReads w)) 0.1) (readClock h w))
            else (updateParticles h (min (clockDiff h (clockReads w)) 0.1) (readClock h w))
                   \<lparr>hudSpeed := 0, hudAltitude := 0\<rparr>)
       \<and> (aircraftModel w \<noteq> None \<longrightarrow>
            hudSpeed (animate h w) = length_v (playerVelocity w)
          \<and> crashExplosionSystem (animate h w)
              = crashExplosionSystem
                  (updateParticles h (min (clockDiff h (clockReads w)) 0.1) (readClock h w)))"
  unfolding animate_crashing[OF assms]
  using assms by (simp add: hudFogCamera_values)


theorem crashing_tick_frozen_witness:
  "isCrashing crashedWorld
   \<and> aircraftModel (animate keyboardHost crashedWorld)
       = Some \<lparr>position = Vector3 0 371.5 0, quaternion = Quaternion 0 0 0 1, visible = False\<rparr>
   \<and> playerVelocity (animate keyboardHost crashedWorld) = Vector3 0 0 0
   \<and> playerAngularVelocity (animate keyboardHost crashedWorld) = Vector3 0 0 0
   \<and> isCrashing (animate keyboardHost crashedWorld)
   \<and> hudSpeed (animate keyboardHost crashedWorld) = 0
   \<and> alphas (the (crashExplosionSystem crashedWorld)) ! 17 = 1
   \<and> alphas (the (crashExplosionSystem (animate keyboardHost crashedWorld))) ! 17 = 0
   \<and> startTimes (the (crashExplosionSystem (animate keyboardHost crashedWorld))) ! 17 = - 1"
proof -
  have c: "isCrashing crashedWorld" by simp
  note T = crashing_tick_frozen[OF c, of keyboardHost]
  define dt where "dt = min (clockDiff keyboardHost (clockReads crashedWorld)) 0.1"
  have n: "\<And>k. 0 \<le> clockDiff keyboardHost k" by (simp add: keyboardHost_def)
  obtain t r where tr: "elapsedTime (readClock keyboardHost crashedWorld) \<le> t"
      "sys r = agedSystem\<lparr>uTime := t\<rparr>"
      "crashExplosionSystem (updateParticles keyboardHost dt (readClock keyboardHost crashedWorld))
          = Some (sys (ageLoop (linearFade (uLifetime agedSystem)) MAX_EXPLOSION_PARTICLES t
                (uLifetime agedSystem) r))"
    using updateParticles_explosion[OF n, of "readClock keyboardHost crashedWorld" agedSystem dt]
    by auto
  have "2 \<le> elapsedTime (readClock keyboardHost crashedWorld)"
    using clock_monotone(1)[OF n, of crashedWorld] by simp
  then have t2: "2 \<le> t" using tr(1) by linarith
  have ret: "startTimes (sys (ageLoop (linearFade (uLifetime agedSystem)) MAX_EXPLOSION_PARTICLES t
                (uLifetime agedSystem) r)) ! 17 = - 1
       \<and> alphas (sys (ageLoop (linearFade (uLifetime agedSystem)) MAX_EXPLOSION_PARTICLES t
                (uLifetime agedSystem) r)) ! 17 = 0
       \<and> positions (sys (ageLoop (linearFade (uLifetime agedSystem)) MAX_EXPLOSION_PARTICLES t
                (uLifetime agedSystem) r)) ! 17 = OFF_SCREEN_POS"
    by (rule ageLoop_retires[OF alphaOnly_linearFade agedSystem_slot17(2)])
       (use t2 in \<open>simp_all add: tr(2) agedSystem_slot17(2)\<close>)
  note T6 = conjunct2[OF conjunct2[OF conjunct2[OF conjunct2[OF conjunct2[OF T]]]]]
  have e: "crashExplosionSystem (animate keyboardHost crashedWorld)
      = crashExplosionSystem (updateParticles keyboardHost dt (readClock keyboardHost crashedWorld))"
    using T6 by (simp add: dt_def)
  have a: "alphas (the (crashExplosionSystem (animate keyboardHost crashedWorld))) ! 17 = 0
      \<and> startTimes (the (crashExplosionSystem (animate keyboardHost crashedWorld))) ! 17 = - 1"
    unfolding e tr(3) option.sel using ret by simp
  have b: "aircraftModel (animate keyboardHost crashedWorld)
       = Some \<lparr>position = Vector3 0 371.5 0, quaternion = Quaternion 0 0 0 1, visible = False\<rparr>"
     "playerVelocity (animate keyboardHost crashedWorld) = Vector3 0 0 0"
     "playerAngularVelocity (animate keyboardHost crashedWorld) = Vector3 0 0 0"
     "isCrashing (animate keyboardHost crashedWorld)"
     "hudSpeed (animate keyboardHost crashedWorld) = 0"
    using conjunct1[OF T] conjunct1[OF conjunct2[OF T]] conjunct1[OF conjunct2[OF conjunct2[OF T]]]
      conjunct1[OF conjunct2[OF conjunct2[OF conjunct2[OF T]]]] T6
    by simp_all
  show ?thesis
    using c a b agedSystem_slot17(1) by (intro conjI) simp_all
qed

subsection \<open>Crash entry\<close>

lemma updateParticles_explosion_present [simp]:
  "(crashExplosionSystem (updateParticles h dt w) = None) = (crashExplosionSystem w = None)"
  by (simp add: updateParticles_def updateCrashExplosion_def Let_def)

lemma step_while_crashing:
  assumes "isCrashing w" and "\<not> isTimeout ev"
  shows "isCrashing (step h ev w) \<and> console (step h ev w) = console w
       \<and> crashResetTimeout (step h ev w) = crashResetTimeout w
       \<and> pendingTimeouts (step h ev w) = pendingTimeouts w
       \<and> nextTimeoutId (step h ev w) = nextTimeoutId w
       \<and> currentExplosionIndex (step h ev w) = currentExplosionIndex w
       \<and> aircraftModel (step h ev w) = aircraftModel w
       \<and> playerVelocity (step h ev w) = playerVelocity w
       \<and> playerAngularVelocity (step h ev w) = playerAngularVelocity w
       \<and> particleTexture (step h ev w) = particleTexture w
       \<and> (crashExplosionSystem (step h ev w) = None) = (crashExplosionSystem w = None)"
proof (cases ev)
  case Frame
  show ?thesis
    unfolding Frame step.simps animate_crashing[OF assms(1)]
    using assms(1) by (simp add: hudFogCamera_values)
qed (use assms in \<open>simp_all add: keydown_def keyup_def Let_def joystickLeft_move_def joystickLeft_end_def
        joystickRight_move_def joystickRight_end_def\<close>)

lemma run_while_crashing:
  assumes "isCrashing w" and "\<forall>ev\<in>set evs. \<not> isTimeout ev"
  shows "isCrashing (run h evs w) \<and> console (run h evs w) = console w
       \<and> crashResetTimeout (run h evs w) = crashResetTimeout w
       \<and> pendingTimeouts (run h evs w) = pendingTimeouts w
       \<and> nextTimeoutId (run h evs w) = nextTimeoutId w
       \<and> currentExplosionIndex (run h evs w) = currentExplosionIndex w
       \<and> aircraftModel (run h evs w) = aircraftModel w
       \<and> playerVelocity (run h evs w) = playerVelocity w
       \<and> playerAngularVelocity (run h evs w) = playerAngularVelocity w
       \<and> particleTexture (run h evs w) = particleTexture w
       \<and> (crashExplosionSystem (run h evs w) = None) = (crashExplosionSystem w = None)"
  using assms unfolding run_def
proof (induction evs arbitrary: w)
  case Nil
  then show ?case by simp
next
  case (Cons ev evs)
  have s: "isCrashing (step h ev w) \<and> console (step h ev w) = console w
       \<and> crashResetTimeout (step h ev w) = crashResetTimeout w
       \<and> pendingTimeouts (step h ev w) = pendingTimeouts w
       \<and> nextTimeoutId (step h ev w) = nextTimeoutId w
       \<and> currentExplosionIndex (step h ev w) = currentExplosionIndex w
       \<and> aircraftModel (step h ev w) = aircraftModel w
       \<and> playerVelocity (step h ev w) = playerVelocity w
       \<and> playerAngularVelocity (step h ev w) = playerAngularVelocity w
       \<and> particleTexture (step h ev w) = particleTexture w
       \<and> (crashExplosionSystem (step h ev w) = None) = (crashExplosionSystem w = None)"
    by (rule step_while_crashing) (use Cons.prems in simp_all)
  show ?case
    using Cons.IH[of "step h ev w"] s Cons.prems(2) by simp
qed

lemma triggerCrashExplosion_console:
  "console (triggerCrashExplosion h pos w)
     = console w @ (if crashExplosionSystem w \<noteq> None \<and> particleTexture w
                    then [''--- Triggering Crash Explosion ---''] else [])"
  by (simp add: triggerCrashExplosion_def Let_def readClock_def)

lemma crashEntry_effects:
  "isCrashing (crashEntry h w)"
  "console (crashEntry h w)
     = console w @ ''CRASH DETECTED!''
         # (if crashExplosionSystem w \<noteq> None \<and> particleTexture w
            then [''--- Triggering Crash Explosion ---''] else [])"
  "aircraftModel (crashEntry h w) = map_option (\<lambda>a. a\<lparr>visible := False\<rparr>) (aircraftModel w)"
  "playerVelocity (crashEntry h w) = Vector3 0 0 0"
  "playerAngularVelocity (crashEntry h w) = Vector3 0 0 0"
  "crashResetTimeout (crashEntry h w) = Some (nextTimeoutId w)"
  "nextTimeoutId w \<in> set (pendingTimeouts (crashEntry h w))"
  "nextTimeoutId (crashEntry h w) = Suc (nextTimeoutId w)"
  "particleTexture (crashEntry h w) = particleTexture w"
  "(crashExplosionSystem (crashEntry h w) = None) = (crashExplosionSystem w = None)"
  by (simp_all add: crashEntry_def Let_def clearTimeout_def triggerCrashExplosion_console)
     (simp_all add: triggerCrashExplosion_def Let_def readClock_def)


lemma crashDelta_same:
  assumes "console w' = console w" and "nextTimeoutId w' = nextTimeoutId w"
    and "particleTexture w' = particleTexture w"
    and "(crashExplosionSystem w' = None) = (crashExplosionSystem w = None)"
  shows "crashDelta w w' 0"
  using assms by (simp add: crashDelta_def crashEntries_def explosionTriggers_def)

lemma crashDelta_crashEntry: "crashDelta w (crashEntry h w) 1"
  by (simp add: crashDelta_def crashEntries_def explosionTriggers_def crashEntry_effects)

lemma crashDelta_cong:
  assumes "crashDelta w1 w' k" and "console w1 = console w" and "nextTimeoutId w1 = nextTimeoutId w"
    and "particleTexture w1 = particleTexture w"
    and "(crashExplosionSystem w1 = None) = (crashExplosionSystem w = None)"
  shows "crashDelta w w' k"
  using assms by (simp add: crashDelta_def crashEntries_def explosionTriggers_def)

lemma crashDelta_after:
  assumes "crashDelta w w1 k" and "console w' = console w1" and "nextTimeoutId w' = nextTimeoutId w1"
    and "particleTexture w' = particleTexture w1"
    and "(crashExplosionSystem w' = None) = (crashExplosionSystem w1 = None)"
  shows "crashDelta w w' k"
  using assms by (simp add: crashDelta_def crashEntries_def explosionTriggers_def)

lemma crashDelta_trans:
  assumes "crashDelta w w1 0" and "crashDelta w1 w' k"
  shows "crashDelta w w' k"
proof -
  have e: "(crashExplosionSystem w1 \<noteq> None \<and> particleTexture w1)
      = (crashExplosionSystem w \<noteq> None \<and> particleTexture w)"
    using assms(1) by (simp add: crashDelta_def del: not_None_eq)
  show ?thesis
    using assms unfolding crashDelta_def e by (simp del: not_None_eq)
qed

lemma collision_outcome:
  assumes "\<not> isCrashing w"
  shows "crashDelta w (collision h w) (if isCrashing (collision h w) then 1 else 0)"
proof -
  have "collision h w = crashEntry h w
      \<or> (\<not> isCrashing (collision h w) \<and> console (collision h w) = console w
          \<and> nextTimeoutId (collision h w) = nextTimeoutId w
          \<and> crashExplosionSystem (collision h w) = crashExplosionSystem w
          \<and> particleTexture (collision h w) = particleTexture w)"
    using assms by (simp add: collision_def Let_def)
  then show ?thesis
  proof
    assume "collision h w = crashEntry h w"
    then show ?thesis using crashDelta_crashEntry[of w h] by (simp add: crashEntry_effects)
  next
    assume a: "\<not> isCrashing (collision h w) \<and> console (collision h w) = console w
          \<and> nextTimeoutId (collision h w) = nextTimeoutId w
          \<and> crashExplosionSystem (collision h w) = crashExplosionSystem w
          \<and> particleTexture (collision h w) = particleTexture w"
    then have "crashDelta w (collision h w) 0" by (intro crashDelta_same) simp_all
    then show ?thesis using a by simp
  qed
qed

lemma physicsUpdate_outcome:
  assumes "\<not> isCrashing w"
  shows "crashDelta w (physicsUpdate h dt w) (if isCrashing (physicsUpdate h dt w) then 1 else 0)"
proof -
  obtain W where W: "physicsUpdate h dt w = collision h W" "isCrashing W = isCrashing w"
      "console W = console w" "nextTimeoutId W = nextTimeoutId w"
      "particleTexture W = particleTexture w" "crashExplosionSystem W = crashExplosionSystem w"
  proof
    let ?a = "the (aircraftModel w)"
    let ?av = "angularStep (controlParams w) (readControls h w) dt (playerAngularVelocity w)"
    let ?q = "orientationStep ?av dt (quaternion ?a)"
    let ?v = "flightVelocity (controlParams w) (readControls h w) dt ?q (playerVelocity w)"
    let ?W = "w\<lparr>aircraftModel := Some (?a\<lparr>position := worldWrap (addScaledVector (position ?a) ?v dt),
                  quaternion := ?q\<rparr>), playerVelocity := ?v, playerAngularVelocity := ?av\<rparr>"
    show "physicsUpdate h dt w = collision h ?W" by (simp add: physicsUpdate_def Let_def)
    show "isCrashing ?W = isCrashing w" "console ?W = console w" "nextTimeoutId ?W = nextTimeoutId w"
      "particleTexture ?W = particleTexture w" "crashExplosionSystem ?W = crashExplosionSystem w"
      by simp_all
  qed
  have "crashDelta W (collision h W) (if isCrashing (collision h W) then 1 else 0)"
    by (rule collision_outcome) (simp add: W(2) assms)
  then show ?thesis
    unfolding W(1) by (rule crashDelta_cong) (simp_all add: W)
qed

lemma animate_outcome:
  assumes "\<not> isCrashing w"
  shows "crashDelta w (animate h w) (if isCrashing (animate h w) then 1 else 0)"
proof -
  define dt where "dt = min (clockDiff h (clockReads w)) 0.1"
  define w1 where "w1 = updateParticles h dt (readClock h w)"
  have w1: "\<not> isCrashing w1" "console w1 = console w" "nextTimeoutId w1 = nextTimeoutId w"
      "particleTexture w1 = particleTexture w"
      "(crashExplosionSystem w1 = None) = (crashExplosionSystem w = None)"
    using assms by (simp_all add: w1_def)
  have a: "animate h w =
      (if aircraftModel w1 \<noteq> None \<and> THREE_defined then hudFogCamera dt (physicsUpdate h dt w1)
       else w1\<lparr>hudSpeed := 0, hudAltitude := 0\<rparr>)"
    using w1(1) by (simp add: animate_def Let_def dt_def w1_def)
  show ?thesis
  proof (cases "aircraftModel w1 \<noteq> None \<and> THREE_defined")
    case True
    have p: "crashDelta w1 (physicsUpdate h dt w1) (if isCrashing (physicsUpdate h dt w1) then 1 else 0)"
      by (rule physicsUpdate_outcome[OF w1(1)])
    have "crashDelta w1 (hudFogCamera dt (physicsUpdate h dt w1))
        (if isCrashing (physicsUpdate h dt w1) then 1 else 0)"
      by (rule crashDelta_after[OF p]) (simp_all add: hudFogCamera_values)
    then have d: "crashDelta w (hudFogCamera dt (physicsUpdate h dt w1))
        (if isCrashing (physicsUpdate h dt w1) then 1 else 0)"
      by (rule crashDelta_cong) (simp_all add: w1)
    have e: "animate h w = hudFogCamera dt (physicsUpdate h dt w1)"
      by (simp only: a True if_True simp_thms)
    show ?thesis unfolding e using d by simp
  next
    case False
    have d: "crashDelta w (w1\<lparr>hudSpeed := 0, hudAltitude := 0\<rparr>) 0"
      by (rule crashDelta_same) (simp_all add: w1)
    have e: "animate h w = w1\<lparr>hudSpeed := 0, hudAltitude := 0\<rparr>"
      by (simp only: a False if_False)
    show ?thesis unfolding e using d w1(1) by simp
  qed
qed

lemma step_outcome:
  assumes "\<not> isCrashing w" and "\<not> isTimeout ev"
  shows "crashDelta w (step h ev w) (if isCrashing (step h ev w) then 1 else 0)"
proof (cases ev)
  case Frame
  then show ?thesis using animate_outcome[OF assms(1)] by simp
next
  case (TimeoutFires i)
  then show ?thesis using assms(2) by simp
qed (use assms(1) in \<open>simp_all add: crashDelta_def crashEntries_def explosionTriggers_def keydown_def
        keyup_def Let_def joystickLeft_move_def joystickLeft_end_def joystickRight_move_def
        joystickRight_end_def\<close>)

lemma run_outcome:
  assumes "\<not> isCrashing w" and "\<forall>ev\<in>set evs. \<not> isTimeout ev"
  shows "crashDelta w (run h evs w) (if isCrashing (run h evs w) then 1 else 0)"
  using assms unfolding run_def
proof (induction evs arbitrary: w)
  case Nil
  then show ?case by (simp add: crashDelta_def)
next
  case (Cons ev evs)
  have s: "crashDelta w (step h ev w) (if isCrashing (step h ev w) then 1 else 0)"
    by (rule step_outcome) (use Cons.prems in simp_all)
  have n: "\<forall>ev\<in>set evs. \<not> isTimeout ev" using Cons.prems(2) by simp
  show ?case
  proof (cases "isCrashing (step h ev w)")
    case True
    have r: "isCrashing (run h evs (step h ev w)) \<and> console (run h evs (step h ev w)) = console (step h ev w)
        \<and> nextTimeoutId (run h evs (step h ev w)) = nextTimeoutId (step h ev w)
        \<and> particleTexture (run h evs (step h ev w)) = particleTexture (step h ev w)
        \<and> (crashExplosionSystem (run h evs (step h ev w)) = None)
            = (crashExplosionSystem (step h ev w) = None)"
      using run_while_crashing[OF True n, of h] by simp
    have "crashDelta w (run h evs (step h ev w)) 1"
      by (rule crashDelta_after[where ?w1.0 = "step h ev w"]) (use s True r in simp_all)
    then show ?thesis using r by (simp add: run_def)
  next
    case False
    have i: "crashDelta (step h ev w) (fold (step h) evs (step h ev w))
        (if isCrashing (fold (step h) evs (step h ev w)) then 1 else 0)"
      by (rule Cons.IH[OF False n])
    have z: "crashDelta w (step h ev w) 0" using s False by simp
    show ?thesis
      by (simp only: fold_simps) (rule crashDelta_trans[OF z i])
  qed
qed


lemma collision_crash:
  assumes "terrainMesh w" and "aircraftModel w = Some a"
    and "vy (position a)
          < max (getProceduralTerrainHeight (vx (position a)) (vz (position a))) WATER_LEVEL
            + AIRCRAFT_GROUND_BUFFER"
    and "vy (playerVelocity w) < CRASH_VELOCITY_THRESHOLD"
  shows "collision h w = (if isCrashing w then w else crashEntry h w)"
  using assms by (simp add: collision_def Let_def)

lemma animate_flying:
  assumes "\<not> isCrashing w" and "aircraftModel w \<noteq> None"
  shows "animate h w =
     hudFogCamera (min (clockDiff h (clockReads w)) 0.1)
       (physicsUpdate h (min (clockDiff h (clockReads w)) 0.1)
          (updateParticles h (min (clockDiff h (clockReads w)) 0.1) (readClock h w)))"
  using assms by (simp add: animate_def Let_def THREE_defined_def)

lemma idleDecay_fast:
  assumes "minSpeed cp * minSpeed cp \<le> lengthSq u"
  shows "idleDecay cp inp u = u"
  using assms by (simp add: idleDecay_def Let_def)

lemma divingWorld_fields [simp]:
  "aircraftModel divingWorld
     = Some \<lparr>position = Vector3 0 380 0, quaternion = Quaternion 0 0 0 1, visible = True\<rparr>"
  "playerVelocity divingWorld = Vector3 0 (- 20) 0"
  "playerAngularVelocity divingWorld = Vector3 0 0 0"
  "controlParams divingWorld = defaultParams"
  "keys divingWorld = (\<lambda>k. False)"
  "isCrashing divingWorld = False"
  "terrainMesh divingWorld = True"
  "particleTexture divingWorld = True"
  "crashExplosionSystem divingWorld = Some (createSystem MAX_EXPLOSION_PARTICLES 0.8)"
  "console divingWorld = []"
  "nextTimeoutId divingWorld = 1"
  "crashResetTimeout divingWorld = None"
  "clockReads divingWorld = 0"
  by (simp_all add: divingWorld_def particleWorld_def sampleWorld_def)

lemma diving_velocity:
  "flightVelocity defaultParams
      \<lparr>pitchInput = 0, rollInput = 0, yawInput = 0, thrustInput = 0, brakeInput = False,
        afterburnerInput = False\<rparr> (1 / 60) q (Vector3 0 (- 20) 0) = Vector3 0 (- (119 / 6)) 0"
proof -
  let ?inp = "\<lparr>pitchInput = 0, rollInput = 0, yawInput = 0, thrustInput = 0, brakeInput = False,
        afterburnerInput = False\<rparr>"
  let ?u = "Vector3 0 (- (119 / 6)) 0"
  have vs: "velocityStep defaultParams ?inp (1 / 60) q (Vector3 0 (- 20) 0) = ?u"
    by (simp add: velocityStep_coasting) (simp add: defaultParams_def multiplyScalar_def Vector3_def)
  have l: "lengthSq ?u = 14161 / 36"
    by (simp add: lengthSq_def Vector3_def)
  have m: "maxSpeed defaultParams = 80" "minSpeed defaultParams = 1 / 2"
    by (simp_all add: defaultParams_def)
  have sc: "speedCap defaultParams ?inp ?u = ?u"
    by (rule speedCap_under) (simp add: l m)
  have id: "idleDecay defaultParams ?inp ?u = ?u"
    by (rule idleDecay_fast) (simp add: l m)
  show ?thesis
    unfolding flightVelocity_def vs sc id ..
qed

lemma diving_frame:
  "isCrashing (animate keyboardHost divingWorld)"
proof -
  define w1 where "w1 = updateParticles keyboardHost (1 / 60) (readClock keyboardHost divingWorld)"
  let ?a = "\<lparr>position = Vector3 0 380 0, quaternion = Quaternion 0 0 0 1, visible = True\<rparr>"
  let ?inp = "\<lparr>pitchInput = 0, rollInput = 0, yawInput = 0, thrustInput = 0, brakeInput = False,
        afterburnerInput = False\<rparr>"
  have dt: "min (clockDiff keyboardHost (clockReads divingWorld)) 0.1 = 1 / 60"
    by (simp add: keyboardHost_def)
  have f: "aircraftModel w1 = Some ?a" "playerVelocity w1 = Vector3 0 (- 20) 0"
      "playerAngularVelocity w1 = Vector3 0 0 0" "controlParams w1 = defaultParams"
      "\<not> isCrashing w1" "terrainMesh w1"
    by (simp_all add: w1_def)
  have inp: "readControls keyboardHost w1 = ?inp"
    by (simp add: readControls_def keyboardHost_def w1_def)
  have av: "angularStep defaultParams ?inp (1 / 60) (Vector3 0 0 0) = Vector3 0 0 0"
    by (simp add: angularStep_rest)
  have q: "orientationStep (Vector3 0 0 0) (1 / 60) (Quaternion 0 0 0 1) = Quaternion 0 0 0 1"
    by (rule orientationStep_rest)
  have p: "worldWrap (addScaledVector (Vector3 0 380 0) (Vector3 0 (- (119 / 6)) 0) (1 / 60))
      = Vector3 0 (136681 / 360) 0"
    by (simp add: worldWrap_def addScaledVector_def Vector3_def Let_def WORLD_BOUNDARY_def
        TERRAIN_SIZE_def)
  let ?W = "w1\<lparr>aircraftModel := Some (?a\<lparr>position := Vector3 0 (136681 / 360) 0,
                  quaternion := Quaternion 0 0 0 1\<rparr>),
               playerVelocity := Vector3 0 (- (119 / 6)) 0,
               playerAngularVelocity := Vector3 0 0 0\<rparr>"
  have pu: "physicsUpdate keyboardHost (1 / 60) w1 = collision keyboardHost ?W"
    unfolding physicsUpdate_def Let_def f(1,2,3,4) inp option.sel
    by (simp only: vec3.simps aircraft.simps av q diving_velocity p)
  have h0: "getProceduralTerrainHeight (vx (Vector3 0 (136681 / 360) 0)) (vz (Vector3 0 (136681 / 360) 0)) = 382"
    using height_at_origin by (simp add: Vector3_def)
  have c: "collision keyboardHost ?W = (if isCrashing ?W then ?W else crashEntry keyboardHost ?W)"
    by (rule collision_crash[where a = "?a\<lparr>position := Vector3 0 (136681 / 360) 0,
                  quaternion := Quaternion 0 0 0 1\<rparr>"])
       (simp_all add: f h0, simp_all add: Vector3_def WATER_LEVEL_def AIRCRAFT_GROUND_BUFFER_def
          CRASH_VELOCITY_THRESHOLD_def)
  have "isCrashing (collision keyboardHost ?W)"
    unfolding c by (simp add: f crashEntry_effects)
  then have "isCrashing (physicsUpdate keyboardHost (1 / 60) w1)"
    unfolding pu .
  moreover have "animate keyboardHost divingWorld
      = hudFogCamera (1 / 60) (physicsUpdate keyboardHost (1 / 60) w1)"
    using animate_flying[of divingWorld keyboardHost] unfolding dt w1_def by simp
  ultimately show ?thesis by simp
qed

text \<open>Claim C4. In a run of frames and input events in which no timer fires (so no reset
  occurs): from a state that is not crashing, the crash-entry block runs once if the run
  ends crashing and not at all otherwise, and with it one timer is scheduled and, when the
  explosion system and the texture exist, one burst is triggered; from a state that is
  crashing, the flag stays set and the console, the reset timer, the pending timers, the
  timer counter, the explosion cursor, the aircraft and both velocities stay as they were.
  At the collision check itself, when the aircraft is below the effective ground plus the
  buffer with vertical velocity below the crash threshold: with the flag set nothing
  happens; with the flag clear the flag is set, the burst is triggered, the aircraft is
  hidden, both velocities are zeroed and the reset timer is scheduled.\<close>

theorem crash_single_trigger:
  assumes "\<forall>ev\<in>set evs. \<not> isTimeout ev"
  shows
    "(\<not> isCrashing w \<longrightarrow>
        crashEntries (run h evs w)
          = crashEntries w + (if isCrashing (run h evs w) then 1 else 0)
      \<and> explosionTriggers (run h evs w)
          = explosionTriggers w
            + (if isCrashing (run h evs w) \<and> crashExplosionSystem w \<noteq> None \<and> particleTexture w
               then 1 else 0)
      \<and> nextTimeoutId (run h evs w)
          = nextTimeoutId w + (if isCrashing (run h evs w) then 1 else 0))
   \<and> (isCrashing w \<longrightarrow>
        isCrashing (run h evs w)
      \<and> console (run h evs w) = console w
      \<and> crashResetTimeout (run h evs w) = crashResetTimeout w
      \<and> pendingTimeouts (run h evs w) = pendingTimeouts w
      \<and> nextTimeoutId (run h evs w) = nextTimeoutId w
      \<and> currentExplosionIndex (run h evs w) = currentExplosionIndex w
      \<and> aircraftModel (run h evs w) = aircraftModel w
      \<and> playerVelocity (run h evs w) = playerVelocity w
      \<and> playerAngularVelocity (run h evs w) = playerAngularVelocity w)
   \<and> (terrainMesh w \<and> aircraftModel w = Some a
      \<and> vy (position a)
          < max (getProceduralTerrainHeight (vx (position a)) (vz (position a))) WATER_LEVEL
            + AIRCRAFT_GROUND_BUFFER
      \<and> vy (playerVelocity w) < CRASH_VELOCITY_THRESHOLD \<longrightarrow>
        (isCrashing w \<longrightarrow> collision h w = w)
      \<and> (\<not> isCrashing w \<longrightarrow>
            isCrashing (collision h w)
          \<and> console (collision h w)
              = console w @ ''CRASH DETECTED!''
                  # (if crashExplosionSystem w \<noteq> None \<and> particleTexture w
                     then [''--- Triggering Crash Explosion ---''] else [])
          \<and> aircraftModel (collision h w) = Some (a\<lparr>visible := False\<rparr>)
          \<and> playerVelocity (collision h w) = Vector3 0 0 0
          \<and> playerAngularVelocity (collision h w) = Vector3 0 0 0
          \<and> crashResetTimeout (collision h w) = Some (nextTimeoutId w)
          \<and> nextTimeoutId w \<in> set (pendingTimeouts (collision h w))
          \<and> nextTimeoutId (collision h w) = Suc (nextTimeoutId w)))"
proof (intro conjI impI)
  assume n: "\<not> isCrashing w"
  note d = run_outcome[OF n assms, of h, unfolded crashDelta_def]
  show "crashEntries (run h evs w) = crashEntries w + (if isCrashing (run h evs w) then 1 else 0)"
    using d by (elim conjE)
  show "nextTimeoutId (run h evs w) = nextTimeoutId w + (if isCrashing (run h evs w) then 1 else 0)"
    using d by (elim conjE)
  have "explosionTriggers (run h evs w) = explosionTriggers w
      + (if crashExplosionSystem w \<noteq> None \<and> particleTexture w
         then if isCrashing (run h evs w) then 1 else 0 else 0)"
    using d by (elim conjE)
  then show "explosionTriggers (run h evs w) = explosionTriggers w
      + (if isCrashing (run h evs w) \<and> crashExplosionSystem w \<noteq> None \<and> particleTexture w
         then 1 else 0)"
    by (simp del: not_None_eq)
next
  assume c: "isCrashing w"
  note r = run_while_crashing[OF c assms, of h]
  show "isCrashing (run h evs w)" "console (run h evs w) = console w"
    "crashResetTimeout (run h evs w) = crashResetTimeout w"
    "pendingTimeouts (run h evs w) = pendingTimeouts w"
    "nextTimeoutId (run h evs w) = nextTimeoutId w"
    "currentExplosionIndex (run h evs w) = currentExplosionIndex w"
    "aircraftModel (run h evs w) = aircraftModel w"
    "playerVelocity (run h evs w) = playerVelocity w"
    "playerAngularVelocity (run h evs w) = playerAngularVelocity w"
    using r by simp_all
next
  assume g: "terrainMesh w \<and> aircraftModel w = Some a
      \<and> vy (position a)
          < max (getProceduralTerrainHeight (vx (position a)) (vz (position a))) WATER_LEVEL
            + AIRCRAFT_GROUND_BUFFER
      \<and> vy (playerVelocity w) < CRASH_VELOCITY_THRESHOLD"
  then have e: "collision h w = (if isCrashing w then w else crashEntry h w)"
    by (intro collision_crash[where a = a]) simp_all
  {
    assume "isCrashing w"
    then show "collision h w = w" using e by simp
  }
  assume n: "\<not> isCrashing w"
  then have e': "collision h w = crashEntry h w" using e by simp
  show "isCrashing (collision h w)"
    "console (collision h w)
              = console w @ ''CRASH DETECTED!''
                  # (if crashExplosionSystem w \<noteq> None \<and> particleTexture w
                     then [''--- Triggering Crash Explosion ---''] else [])"
    "aircraftModel (collision h w) = Some (a\<lparr>visible := False\<rparr>)"
    "playerVelocity (collision h w) = Vector3 0 0 0"
    "playerAngularVelocity (collision h w) = Vector3 0 0 0"
    "crashResetTimeout (collision h w) = Some (nextTimeoutId w)"
    "nextTimeoutId w \<in> set (pendingTimeouts (collision h w))"
    "nextTimeoutId (collision h w) = Suc (nextTimeoutId w)"
    unfolding e' using g by (simp_all add: crashEntry_effects del: not_None_eq)
qed


theorem crash_single_trigger_witness:
  "\<not> isCrashing divingWorld
   \<and> crashEntries divingWorld = 0
   \<and> explosionTriggers divingWorld = 0
   \<and> nextTimeoutId divingWorld = 1
   \<and> isCrashing (run keyboardHost [Frame, Frame, KeyDown ''w'' ''KeyW'', Frame] divingWorld)
   \<and> crashEntries (run keyboardHost [Frame, Frame, KeyDown ''w'' ''KeyW'', Frame] divingWorld) = 1
   \<and> explosionTriggers (run keyboardHost [Frame, Frame, KeyDown ''w'' ''KeyW'', Frame] divingWorld) = 1
   \<and> nextTimeoutId (run keyboardHost [Frame, Frame, KeyDown ''w'' ''KeyW'', Frame] divingWorld) = 2
   \<and> isCrashing crashedWorld
   \<and> console (run keyboardHost [Frame, Frame] crashedWorld)
       = [''CRASH DETECTED!'', ''--- Triggering Crash Explosion ---'']
   \<and> crashResetTimeout (run keyboardHost [Frame, Frame] crashedWorld) = Some 1
   \<and> pendingTimeouts (run keyboardHost [Frame, Frame] crashedWorld) = [1]
   \<and> nextTimeoutId (run keyboardHost [Frame, Frame] crashedWorld) = 2
   \<and> isCrashing (collision keyboardHost divingWorld)
   \<and> console (collision keyboardHost divingWorld)
       = [''CRASH DETECTED!'', ''--- Triggering Crash Explosion ---'']
   \<and> aircraftModel (collision keyboardHost divingWorld)
       = Some \<lparr>position = Vector3 0 380 0, quaternion = Quaternion 0 0 0 1, visible = False\<rparr>
   \<and> playerVelocity (collision keyboardHost divingWorld) = Vector3 0 0 0
   \<and> crashResetTimeout (collision keyboardHost divingWorld) = Some 1
   \<and> nextTimeoutId (collision keyboardHost divingWorld) = 2"
proof -
  let ?E = "[Frame, Frame, KeyDown ''w'' ''KeyW'', Frame]"
  let ?a = "\<lparr>position = Vector3 0 380 0, quaternion = Quaternion 0 0 0 1, visible = True\<rparr>"
  have n: "\<forall>ev\<in>set ?E. \<not> isTimeout ev" by simp
  have n1: "\<forall>ev\<in>set [Frame, KeyDown ''w'' ''KeyW'', Frame]. \<not> isTimeout ev" by simp
  have n2: "\<forall>ev\<in>set [Frame, Frame]. \<not> isTimeout ev" by simp
  have f: "\<not> isCrashing divingWorld" by simp
  have z: "crashEntries divingWorld = 0" "explosionTriggers divingWorld = 0"
      "nextTimeoutId divingWorld = 1"
    by (simp_all add: crashEntries_def explosionTriggers_def)
  have s: "crashExplosionSystem divingWorld \<noteq> None \<and> particleTexture divingWorld" by simp
  note T = crash_single_trigger[OF n, where w = divingWorld and h = keyboardHost and a = ?a]
  note T1 = crash_single_trigger[OF n1, where w = "animate keyboardHost divingWorld"
      and h = keyboardHost and a = ?a]
  note T2 = crash_single_trigger[OF n2, where w = crashedWorld and h = keyboardHost and a = ?a]
  have r: "run keyboardHost ?E divingWorld
      = run keyboardHost [Frame, KeyDown ''w'' ''KeyW'', Frame] (animate keyboardHost divingWorld)"
    by (simp add: run_def)
  have "isCrashing (run keyboardHost [Frame, KeyDown ''w'' ''KeyW'', Frame]
      (animate keyboardHost divingWorld))"
    using conjunct1[OF conjunct2[OF T1]] diving_frame by (elim impE conjE)
  then have c: "isCrashing (run keyboardHost ?E divingWorld)"
    unfolding r .
  have k: "crashEntries (run keyboardHost ?E divingWorld) = 1"
    "explosionTriggers (run keyboardHost ?E divingWorld) = 1"
    "nextTimeoutId (run keyboardHost ?E divingWorld) = 2"
    using conjunct1[OF T] f c s z by simp_all
  have cw: "isCrashing crashedWorld" by simp
  have m: "console (run keyboardHost [Frame, Frame] crashedWorld)
       = [''CRASH DETECTED!'', ''--- Triggering Crash Explosion ---'']"
    "crashResetTimeout (run keyboardHost [Frame, Frame] crashedWorld) = Some 1"
    "pendingTimeouts (run keyboardHost [Frame, Frame] crashedWorld) = [1]"
    "nextTimeoutId (run keyboardHost [Frame, Frame] crashedWorld) = 2"
    using conjunct1[OF conjunct2[OF T2]] cw by simp_all
  have g: "terrainMesh divingWorld \<and> aircraftModel divingWorld = Some ?a
      \<and> vy (position ?a)
          < max (getProceduralTerrainHeight (vx (position ?a)) (vz (position ?a))) WATER_LEVEL
            + AIRCRAFT_GROUND_BUFFER
      \<and> vy (playerVelocity divingWorld) < CRASH_VELOCITY_THRESHOLD"
    using height_at_origin
    by (simp add: Vector3_def WATER_LEVEL_def AIRCRAFT_GROUND_BUFFER_def CRASH_VELOCITY_THRESHOLD_def)
  note T3 = mp[OF conjunct2[OF mp[OF conjunct2[OF conjunct2[OF T]] g]] f]
  have e: "isCrashing (collision keyboardHost divingWorld)"
    "console (collision keyboardHost divingWorld)
       = [''CRASH DETECTED!'', ''--- Triggering Crash Explosion ---'']"
    "aircraftModel (collision keyboardHost divingWorld)
       = Some \<lparr>position = Vector3 0 380 0, quaternion = Quaternion 0 0 0 1, visible = False\<rparr>"
    "playerVelocity (collision keyboardHost divingWorld) = Vector3 0 0 0"
    "crashResetTimeout (collision keyboardHost divingWorld) = Some 1"
    "nextTimeoutId (collision keyboardHost divingWorld) = 2"
    using T3 by simp_all
  show ?thesis
    using f z c k cw m e by (intro conjI)
qed

end
